theory Spec2Isabelle
  imports Main
begin

section \<open>Python strings over ASCII text\<close>

text \<open>
  The converter reads and writes plain text files. A Python \<open>str\<close> is modelled as a
  \<open>string\<close> (a list of 8-bit characters); the model covers ASCII input, where
  \<open>strip\<close>, \<open>lower\<close>, \<open>upper\<close>, \<open>split\<close> and \<open>int\<close> see one character per byte.
\<close>

text \<open>\<open>str.isspace\<close> on ASCII: tab, line feed, vertical tab, form feed, carriage return,
  the four separators \<open>0x1C..0x1F\<close> and the blank.\<close>

definition is_space :: "char \<Rightarrow> bool" where
  "is_space c \<longleftrightarrow> c \<in> set [CHR 0x09, CHR 0x0A, CHR 0x0B, CHR 0x0C, CHR 0x0D,
     CHR 0x1C, CHR 0x1D, CHR 0x1E, CHR 0x1F, CHR 0x20]"

text \<open>\<open>s.strip()\<close>\<close>

definition strip :: "string \<Rightarrow> string" where
  "strip s = rev (dropWhile is_space (rev (dropWhile is_space s)))"

text \<open>\<open>s.lower()\<close> and \<open>s.upper()\<close>\<close>

definition lower_char :: "char \<Rightarrow> char" where
  "lower_char c = (case map_of (zip ''ABCDEFGHIJKLMNOPQRSTUVWXYZ'' ''abcdefghijklmnopqrstuvwxyz'') c of
     Some d \<Rightarrow> d | None \<Rightarrow> c)"

definition upper_char :: "char \<Rightarrow> char" where
  "upper_char c = (case map_of (zip ''abcdefghijklmnopqrstuvwxyz'' ''ABCDEFGHIJKLMNOPQRSTUVWXYZ'') c of
     Some d \<Rightarrow> d | None \<Rightarrow> c)"

definition lower :: "string \<Rightarrow> string" where
  "lower s = map lower_char s"

definition upper :: "string \<Rightarrow> string" where
  "upper s = map upper_char s"

text \<open>\<open>s.startswith(p)\<close>\<close>

definition startswith :: "string \<Rightarrow> string \<Rightarrow> bool" where
  "startswith s p \<longleftrightarrow> take (length p) s = p"

text \<open>\<open>s.split(c)\<close> with an explicit one-character separator: never empty, one more
  field than there are separators.\<close>

fun split_on :: "char \<Rightarrow> string \<Rightarrow> string list" where
  "split_on c [] = [[]]"
| "split_on c (x # xs) =
     (if x = c then [] # split_on c xs
      else (case split_on c xs of
              [] \<Rightarrow> [[x]]
            | p # ps \<Rightarrow> (x # p) # ps))"

text \<open>\<open>s.split()\<close> without a separator: maximal runs of non-blank characters; no empty
  token. \<open>cur\<close> is the token being read.\<close>

fun split_ws_from :: "string \<Rightarrow> string \<Rightarrow> string list" where
  "split_ws_from cur [] = (if cur = [] then [] else [cur])"
| "split_ws_from cur (c # cs) =
     (if is_space c then (if cur = [] then split_ws_from [] cs else cur # split_ws_from [] cs)
      else split_ws_from (cur @ [c]) cs)"

definition split_ws :: "string \<Rightarrow> string list" where
  "split_ws s = split_ws_from [] s"

text \<open>\<open>s.replace(a, b)\<close> for single characters.\<close>

definition replace_char :: "char \<Rightarrow> char \<Rightarrow> string \<Rightarrow> string" where
  "replace_char a b s = map (\<lambda>c. if c = a then b else c) s"

text \<open>\<open>key in s\<close> together with \<open>s[s.index(key) + len(key):]\<close>: the text after the first
  occurrence of \<open>key\<close>, or \<open>None\<close> when \<open>key\<close> does not occur.\<close>

fun after_first :: "string \<Rightarrow> string \<Rightarrow> string option" where
  "after_first key [] = (if key = [] then Some [] else None)"
| "after_first key (c # cs) =
     (if take (length key) (c # cs) = key then Some (drop (length key) (c # cs))
      else after_first key cs)"

text \<open>\<open>sep.join(xs)\<close>\<close>

fun join :: "string \<Rightarrow> string list \<Rightarrow> string" where
  "join sep [] = []"
| "join sep [x] = x"
| "join sep (x # y # ys) = x @ sep @ join sep (y # ys)"

section \<open>Python integers: \<open>int(str)\<close> and \<open>str(int)\<close>\<close>

datatype py_error =
    ValueError_int string      \<comment> \<open>invalid literal for \<open>int()\<close>\<close>
  | ValueError_float string    \<comment> \<open>could not convert string to float\<close>
  | ValueError_unpack nat      \<comment> \<open>wrong number of values to unpack (the number found)\<close>
  | KeyError_name string       \<comment> \<open>a missing set, surface or face name\<close>
  | KeyError_id int            \<comment> \<open>a missing node or element ID\<close>
  | IndexError

definition digit_val :: "char \<Rightarrow> nat option" where
  "digit_val c = map_of (zip ''0123456789'' [0, 1, 2, 3, 4, 5, 6, 7, 8, 9]) c"

text \<open>The digits after the first one; a single underscore may stand between two digits.\<close>

fun py_digits :: "nat \<Rightarrow> string \<Rightarrow> nat option" where
  "py_digits acc [] = Some acc"
| "py_digits acc (c # cs) =
     (case digit_val c of
        Some d \<Rightarrow> py_digits (10 * acc + d) cs
      | None \<Rightarrow>
          (if c = CHR ''_'' then
             (case cs of
                [] \<Rightarrow> None
              | c' # cs' \<Rightarrow>
                  (case digit_val c' of
                     Some d \<Rightarrow> py_digits (10 * acc + d) cs'
                   | None \<Rightarrow> None))
           else None))"

text \<open>The interpreter refuses to convert a text of more than \<open>sys.get_int_max_str_digits()\<close>
  digits (4300 unless it is set otherwise); underscores are not counted.\<close>

definition int_max_str_digits :: nat where
  "int_max_str_digits = 4300"

definition py_nat :: "string \<Rightarrow> nat option" where
  "py_nat s =
     (if length (filter (\<lambda>c. digit_val c \<noteq> None) s) > int_max_str_digits then None
      else (case s of
          [] \<Rightarrow> None
        | c # cs \<Rightarrow> (case digit_val c of Some d \<Rightarrow> py_digits d cs | None \<Rightarrow> None)))"

text \<open>The blanks that \<open>int()\<close> skips before and after the number in an ASCII text: tab, line
  feed, vertical tab, form feed, carriage return and the blank. The separators
  \<open>0x1C..0x1F\<close>, which \<open>strip\<close> drops, are no blanks here.\<close>

definition is_int_space :: "char \<Rightarrow> bool" where
  "is_int_space c \<longleftrightarrow> c \<in> set [CHR 0x09, CHR 0x0A, CHR 0x0B, CHR 0x0C, CHR 0x0D, CHR 0x20]"

definition int_strip :: "string \<Rightarrow> string" where
  "int_strip s = rev (dropWhile is_int_space (rev (dropWhile is_int_space s)))"

text \<open>\<open>int(s)\<close> in base 10: the blanks around the number are skipped, one sign is allowed;
  \<open>None\<close> stands for the \<open>ValueError\<close>.\<close>

definition py_int :: "string \<Rightarrow> int option" where
  "py_int s = (case int_strip s of
       [] \<Rightarrow> None
     | c # cs \<Rightarrow>
         (if c = CHR ''-'' then map_option (\<lambda>n. - int n) (py_nat cs)
          else if c = CHR ''+'' then map_option int (py_nat cs)
          else map_option int (py_nat (c # cs))))"

text \<open>\<open>[int(x) for x in xs]\<close>: the first token that is no integer raises.\<close>

fun ints_of :: "string list \<Rightarrow> py_error + int list" where
  "ints_of [] = Inr []"
| "ints_of (x # xs) =
     (case py_int x of
        None \<Rightarrow> Inl (ValueError_int x)
      | Some i \<Rightarrow> (case ints_of xs of Inl e \<Rightarrow> Inl e | Inr is \<Rightarrow> Inr (i # is)))"

definition digit_char :: "nat \<Rightarrow> char" where
  "digit_char d = ''0123456789'' ! d"

fun nat_digits :: "nat \<Rightarrow> string" where
  "nat_digits n = (if n < 10 then [digit_char n] else nat_digits (n div 10) @ [digit_char (n mod 10)])"

text \<open>\<open>str(i)\<close> and \<open>"{:d}".format(i)\<close>, for the integers that \<open>int(str)\<close> can return (the
  conversion back has the same limit on the number of digits).\<close>

definition py_str :: "int \<Rightarrow> string" where
  "py_str i = (if i < 0 then CHR ''-'' # nat_digits (nat (- i)) else nat_digits (nat i))"

section \<open>Python dictionaries\<close>

text \<open>
  A \<open>dict\<close> keeps its keys in insertion order, which is the order in which the writer
  walks the named sets. It is an association list with distinct keys: assigning to a key
  that is present replaces its value in place, a new key goes to the end.
\<close>

fun dict_set :: "('k \<times> 'v) list \<Rightarrow> 'k \<Rightarrow> 'v \<Rightarrow> ('k \<times> 'v) list" where
  "dict_set [] k v = [(k, v)]"
| "dict_set ((k', v') # d) k v = (if k' = k then (k, v) # d else (k', v') # dict_set d k v)"

text \<open>\<open>d.setdefault(k, v)\<close>, the result of which the parser drops.\<close>

definition setdefault :: "('k \<times> 'v) list \<Rightarrow> 'k \<Rightarrow> 'v \<Rightarrow> ('k \<times> 'v) list" where
  "setdefault d k v = (case map_of d k of None \<Rightarrow> d @ [(k, v)] | Some _ \<Rightarrow> d)"

section \<open>The parsed model and the parser state\<close>

text \<open>
  \<open>parse_inp\<close> of \<open>main_Convert.py\<close> keeps five dictionaries and five local variables
  while it walks the lines of the input file. Coordinates are Python floats: their type
  \<open>'f\<close> and the conversion \<open>float(str)\<close> are parameters of the model
  (\<open>py_float\<close>, with \<open>None\<close> for the \<open>ValueError\<close>).
\<close>

record 'f parser_state =
  nodes :: "(int \<times> ('f \<times> 'f \<times> 'f)) list"
  elements :: "(int \<times> int list) list"
  nsets :: "(string \<times> int list) list"
  elsets :: "(string \<times> int list) list"
  surfaces :: "(string \<times> (int \<times> string) list) list"
  reading_nodes :: bool
  reading_elements :: bool
  current_elset_name :: "string option"
  current_nset_name :: "string option"
  current_surf_name :: "string option"

definition init_state :: "'f parser_state" where
  "init_state = \<lparr>nodes = [], elements = [], nsets = [], elsets = [], surfaces = [],
     reading_nodes = False, reading_elements = False,
     current_elset_name = None, current_nset_name = None, current_surf_name = None\<rparr>"

subsection \<open>Keyword lines\<close>

text \<open>\<open>rest = lower_line[start:].split(',')[0]\<close>\<close>

definition first_field :: "string \<Rightarrow> string" where
  "first_field s = (case split_on (CHR '','') s of [] \<Rightarrow> [] | p # _ \<Rightarrow> p)"

text \<open>The \<open>name\<close> variable of the three set directives: \<open>None\<close> unless the key occurs in
  the lower-cased line, else the text up to the next comma, stripped and upper-cased.\<close>

definition extract_name :: "string \<Rightarrow> string \<Rightarrow> string option" where
  "extract_name key lower_line =
     (case after_first key lower_line of
        None \<Rightarrow> None
      | Some rest \<Rightarrow> Some (upper (strip (first_field rest))))"

text \<open>\<open>if name:\<close> holds for a non-empty string only.\<close>

definition named :: "string option \<Rightarrow> bool" where
  "named name \<longleftrightarrow> (case name of None \<Rightarrow> False | Some n \<Rightarrow> n \<noteq> [])"

text \<open>
  The body of \<open>if line_stripped.startswith('*'):\<close> (lines 49 to 128). The element type
  string computed for \<open>*element\<close> is never read and cannot raise; it is left out.
  The \<open>else: name = None\<close> of the surface branch assigns a local variable only.
\<close>

definition directive :: "'f parser_state \<Rightarrow> string \<Rightarrow> 'f parser_state" where
  "directive s line_stripped =
     (let s0 = s\<lparr>reading_nodes := False, reading_elements := False\<rparr>;
          lower_line = lower line_stripped
      in if startswith lower_line ''*node'' then s0\<lparr>reading_nodes := True\<rparr>
         else if startswith lower_line ''*element'' then s0\<lparr>reading_elements := True\<rparr>
         else if startswith lower_line ''*nset'' then
           (let name = extract_name ''nset='' lower_line
            in if named name
               then s0\<lparr>current_nset_name := name,
                       nsets := setdefault (nsets s0) (the name) [],
                       current_elset_name := None,
                       current_surf_name := None\<rparr>
               else s0\<lparr>current_nset_name := None\<rparr>)
         else if startswith lower_line ''*elset'' then
           (let name = extract_name ''elset='' lower_line
            in if named name
               then s0\<lparr>current_elset_name := name,
                       elsets := setdefault (elsets s0) (the name) [],
                       current_nset_name := None,
                       current_surf_name := None\<rparr>
               else s0\<lparr>current_elset_name := None\<rparr>)
         else if startswith lower_line ''*surface'' then
           (let name = extract_name ''name='' lower_line
            in if named name
               then s0\<lparr>current_surf_name := name,
                       surfaces := setdefault (surfaces s0) (the name) [],
                       current_elset_name := None,
                       current_nset_name := None\<rparr>
               else s0)
         else s0)"

subsection \<open>Data lines\<close>

text \<open>The node branch (lines 131 to 140).\<close>

definition node_line :: "(string \<Rightarrow> 'f option) \<Rightarrow> 'f parser_state \<Rightarrow> string \<Rightarrow> py_error + 'f parser_state" where
  "node_line py_float s line_stripped =
     (let parts = split_on (CHR '','') line_stripped
      in if length parts \<ge> 4 then
           (case py_int (parts ! 0) of
              None \<Rightarrow> Inl (ValueError_int (parts ! 0))
            | Some nid \<Rightarrow>
           (case py_float (parts ! 1) of
              None \<Rightarrow> Inl (ValueError_float (parts ! 1))
            | Some x \<Rightarrow>
           (case py_float (parts ! 2) of
              None \<Rightarrow> Inl (ValueError_float (parts ! 2))
            | Some y \<Rightarrow>
           (case py_float (parts ! 3) of
              None \<Rightarrow> Inl (ValueError_float (parts ! 3))
            | Some z \<Rightarrow> Inr (s\<lparr>nodes := dict_set (nodes s) nid (x, y, z)\<rparr>)))))
         else Inr s)"

text \<open>The element branch (lines 143 to 150); \<open>parts[1:9]\<close> is \<open>take 8 (drop 1 parts)\<close>.\<close>

definition element_line :: "'f parser_state \<Rightarrow> string \<Rightarrow> py_error + 'f parser_state" where
  "element_line s line_stripped =
     (let parts = split_on (CHR '','') line_stripped
      in if length parts \<ge> 9 then
           (case py_int (parts ! 0) of
              None \<Rightarrow> Inl (ValueError_int (parts ! 0))
            | Some eid \<Rightarrow>
           (case ints_of (take 8 (drop 1 parts)) of
              Inl e \<Rightarrow> Inl e
            | Inr conn \<Rightarrow> Inr (s\<lparr>elements := dict_set (elements s) eid conn\<rparr>)))
         else Inr s)"

text \<open>\<open>if reading_nodes: ... elif reading_elements: ...\<close>\<close>

definition section_line :: "(string \<Rightarrow> 'f option) \<Rightarrow> 'f parser_state \<Rightarrow> string \<Rightarrow> py_error + 'f parser_state" where
  "section_line py_float s line_stripped =
     (if reading_nodes s then node_line py_float s line_stripped
      else if reading_elements s then element_line s line_stripped
      else Inr s)"

text \<open>\<open>line_stripped.replace(',', ' ').split()\<close>\<close>

definition id_tokens :: "string \<Rightarrow> string list" where
  "id_tokens line_stripped = split_ws (replace_char (CHR '','') (CHR '' '') line_stripped)"

text \<open>Lines 153 to 165: the tokens are converted first, then \<open>nsets[current_nset_name]\<close>
  is looked up and extended.\<close>

definition nset_line :: "'f parser_state \<Rightarrow> string \<Rightarrow> py_error + 'f parser_state" where
  "nset_line s line_stripped =
     (case current_nset_name s of
        None \<Rightarrow> Inr s
      | Some name \<Rightarrow>
          (if line_stripped \<noteq> [] \<and> \<not> startswith line_stripped ''*'' then
             (case ints_of (id_tokens line_stripped) of
                Inl e \<Rightarrow> Inl e
              | Inr ids \<Rightarrow>
                  (case map_of (nsets s) name of
                     None \<Rightarrow> Inl (KeyError_name name)
                   | Some members \<Rightarrow> Inr (s\<lparr>nsets := dict_set (nsets s) name (members @ ids)\<rparr>)))
           else Inr s))"

text \<open>Lines 168 to 170.\<close>

definition elset_line :: "'f parser_state \<Rightarrow> string \<Rightarrow> py_error + 'f parser_state" where
  "elset_line s line_stripped =
     (case current_elset_name s of
        None \<Rightarrow> Inr s
      | Some name \<Rightarrow>
          (if line_stripped \<noteq> [] \<and> \<not> startswith line_stripped ''*'' then
             (case ints_of (id_tokens line_stripped) of
                Inl e \<Rightarrow> Inl e
              | Inr ids \<Rightarrow>
                  (case map_of (elsets s) name of
                     None \<Rightarrow> Inl (KeyError_name name)
                   | Some members \<Rightarrow> Inr (s\<lparr>elsets := dict_set (elsets s) name (members @ ids)\<rparr>)))
           else Inr s))"

text \<open>Lines 173 to 175: \<open>[id, surf] = line_stripped.split(',')\<close> raises unless there are
  exactly two fields; then \<open>surfaces[current_surf_name]\<close> is looked up before \<open>int(id)\<close>
  is evaluated (\<open>id_str\<close> is the source's \<open>id\<close>). The face label is the second field as it stands.\<close>

definition surf_line :: "'f parser_state \<Rightarrow> string \<Rightarrow> py_error + 'f parser_state" where
  "surf_line s line_stripped =
     (case current_surf_name s of
        None \<Rightarrow> Inr s
      | Some name \<Rightarrow>
          (if line_stripped \<noteq> [] \<and> \<not> startswith line_stripped ''*'' then
             (case split_on (CHR '','') line_stripped of
                [id_str, surf] \<Rightarrow>
                  (case map_of (surfaces s) name of
                     None \<Rightarrow> Inl (KeyError_name name)
                   | Some defs \<Rightarrow>
                       (case py_int id_str of
                          None \<Rightarrow> Inl (ValueError_int id_str)
                        | Some i \<Rightarrow> Inr (s\<lparr>surfaces := dict_set (surfaces s) name (defs @ [(i, surf)])\<rparr>)))
              | parts \<Rightarrow> Inl (ValueError_unpack (length parts)))
           else Inr s))"

text \<open>One line that is no keyword line: the section branch, then the three named
  collections in the order of the source.\<close>

definition data_line :: "(string \<Rightarrow> 'f option) \<Rightarrow> 'f parser_state \<Rightarrow> string \<Rightarrow> py_error + 'f parser_state" where
  "data_line py_float s line_stripped =
     (case section_line py_float s line_stripped of
        Inl e \<Rightarrow> Inl e
      | Inr s1 \<Rightarrow>
     (case nset_line s1 line_stripped of
        Inl e \<Rightarrow> Inl e
      | Inr s2 \<Rightarrow>
     (case elset_line s2 line_stripped of
        Inl e \<Rightarrow> Inl e
      | Inr s3 \<Rightarrow> surf_line s3 line_stripped)))"

subsection \<open>The loop over the lines\<close>

text \<open>The body of \<open>for line in f:\<close>.\<close>

definition parse_line :: "(string \<Rightarrow> 'f option) \<Rightarrow> 'f parser_state \<Rightarrow> string \<Rightarrow> py_error + 'f parser_state" where
  "parse_line py_float s line =
     (let line_stripped = strip line
      in if line_stripped = [] \<or> startswith line_stripped ''**'' then Inr s
         else if startswith line_stripped ''*'' then Inr (directive s line_stripped)
         else data_line py_float s line_stripped)"

fun parse_lines :: "(string \<Rightarrow> 'f option) \<Rightarrow> 'f parser_state \<Rightarrow> string list \<Rightarrow> py_error + 'f parser_state" where
  "parse_lines py_float s [] = Inr s"
| "parse_lines py_float s (line # rest) =
     (case parse_line py_float s line of
        Inl e \<Rightarrow> Inl e
      | Inr s' \<Rightarrow> parse_lines py_float s' rest)"

text \<open>\<open>parse_inp\<close> on the lines of the input file; it returns the five dictionaries.\<close>

definition parse_inp :: "(string \<Rightarrow> 'f option) \<Rightarrow> string list \<Rightarrow>
    py_error + ((int \<times> ('f \<times> 'f \<times> 'f)) list \<times> (int \<times> int list) list \<times>
      (string \<times> int list) list \<times> (string \<times> int list) list \<times> (string \<times> (int \<times> string) list) list)" where
  "parse_inp py_float lines =
     (case parse_lines py_float init_state lines of
        Inl e \<Rightarrow> Inl e
      | Inr s \<Rightarrow> Inr (nodes s, elements s, nsets s, elsets s, surfaces s))"

section \<open>The static tables of \<open>config.py\<close>\<close>

text \<open>The local node positions (counted from 1) of the six faces of a hexahedron.\<close>

definition abq_surf_def :: "(string \<times> int list) list" where
  "abq_surf_def = [(''S1'', [1, 2, 3, 4]), (''S2'', [5, 8, 7, 6]), (''S3'', [1, 5, 6, 2]),
     (''S4'', [2, 6, 7, 3]), (''S5'', [3, 7, 8, 4]), (''S6'', [4, 8, 5, 1])]"

definition nodeset_ssid :: "(string \<times> int) list" where
  "nodeset_ssid = [(''K1A'', 999), (''K2A'', 888), (''K1B'', 777), (''K2B'', 666)]"

definition segmentset_ssid :: "(string \<times> int) list" where
  "segmentset_ssid = [(''FACEK1A'', 555), (''FACEK2A'', 444), (''FACEK1B'', 333),
     (''FACEK2B'', 222), (''OUTERS'', 111), (''ELSURF'', 1111)]"

definition elementset_ssid :: "(string \<times> int) list" where
  "elementset_ssid = [(''FLUID1'', 2222), (''FLUID2'', 3333)]"

section \<open>The writer\<close>

text \<open>
  The arguments \<open>nodes\<close>, \<open>elements\<close>, \<open>nsets\<close>, \<open>elsets\<close> and \<open>surfaces\<close> of
  \<open>write_k\<close> are written \<open>node_dict\<close>, \<open>elem_dict\<close>, \<open>nset_dict\<close>, \<open>elset_dict\<close> and
  \<open>surf_dict\<close> here: the short names are the fields of the parser state.
  \<open>write_k\<close> writes to the output file as it goes. When a statement raises, the
  \<open>with\<close> block closes the file, so what was written before stays in it. A piece of
  the writer is therefore a pair: the text it has written, and the exception it raised
  (if any).
\<close>

type_synonym written = "string \<times> py_error option"

text \<open>One piece after another: the second runs only if the first did not raise.\<close>

definition then_write :: "written \<Rightarrow> written \<Rightarrow> written" where
  "then_write a b = (case snd a of Some e \<Rightarrow> a | None \<Rightarrow> (fst a @ fst b, snd b))"

text \<open>\<open>f.write(text)\<close>\<close>

definition f_write :: "string \<Rightarrow> written" where
  "f_write txt = (txt, None)"

text \<open>\<open>raise\<close>\<close>

definition py_raise :: "py_error \<Rightarrow> written" where
  "py_raise e = ([], Some e)"

text \<open>\<open>for x in xs: body\<close>\<close>

fun for_each :: "('a \<Rightarrow> written) \<Rightarrow> 'a list \<Rightarrow> written" where
  "for_each body [] = ([], None)"
| "for_each body (x # xs) = then_write (body x) (for_each body xs)"

subsection \<open>Node and element blocks\<close>

text \<open>Lines 202 to 205. \<open>fmt_g\<close> stands for \<open>"{:g}".format\<close> on a float; the two padding
  fields format the integer 0.\<close>

definition node_entry :: "('f \<Rightarrow> string) \<Rightarrow> (int \<times> ('f \<times> 'f \<times> 'f)) list \<Rightarrow> int \<Rightarrow> written" where
  "node_entry fmt_g node_dict nid =
     (case map_of node_dict nid of
        None \<Rightarrow> py_raise (KeyError_id nid)
      | Some (x, y, z) \<Rightarrow>
          f_write (py_str nid @ '', '' @ fmt_g x @ '', '' @ fmt_g y @ '', '' @ fmt_g z @ '', '' @
                 py_str 0 @ '', '' @ py_str 0 @ ''\<newline>''))"

definition node_block :: "('f \<Rightarrow> string) \<Rightarrow> (int \<times> ('f \<times> 'f \<times> 'f)) list \<Rightarrow> written" where
  "node_block fmt_g node_dict =
     then_write (f_write ''*DUALCESE_NODE3D\<newline>'')
       (for_each (node_entry fmt_g node_dict) (sort (map fst node_dict)))"

text \<open>Lines 210 to 223: the three writes of one element line, with \<open>pid = 1\<close>.\<close>

definition element_entry :: "(int \<times> int list) list \<Rightarrow> int \<Rightarrow> written" where
  "element_entry elem_dict eid =
     (let pid = 1 in
      case map_of elem_dict eid of
        None \<Rightarrow> py_raise (KeyError_id eid)
      | Some conn \<Rightarrow>
          (if length conn = 8 then
             then_write (f_write (py_str eid @ '', '' @ py_str pid))
               (then_write (for_each (\<lambda>nn. f_write ('', '' @ py_str nn)) conn)
                  (f_write ''\<newline>''))
           else f_write []))"

definition element_block :: "(int \<times> int list) list \<Rightarrow> written" where
  "element_block elem_dict =
     then_write (f_write ''*DUALCESE_ELE3D\<newline>'')
       (for_each (element_entry elem_dict) (sort (map fst elem_dict)))"

subsection \<open>Member lists of node sets and element sets\<close>

text \<open>\<open>range(0, n, k)\<close> for a positive step.\<close>

definition range_step :: "nat \<Rightarrow> nat \<Rightarrow> nat list" where
  "range_step n k = map (\<lambda>j. j * k) [0 ..< (n + k - 1) div k]"

text \<open>\<open>sorted(set(member_list))\<close>\<close>

definition sorted_set :: "int list \<Rightarrow> int list" where
  "sorted_set member_list = sort (remdups member_list)"

text \<open>Lines 234 to 238 and 272 to 276: \<open>xs[i:i+chunk_size]\<close> is
  \<open>take chunk_size (drop i xs)\<close>.\<close>

definition chunks :: "nat \<Rightarrow> 'a list \<Rightarrow> 'a list list" where
  "chunks chunk_size xs = map (\<lambda>i. take chunk_size (drop i xs)) (range_step (length xs) chunk_size)"

definition chunk_line :: "int list \<Rightarrow> string" where
  "chunk_line chunk = join '', '' (map py_str chunk) @ ''\<newline>''"

definition write_members :: "int list \<Rightarrow> written" where
  "write_members member_list =
     (let chunk_size = 8
      in for_each (\<lambda>chunk. f_write (chunk_line chunk)) (chunks chunk_size (sorted_set member_list)))"

subsection \<open>Node-set, surface and element-set blocks\<close>

text \<open>Lines 226 to 238: the comment line and the directive line are written, then the
  numeric ID is looked up.\<close>

definition nset_block :: "string \<times> int list \<Rightarrow> written" where
  "nset_block entry =
     (case entry of (set_name, node_list) \<Rightarrow>
        then_write (f_write (''$ Node set: '' @ set_name @ ''\<newline>''))
       (then_write (f_write ''*DUALCESE_NODESET\<newline>'')
          (case map_of nodeset_ssid set_name of
             None \<Rightarrow> py_raise (KeyError_name set_name)
           | Some curid \<Rightarrow>
               then_write (f_write (''       '' @ py_str curid @ ''\<newline>''))
                 (write_members node_list))))"

text \<open>\<open>xs[i]\<close> for a Python list: a negative index counts from the end.\<close>

definition py_getitem :: "'a list \<Rightarrow> int \<Rightarrow> py_error + 'a" where
  "py_getitem xs i =
     (if 0 \<le> i \<and> i < int (length xs) then Inr (xs ! nat i)
      else if i < 0 \<and> - int (length xs) \<le> i then Inr (xs ! nat (i + int (length xs)))
      else Inl IndexError)"

text \<open>\<open>[curelm[i] for i in curnodes]\<close>\<close>

fun getitems :: "'a list \<Rightarrow> int list \<Rightarrow> py_error + 'a list" where
  "getitems xs [] = Inr []"
| "getitems xs (i # is) =
     (case py_getitem xs i of
        Inl e \<Rightarrow> Inl e
      | Inr v \<Rightarrow> (case getitems xs is of Inl e \<Rightarrow> Inl e | Inr vs \<Rightarrow> Inr (v # vs)))"

text \<open>Lines 241 to 245.\<close>

definition get_surface_nodes :: "(int \<times> int list) list \<Rightarrow> int \<Rightarrow> string \<Rightarrow> py_error + int list" where
  "get_surface_nodes elem_dict elmid faceid =
     (case map_of elem_dict elmid of
        None \<Rightarrow> Inl (KeyError_id elmid)
      | Some curelm \<Rightarrow>
          (case map_of abq_surf_def faceid of
             None \<Rightarrow> Inl (KeyError_name faceid)
           | Some curnodes \<Rightarrow> getitems curelm (map (\<lambda>i. i - 1) curnodes)))"

text \<open>Lines 256 to 260.\<close>

definition surface_entry :: "(int \<times> int list) list \<Rightarrow> int \<times> string \<Rightarrow> written" where
  "surface_entry elem_dict surf =
     (case surf of (elmid, faceid) \<Rightarrow>
        (case get_surface_nodes elem_dict elmid faceid of
           Inl e \<Rightarrow> py_raise e
         | Inr curnodes \<Rightarrow>
             (case curnodes of
                n0 # n1 # n2 # n3 # _ \<Rightarrow>
                  f_write (py_str n0 @ '', '' @ py_str n1 @ '', '' @ py_str n2 @ '', '' @ py_str n3 @
                         '',0.0,0.0,0.0,0.0\<newline>'')
              | _ \<Rightarrow> py_raise IndexError)))"

text \<open>Lines 249 to 260.\<close>

definition surf_block :: "(int \<times> int list) list \<Rightarrow> string \<times> (int \<times> string) list \<Rightarrow> written" where
  "surf_block elem_dict entry =
     (case entry of (set_name, surf_list) \<Rightarrow>
        then_write (f_write (''$ Surface set: '' @ set_name @ ''\<newline>''))
       (then_write (f_write ''*DUALCESE_SEGMENTSET\<newline>'')
          (case map_of segmentset_ssid set_name of
             None \<Rightarrow> py_raise (KeyError_name set_name)
           | Some curid \<Rightarrow>
               then_write (f_write (''       '' @ py_str curid @ ''\<newline>''))
                 (for_each (surface_entry elem_dict) surf_list))))"

text \<open>Lines 264 to 276.\<close>

definition elset_block :: "string \<times> int list \<Rightarrow> written" where
  "elset_block entry =
     (case entry of (set_name, elem_list) \<Rightarrow>
        then_write (f_write (''$ Element set: '' @ set_name @ ''\<newline>''))
       (then_write (f_write ''*DUALCESE_ELEMENTSET\<newline>'')
          (case map_of elementset_ssid set_name of
             None \<Rightarrow> py_raise (KeyError_name set_name)
           | Some curid \<Rightarrow>
               then_write (f_write (''      '' @ py_str curid @ ''\<newline>''))
                 (write_members elem_list))))"

subsection \<open>The whole file\<close>

definition write_k :: "('f \<Rightarrow> string) \<Rightarrow> (int \<times> ('f \<times> 'f \<times> 'f)) list \<Rightarrow> (int \<times> int list) list \<Rightarrow>
    (string \<times> int list) list \<Rightarrow> (string \<times> int list) list \<Rightarrow> (string \<times> (int \<times> string) list) list \<Rightarrow> written" where
  "write_k fmt_g node_dict elem_dict nset_dict elset_dict surf_dict =
     then_write (node_block fmt_g node_dict)
    (then_write (element_block elem_dict)
    (then_write (for_each nset_block nset_dict)
    (then_write (for_each (surf_block elem_dict) surf_dict)
    (then_write (for_each elset_block elset_dict)
       (f_write ''*END\<newline>'')))))"

text \<open>\<open>main\<close>: the output file is opened only after the input has been parsed. The result is
  the content of the output file, if it was opened, and the exception that ended the run,
  if any.\<close>

definition main :: "(string \<Rightarrow> 'f option) \<Rightarrow> ('f \<Rightarrow> string) \<Rightarrow> string list \<Rightarrow> string option \<times> py_error option" where
  "main py_float fmt_g lines =
     (case parse_inp py_float lines of
        Inl e \<Rightarrow> (None, Some e)
      | Inr (node_dict, elem_dict, nset_dict, elset_dict, surf_dict) \<Rightarrow>
          (case write_k fmt_g node_dict elem_dict nset_dict elset_dict surf_dict of
             (out, err) \<Rightarrow> (Some out, err)))"

section \<open>The parser of the draft script \<open>Untitled-1.py\<close>\<close>

text \<open>
  The repository holds an earlier script with a \<open>parse_inp\<close> of its own. It has no
  \<open>current_surf_name\<close> variable (the field is left as it is), its \<open>*node\<close> and
  \<open>*element\<close> directives reset both set names, its set directives do not reset each other,
  and its element branch takes every line of two fields or more.
\<close>

definition draft_directive :: "'f parser_state \<Rightarrow> string \<Rightarrow> 'f parser_state" where
  "draft_directive s line_stripped =
     (let s0 = s\<lparr>reading_nodes := False, reading_elements := False\<rparr>;
          lower_line = lower line_stripped
      in if startswith lower_line ''*node''
         then s0\<lparr>reading_nodes := True, current_nset_name := None, current_elset_name := None\<rparr>
         else if startswith lower_line ''*element''
         then s0\<lparr>reading_elements := True, current_nset_name := None, current_elset_name := None\<rparr>
         else if startswith lower_line ''*nset'' then
           (let name = extract_name ''nset='' lower_line
            in if named name
               then s0\<lparr>current_nset_name := name, nsets := setdefault (nsets s0) (the name) []\<rparr>
               else s0\<lparr>current_nset_name := None\<rparr>)
         else if startswith lower_line ''*elset'' then
           (let name = extract_name ''elset='' lower_line
            in if named name
               then s0\<lparr>current_elset_name := name, elsets := setdefault (elsets s0) (the name) []\<rparr>
               else s0\<lparr>current_elset_name := None\<rparr>)
         else if startswith lower_line ''*surface'' then
           (let name = extract_name ''name='' lower_line
            in if named name
               then s0\<lparr>surfaces := setdefault (surfaces s0) (the name) []\<rparr>
               else s0)
         else s0)"

text \<open>Lines 122 to 129 of the draft: \<open>parts[1:]\<close> is \<open>drop 1 parts\<close>.\<close>

definition draft_element_line :: "'f parser_state \<Rightarrow> string \<Rightarrow> py_error + 'f parser_state" where
  "draft_element_line s line_stripped =
     (let parts = split_on (CHR '','') line_stripped
      in if length parts > 1 then
           (case py_int (parts ! 0) of
              None \<Rightarrow> Inl (ValueError_int (parts ! 0))
            | Some eid \<Rightarrow>
           (case ints_of (drop 1 parts) of
              Inl e \<Rightarrow> Inl e
            | Inr conn \<Rightarrow> Inr (s\<lparr>elements := dict_set (elements s) eid conn\<rparr>)))
         else Inr s)"

definition draft_section_line :: "(string \<Rightarrow> 'f option) \<Rightarrow> 'f parser_state \<Rightarrow> string \<Rightarrow> py_error + 'f parser_state" where
  "draft_section_line py_float s line_stripped =
     (if reading_nodes s then node_line py_float s line_stripped
      else if reading_elements s then draft_element_line s line_stripped
      else Inr s)"

definition draft_nset_line :: "'f parser_state \<Rightarrow> string \<Rightarrow> py_error + 'f parser_state" where
  "draft_nset_line s line_stripped =
     (case current_nset_name s of
        None \<Rightarrow> Inr s
      | Some name \<Rightarrow>
          (if \<not> startswith line_stripped ''*'' then
             (case ints_of (id_tokens line_stripped) of
                Inl e \<Rightarrow> Inl e
              | Inr ids \<Rightarrow>
                  (case map_of (nsets s) name of
                     None \<Rightarrow> Inl (KeyError_name name)
                   | Some members \<Rightarrow> Inr (s\<lparr>nsets := dict_set (nsets s) name (members @ ids)\<rparr>)))
           else Inr s))"

definition draft_elset_line :: "'f parser_state \<Rightarrow> string \<Rightarrow> py_error + 'f parser_state" where
  "draft_elset_line s line_stripped =
     (case current_elset_name s of
        None \<Rightarrow> Inr s
      | Some name \<Rightarrow>
          (if \<not> startswith line_stripped ''*'' then
             (case ints_of (id_tokens line_stripped) of
                Inl e \<Rightarrow> Inl e
              | Inr ids \<Rightarrow>
                  (case map_of (elsets s) name of
                     None \<Rightarrow> Inl (KeyError_name name)
                   | Some members \<Rightarrow> Inr (s\<lparr>elsets := dict_set (elsets s) name (members @ ids)\<rparr>)))
           else Inr s))"

definition draft_parse_line :: "(string \<Rightarrow> 'f option) \<Rightarrow> 'f parser_state \<Rightarrow> string \<Rightarrow> py_error + 'f parser_state" where
  "draft_parse_line py_float s line =
     (let line_stripped = strip line
      in if line_stripped = [] \<or> startswith line_stripped ''**'' then Inr s
         else if startswith line_stripped ''*'' then Inr (draft_directive s line_stripped)
         else
           (case draft_section_line py_float s line_stripped of
              Inl e \<Rightarrow> Inl e
            | Inr s1 \<Rightarrow>
           (case draft_nset_line s1 line_stripped of
              Inl e \<Rightarrow> Inl e
            | Inr s2 \<Rightarrow> draft_elset_line s2 line_stripped)))"

fun draft_parse_lines :: "(string \<Rightarrow> 'f option) \<Rightarrow> 'f parser_state \<Rightarrow> string list \<Rightarrow> py_error + 'f parser_state" where
  "draft_parse_lines py_float s [] = Inr s"
| "draft_parse_lines py_float s (line # rest) =
     (case draft_parse_line py_float s line of
        Inl e \<Rightarrow> Inl e
      | Inr s' \<Rightarrow> draft_parse_lines py_float s' rest)"

section \<open>Properties of parser states\<close>

text \<open>The named collections that are active: the set pointers that are not \<open>None\<close>.\<close>

definition active_collections :: "'f parser_state \<Rightarrow> string option list" where
  "active_collections s =
     filter (\<lambda>p. p \<noteq> None) [current_nset_name s, current_elset_name s, current_surf_name s]"

definition at_most_one_active :: "'f parser_state \<Rightarrow> bool" where
  "at_most_one_active s \<longleftrightarrow> length (active_collections s) \<le> 1"

text \<open>Every active name is a key of its dictionary (\<open>setdefault\<close> has entered it).\<close>

definition pointers_entered :: "'f parser_state \<Rightarrow> bool" where
  "pointers_entered s \<longleftrightarrow>
     (case current_nset_name s of None \<Rightarrow> True | Some n \<Rightarrow> map_of (nsets s) n \<noteq> None) \<and>
     (case current_elset_name s of None \<Rightarrow> True | Some n \<Rightarrow> map_of (elsets s) n \<noteq> None) \<and>
     (case current_surf_name s of None \<Rightarrow> True | Some n \<Rightarrow> map_of (surfaces s) n \<noteq> None)"

text \<open>The five dictionaries have distinct keys, as Python dictionaries do.\<close>

definition dicts_distinct :: "'f parser_state \<Rightarrow> bool" where
  "dicts_distinct s \<longleftrightarrow>
     distinct (map fst (nodes s)) \<and> distinct (map fst (elements s)) \<and>
     distinct (map fst (nsets s)) \<and> distinct (map fst (elsets s)) \<and>
     distinct (map fst (surfaces s))"

text \<open>A line that is neither blank, nor a comment, nor a keyword line.\<close>

definition is_data_line :: "string \<Rightarrow> bool" where
  "is_data_line line \<longleftrightarrow> strip line \<noteq> [] \<and> \<not> startswith (strip line) ''*''"

section \<open>Facts about the writer's pieces\<close>

declare nat_digits.simps [simp del]

lemma then_write_ok: "then_write (a, None) b = (a @ fst b, snd b)"
  by (simp add: then_write_def)

lemma then_write_err: "then_write (a, Some e) b = (a, Some e)"
  by (simp add: then_write_def)

lemma then_write_f_write: "then_write (f_write t) b = (t @ fst b, snd b)"
  by (simp add: then_write_def f_write_def)

lemma for_each_ok:
  "(\<And>x. x \<in> set xs \<Longrightarrow> snd (body x) = None) \<Longrightarrow>
     for_each body xs = (concat (map (\<lambda>x. fst (body x)) xs), None)"
proof (induction xs)
  case Nil
  show ?case by simp
next
  case (Cons x xs)
  have bx: "snd (body x) = None" using Cons.prems by simp
  have "for_each body xs = (concat (map (\<lambda>x. fst (body x)) xs), None)"
    using Cons by simp
  then show ?case using bx by (simp add: then_write_def)
qed

lemma for_each_stops:
  assumes "snd (for_each body pre) = None" and "snd (body x) = Some e"
  shows "for_each body (pre @ x # post) = (fst (for_each body pre) @ fst (body x), Some e)"
  using assms
proof (induction pre)
  case Nil
  then show ?case by (simp add: then_write_def prod_eq_iff)
next
  case (Cons p pre)
  from Cons.prems(1) have p: "snd (body p) = None" and rest: "snd (for_each body pre) = None"
    by (auto simp: then_write_def split: option.splits)
  from Cons.IH [OF rest Cons.prems(2)] p show ?case
    by (simp add: then_write_def)
qed

lemma map_insort_key: "map f (insort_key f x xs) = insort (f x) (map f xs)"
  by (induction xs) auto

lemma map_sort_key: "map f (sort_key f xs) = sort (map f xs)"
  by (induction xs) (auto simp: map_insort_key)

lemma map_of_distinct_entry:
  "distinct (map fst d) \<Longrightarrow> (k, v) \<in> set d \<Longrightarrow> map_of d k = Some v"
  by simp

lemma py_str_1: "py_str 1 = ''1''"
  by (simp add: py_str_def digit_char_def nat_digits.simps)

lemma py_str_0: "py_str 0 = ''0''"
  by (simp add: py_str_def digit_char_def nat_digits.simps)

lemma element_entry_text:
  assumes "map_of d eid = Some conn"
  shows "element_entry d eid =
     ((if length conn = 8
       then py_str eid @ '', 1'' @ concat (map (\<lambda>nn. '', '' @ py_str nn) conn) @ ''\<newline>''
       else []), None)"
proof -
  have "for_each (\<lambda>nn. f_write ('', '' @ py_str nn)) conn
      = (concat (map (\<lambda>nn. '', '' @ py_str nn) conn), None)"
    using for_each_ok [of conn "\<lambda>nn. f_write ('', '' @ py_str nn)"] by (simp add: f_write_def)
  then show ?thesis using assms
    by (simp add: element_entry_def then_write_f_write py_str_1) (simp add: f_write_def then_write_def)
qed

lemma concat_map_if_filter:
  "concat (map (\<lambda>x. if P x then g x else []) xs) = concat (map g (filter P xs))"
  by (induction xs) auto

lemma element_block_text:
  assumes "distinct (map fst elem_dict)"
  shows "element_block elem_dict =
     (''*DUALCESE_ELE3D\<newline>'' @
        concat (map (\<lambda>(eid, conn). py_str eid @ '', 1'' @ concat (map (\<lambda>nn. '', '' @ py_str nn) conn) @ ''\<newline>'')
                  (filter (\<lambda>(eid, conn). length conn = 8) (sort_key fst elem_dict))), None)"
proof -
  let ?line = "\<lambda>(eid, conn). py_str eid @ '', 1'' @ concat (map (\<lambda>nn. '', '' @ py_str nn) conn) @ ''\<newline>''"
  let ?P = "\<lambda>(eid, conn). length conn = 8"
  let ?ys = "sort_key fst elem_dict"
  have entry: "element_entry elem_dict (fst p) = ((if ?P p then ?line p else []), None)"
    if "p \<in> set elem_dict" for p
  proof -
    obtain eid conn where p: "p = (eid, conn)" by (cases p)
    with that assms have "map_of elem_dict eid = Some conn" by simp
    then show ?thesis using p by (simp add: element_entry_text)
  qed
  have keys: "sort (map fst elem_dict) = map fst ?ys"
    by (simp add: map_sort_key)
  have "for_each (element_entry elem_dict) (map fst ?ys)
      = (concat (map (\<lambda>eid. fst (element_entry elem_dict eid)) (map fst ?ys)), None)"
  proof (rule for_each_ok)
    fix eid assume "eid \<in> set (map fst ?ys)"
    then obtain p where "p \<in> set elem_dict" and "eid = fst p" by auto
    then show "snd (element_entry elem_dict eid) = None" by (simp add: entry)
  qed
  also have "concat (map (\<lambda>eid. fst (element_entry elem_dict eid)) (map fst ?ys))
      = concat (map (\<lambda>p. if ?P p then ?line p else []) ?ys)"
  proof -
    have a: "map (\<lambda>eid. fst (element_entry elem_dict eid)) (map fst ?ys)
        = map (\<lambda>p. fst (element_entry elem_dict (fst p))) ?ys"
      by (simp add: comp_def)
    have b: "map (\<lambda>p. fst (element_entry elem_dict (fst p))) ?ys
        = map (\<lambda>p. if ?P p then ?line p else []) ?ys"
      by (rule map_cong [OF refl]) (simp add: entry)
    show ?thesis by (simp only: a b)
  qed
  also have "\<dots> = concat (map ?line (filter ?P ?ys))"
    by (rule concat_map_if_filter)
  finally show ?thesis
    by (simp add: element_block_def keys then_write_f_write)
qed

section \<open>The element block\<close>

text \<open>
  Claim C7. In a model whose element dictionary has distinct keys (as every Python
  dictionary has), the element block is the directive line \<open>*DUALCESE_ELE3D\<close> followed
  by one line for each element whose connectivity has exactly 8 entries, and by nothing
  for any other element; the lines come in ascending order of the element ID (the
  entries are those of the dictionary, sorted by key), and a line is the element ID, the
  part ID 1 and the 8 node IDs, separated by a comma and a blank. The block never
  raises.
\<close>

theorem element_block_lines:
  assumes "distinct (map fst elem_dict)"
  shows "element_block elem_dict =
       (''*DUALCESE_ELE3D\<newline>'' @
        concat (map (\<lambda>(eid, conn). py_str eid @ '', '' @ py_str 1 @ concat (map (\<lambda>nn. '', '' @ py_str nn) conn) @ ''\<newline>'')
                  (filter (\<lambda>(eid, conn). length conn = 8) (sort_key fst elem_dict))), None)
     \<and> sorted (map fst (sort_key fst elem_dict))
     \<and> set (sort_key fst elem_dict) = set elem_dict"
  using element_block_text [OF assms] by (simp add: py_str_1)

text \<open>An instance with negative, unsorted IDs, one short and one long connectivity.\<close>

theorem element_block_lines_witness:
  "distinct (map fst [(12, [1, 2, 3, 4, 5, 6, 7, 8]), (3, [1, 2, 3]), (-2, [10, 11, 12, 13, 14, 15, 16, 170]), (7, [1, 2, 3, 4, 5, 6, 7, 8, 9 :: int])] :: int list)
   \<and> element_block [(12, [1, 2, 3, 4, 5, 6, 7, 8]), (3, [1, 2, 3]), (-2, [10, 11, 12, 13, 14, 15, 16, 170]), (7, [1, 2, 3, 4, 5, 6, 7, 8, 9])]
       = (''*DUALCESE_ELE3D\<newline>-2, 1, 10, 11, 12, 13, 14, 15, 16, 170\<newline>12, 1, 1, 2, 3, 4, 5, 6, 7, 8\<newline>'', None)"
proof -
  have d: "distinct (map fst [(12, [1, 2, 3, 4, 5, 6, 7, 8]), (3, [1, 2, 3]), (-2, [10, 11, 12, 13, 14, 15, 16, 170]), (7, [1, 2, 3, 4, 5, 6, 7, 8, 9 :: int])] :: int list)"
    by simp
  show ?thesis
    using d element_block_lines [OF d] by (simp add: py_str_def digit_char_def nat_digits.simps)
qed

section \<open>Member lists: sorted, without duplicates, eight to a line\<close>

lemma range_step_0: "0 < k \<Longrightarrow> range_step 0 k = []"
  by (simp add: range_step_def)

lemma chunks_Nil: "0 < k \<Longrightarrow> chunks k [] = []"
  by (simp add: chunks_def range_step_0)

lemma chunk_count_step:
  assumes "0 < k" and "0 < n"
  shows "(n + k - 1) div k = Suc (((n - k) + k - 1) div k)"
proof (cases "k \<le> n")
  case True
  define m where "m = (n - k) + k - 1"
  have "n + k - 1 = m + k" using True assms by (simp add: m_def)
  then have "(n + k - 1) div k = (m + k) div k" by (rule arg_cong)
  also have "\<dots> = Suc (m div k)" using assms(1) by (simp add: div_add_self2)
  finally show ?thesis by (simp only: m_def)
next
  case False
  define m where "m = n - 1"
  have small: "m div k = 0" using False assms by (simp add: m_def)
  have "n + k - 1 = m + k" using assms by (simp add: m_def)
  then have "(n + k - 1) div k = (m + k) div k" by (rule arg_cong)
  also have "\<dots> = Suc (m div k)" using assms(1) by (simp add: div_add_self2)
  finally have b: "(n + k - 1) div k = Suc 0" by (simp only: small)
  have "(n - k) + k - 1 = k - 1" using False by simp
  then have "((n - k) + k - 1) div k = 0" using assms(1) by simp
  then show ?thesis using b by (simp only:)
qed

lemma chunks_step:
  assumes "0 < k" and "xs \<noteq> []"
  shows "chunks k xs = take k xs # chunks k (drop k xs)"
proof -
  let ?m = "((length xs - k) + k - 1) div k"
  have n: "(length xs + k - 1) div k = Suc ?m"
    using assms by (intro chunk_count_step) simp_all
  have upt: "[0 ..< Suc ?m] = 0 # map Suc [0 ..< ?m]"
  proof -
    have "[0 ..< Suc ?m] = 0 # [Suc 0 ..< Suc ?m]" by (rule upt_conv_Cons) simp
    then show ?thesis by (simp only: map_Suc_upt)
  qed
  have "chunks k xs = map (\<lambda>i. take k (drop i xs)) (map (\<lambda>j. j * k) (0 # map Suc [0 ..< ?m]))"
    by (simp only: chunks_def range_step_def n upt)
  also have "\<dots> = take k xs # map (\<lambda>j. take k (drop (j * k) (drop k xs))) [0 ..< ?m]"
    by (simp add: comp_def add.commute)
  also have "map (\<lambda>j. take k (drop (j * k) (drop k xs))) [0 ..< ?m] = chunks k (drop k xs)"
    by (simp add: chunks_def range_step_def comp_def)
  finally show ?thesis .
qed

lemma concat_chunks: "0 < k \<Longrightarrow> concat (chunks k xs) = xs"
proof (induction xs rule: length_induct)
  case (1 xs)
  show ?case
  proof (cases "xs = []")
    case True
    then show ?thesis using "1.prems" by (simp add: chunks_Nil)
  next
    case False
    then have "length (drop k xs) < length xs" using "1.prems" by simp
    then have "concat (chunks k (drop k xs)) = drop k xs" using 1 by blast
    then show ?thesis using False "1.prems" by (simp add: chunks_step)
  qed
qed

lemma chunks_lengths:
  "0 < k \<Longrightarrow> c \<in> set (chunks k xs) \<Longrightarrow> 0 < length c \<and> length c \<le> k"
proof (induction xs rule: length_induct)
  case (1 xs)
  show ?case
  proof (cases "xs = []")
    case True
    then show ?thesis using "1.prems" by (simp add: chunks_Nil)
  next
    case False
    then have less: "length (drop k xs) < length xs" using "1.prems" by simp
    from "1.prems" False have "c = take k xs \<or> c \<in> set (chunks k (drop k xs))"
      by (simp add: chunks_step)
    then show ?thesis
    proof
      assume "c = take k xs"
      then show ?thesis using False "1.prems" by simp
    next
      assume "c \<in> set (chunks k (drop k xs))"
      then show ?thesis using 1 less by blast
    qed
  qed
qed

lemma chunks_full_but_last:
  "0 < k \<Longrightarrow> c \<in> set (butlast (chunks k xs)) \<Longrightarrow> length c = k"
proof (induction xs rule: length_induct)
  case (1 xs)
  show ?case
  proof (cases "xs = []")
    case True
    then show ?thesis using "1.prems" by (simp add: chunks_Nil)
  next
    case False
    then have less: "length (drop k xs) < length xs" using "1.prems" by simp
    show ?thesis
    proof (cases "chunks k (drop k xs) = []")
      case True
      then show ?thesis using "1.prems" False by (simp add: chunks_step)
    next
      case nonempty: False
      then have "drop k xs \<noteq> []" using "1.prems" by (auto simp: chunks_Nil)
      then have full: "length (take k xs) = k" by simp
      from "1.prems" False nonempty
      have "c = take k xs \<or> c \<in> set (butlast (chunks k (drop k xs)))"
        by (simp add: chunks_step)
      then show ?thesis using full 1 less "1.prems"(1) by blast
    qed
  qed
qed

lemma sorted_set_eq: "sorted_set xs = sorted_list_of_set (set xs)"
  by (simp add: sorted_set_def sorted_list_of_set_sort_remdups)

lemma write_members_text:
  "write_members members = (concat (map chunk_line (chunks 8 (sorted_set members))), None)"
proof -
  have "for_each (\<lambda>chunk. f_write (chunk_line chunk)) (chunks 8 (sorted_set members))
      = (concat (map (\<lambda>chunk. fst (f_write (chunk_line chunk))) (chunks 8 (sorted_set members))), None)"
    by (rule for_each_ok) (simp add: f_write_def)
  also have "map (\<lambda>chunk. fst (f_write (chunk_line chunk))) (chunks 8 (sorted_set members))
      = map chunk_line (chunks 8 (sorted_set members))"
    by (simp add: f_write_def)
  finally show ?thesis by (simp only: write_members_def Let_def)
qed

lemma write_members_ok: "snd (write_members members) = None"
  by (simp add: write_members_text)

text \<open>
  Claim C4. For a node set or an element set the writer emits \<open>sorted_set members\<close>: the
  members in ascending order without duplicates, which depends only on the set of the
  members gathered from the data lines (so neither on their order nor on repetitions).
  The list is cut into chunks that put together give the list again; no chunk is empty,
  none is longer than 8, and every chunk but the last has exactly 8 members. Each
  chunk is one line, its members joined by a comma and a blank. In the block of a set
  whose name is in the ID table these lines follow the comment line, the directive line
  and the ID line.
\<close>

theorem member_list_sorted_dedup_chunked:
  "sorted_set members = sorted_list_of_set (set members)
   \<and> (set members = set members' \<longrightarrow> write_members members = write_members members')
   \<and> write_members members = (concat (map chunk_line (chunks 8 (sorted_set members))), None)
   \<and> concat (chunks 8 (sorted_set members)) = sorted_set members
   \<and> (\<forall>c \<in> set (chunks 8 (sorted_set members)). 1 \<le> length c \<and> length c \<le> 8)
   \<and> (\<forall>c \<in> set (butlast (chunks 8 (sorted_set members))). length c = 8)
   \<and> (\<forall>curid. map_of nodeset_ssid set_name = Some curid \<longrightarrow>
        nset_block (set_name, members) =
          (''$ Node set: '' @ set_name @ ''\<newline>'' @ ''*DUALCESE_NODESET\<newline>'' @
           ''       '' @ py_str curid @ ''\<newline>'' @
           concat (map chunk_line (chunks 8 (sorted_set members))), None))
   \<and> (\<forall>curid. map_of elementset_ssid set_name = Some curid \<longrightarrow>
        elset_block (set_name, members) =
          (''$ Element set: '' @ set_name @ ''\<newline>'' @ ''*DUALCESE_ELEMENTSET\<newline>'' @
           ''      '' @ py_str curid @ ''\<newline>'' @
           concat (map chunk_line (chunks 8 (sorted_set members))), None))"
proof -
  have same: "write_members members = write_members members'" if "set members = set members'"
  proof -
    from that have "sorted_set members = sorted_set members'" by (simp add: sorted_set_eq)
    then show ?thesis by (simp add: write_members_text)
  qed
  have lens: "\<forall>c \<in> set (chunks 8 (sorted_set members)). 1 \<le> length c \<and> length c \<le> 8"
    using chunks_lengths [of 8 _ "sorted_set members"] by (auto simp: Suc_le_eq)
  have full: "\<forall>c \<in> set (butlast (chunks 8 (sorted_set members))). length c = 8"
    using chunks_full_but_last [of 8 _ "sorted_set members"] by auto
  have nset: "nset_block (set_name, members) =
          (''$ Node set: '' @ set_name @ ''\<newline>'' @ ''*DUALCESE_NODESET\<newline>'' @
           ''       '' @ py_str curid @ ''\<newline>'' @
           concat (map chunk_line (chunks 8 (sorted_set members))), None)"
    if "map_of nodeset_ssid set_name = Some curid" for curid
    using that by (simp add: nset_block_def then_write_f_write write_members_text)
  have elset: "elset_block (set_name, members) =
          (''$ Element set: '' @ set_name @ ''\<newline>'' @ ''*DUALCESE_ELEMENTSET\<newline>'' @
           ''      '' @ py_str curid @ ''\<newline>'' @
           concat (map chunk_line (chunks 8 (sorted_set members))), None)"
    if "map_of elementset_ssid set_name = Some curid" for curid
    using that by (simp add: elset_block_def then_write_f_write write_members_text)
  show ?thesis
    using same lens full nset elset
    by (simp only: sorted_set_eq [symmetric] write_members_text concat_chunks [of 8] simp_thms) simp
qed

text \<open>The members \<open>1, 2, 2, 3\<close> and \<open>3, 1, 2\<close>, each gathered from two data lines, give
  the same line; twelve members with two repetitions give a line of eight and a line of
  two.\<close>

theorem member_list_sorted_dedup_chunked_witness:
  "set [1, 2, 2, 3] = set [3, 1, 2 :: int]
   \<and> write_members [1, 2, 2, 3] = write_members [3, 1, 2]
   \<and> write_members [3, 1, 2] = (''1, 2, 3\<newline>'', None)
   \<and> map_of nodeset_ssid ''K1A'' = Some 999
   \<and> nset_block (''K1A'', [20, 3, 3, 11, 5, 7, 9, 1, 15, 13, 17, 1]) =
       (''$ Node set: K1A\<newline>*DUALCESE_NODESET\<newline>       999\<newline>1, 3, 5, 7, 9, 11, 13, 15\<newline>17, 20\<newline>'', None)
   \<and> map_of elementset_ssid ''FLUID1'' = Some 2222
   \<and> elset_block (''FLUID1'', [4, 4]) =
       (''$ Element set: FLUID1\<newline>*DUALCESE_ELEMENTSET\<newline>      2222\<newline>4\<newline>'', None)
   \<and> parse_inp Some [''*Nset, nset=K1A'', ''1, 2'', ''2, 3''] = Inr ([], [], [(''K1A'', [1, 2, 2, 3])], [], [])
   \<and> parse_inp Some [''*Nset, nset=K1A'', ''3, 1'', ''2''] = Inr ([], [], [(''K1A'', [3, 1, 2])], [], [])"
proof -
  have p1: "parse_inp Some [''*Nset, nset=K1A'', ''1, 2'', ''2, 3''] = Inr ([], [], [(''K1A'', [1, 2, 2, 3])], [], [])"
    and p2: "parse_inp Some [''*Nset, nset=K1A'', ''3, 1'', ''2''] = Inr ([], [], [(''K1A'', [3, 1, 2])], [], [])"
    by code_simp+
  have s: "set [1, 2, 2, 3] = set [3, 1, 2 :: int]" by auto
  note a = member_list_sorted_dedup_chunked [of "[1, 2, 2, 3]" "[3, 1, 2]" "''K1A''"]
  from a s have same: "write_members [1, 2, 2, 3] = write_members [3, 1, 2]" by blast
  note b = member_list_sorted_dedup_chunked [of "[3, 1, 2]" "[]" "''K1A''"]
  have c3: "chunks 8 (sorted_set [3, 1, 2]) = [[1, 2, 3]]"
    by code_simp
  from b have "write_members [3, 1, 2] = (concat (map chunk_line (chunks 8 (sorted_set [3, 1, 2]))), None)"
    by blast
  then have w3: "write_members [3, 1, 2] = (''1, 2, 3\<newline>'', None)"
    by (simp add: c3 chunk_line_def py_str_def nat_digits.simps digit_char_def)
  have k: "map_of nodeset_ssid ''K1A'' = Some 999" by (simp add: nodeset_ssid_def)
  note c = member_list_sorted_dedup_chunked [of "[20, 3, 3, 11, 5, 7, 9, 1, 15, 13, 17, 1]" "[]" "''K1A''"]
  have c12: "chunks 8 (sorted_set [20, 3, 3, 11, 5, 7, 9, 1, 15, 13, 17, 1])
      = [[1, 3, 5, 7, 9, 11, 13, 15], [17, 20]]"
    by code_simp
  from c k have "nset_block (''K1A'', [20, 3, 3, 11, 5, 7, 9, 1, 15, 13, 17, 1]) =
          (''$ Node set: '' @ ''K1A'' @ ''\<newline>'' @ ''*DUALCESE_NODESET\<newline>'' @
           ''       '' @ py_str 999 @ ''\<newline>'' @
           concat (map chunk_line (chunks 8 (sorted_set [20, 3, 3, 11, 5, 7, 9, 1, 15, 13, 17, 1]))), None)"
    by blast
  then have n: "nset_block (''K1A'', [20, 3, 3, 11, 5, 7, 9, 1, 15, 13, 17, 1]) =
       (''$ Node set: K1A\<newline>*DUALCESE_NODESET\<newline>       999\<newline>1, 3, 5, 7, 9, 11, 13, 15\<newline>17, 20\<newline>'', None)"
    by (simp add: c12 chunk_line_def py_str_def nat_digits.simps digit_char_def)
  have f: "map_of elementset_ssid ''FLUID1'' = Some 2222" by (simp add: elementset_ssid_def)
  note d = member_list_sorted_dedup_chunked [of "[4, 4]" "[]" "''FLUID1''"]
  have c4: "chunks 8 (sorted_set [4, 4]) = [[4]]"
    by code_simp
  from d f have "elset_block (''FLUID1'', [4, 4]) =
          (''$ Element set: '' @ ''FLUID1'' @ ''\<newline>'' @ ''*DUALCESE_ELEMENTSET\<newline>'' @
           ''      '' @ py_str 2222 @ ''\<newline>'' @
           concat (map chunk_line (chunks 8 (sorted_set [4, 4]))), None)"
    by blast
  then have e: "elset_block (''FLUID1'', [4, 4]) =
       (''$ Element set: FLUID1\<newline>*DUALCESE_ELEMENTSET\<newline>      2222\<newline>4\<newline>'', None)"
    by (simp add: c4 chunk_line_def py_str_def nat_digits.simps digit_char_def)
  from s same w3 k n f e p1 p2 show ?thesis by (simp only: simp_thms)
qed

section \<open>A set or surface name that is not in its ID table\<close>

lemma map_of_key: "k \<in> set (map fst d) \<Longrightarrow> map_of d k \<noteq> None"
  by (simp add: map_of_eq_None_iff)

lemma node_entry_ok: "nid \<in> set (map fst node_dict) \<Longrightarrow> snd (node_entry fmt_g node_dict nid) = None"
  using map_of_key [of nid node_dict]
  by (auto simp: node_entry_def f_write_def split: option.splits)

lemma node_block_ok: "snd (node_block fmt_g node_dict) = None"
proof -
  have "for_each (node_entry fmt_g node_dict) (sort (map fst node_dict))
      = (concat (map (\<lambda>nid. fst (node_entry fmt_g node_dict nid)) (sort (map fst node_dict))), None)"
    by (rule for_each_ok) (simp add: node_entry_ok)
  then show ?thesis by (simp add: node_block_def then_write_f_write)
qed

lemma element_entry_ok: "eid \<in> set (map fst elem_dict) \<Longrightarrow> snd (element_entry elem_dict eid) = None"
  using map_of_key [of eid elem_dict]
  by (auto simp: element_entry_text split: option.splits)

lemma element_block_ok: "snd (element_block elem_dict) = None"
proof -
  have "for_each (element_entry elem_dict) (sort (map fst elem_dict))
      = (concat (map (\<lambda>eid. fst (element_entry elem_dict eid)) (sort (map fst elem_dict))), None)"
    by (rule for_each_ok) (simp add: element_entry_ok)
  then show ?thesis by (simp add: element_block_def then_write_f_write)
qed

lemma then_write_after_ok: "snd a = None \<Longrightarrow> then_write a b = (fst a @ fst b, snd b)"
  by (simp add: then_write_def)

lemma then_write_after_err: "snd a = Some e \<Longrightarrow> then_write a b = a"
  by (simp add: then_write_def)

lemma nset_block_unknown:
  "map_of nodeset_ssid name = None \<Longrightarrow>
     nset_block (name, members) =
       (''$ Node set: '' @ name @ ''\<newline>'' @ ''*DUALCESE_NODESET\<newline>'', Some (KeyError_name name))"
  by (simp add: nset_block_def then_write_f_write py_raise_def)

lemma surf_block_unknown:
  "map_of segmentset_ssid name = None \<Longrightarrow>
     surf_block elem_dict (name, surf_list) =
       (''$ Surface set: '' @ name @ ''\<newline>'' @ ''*DUALCESE_SEGMENTSET\<newline>'', Some (KeyError_name name))"
  by (simp add: surf_block_def then_write_f_write py_raise_def)

lemma elset_block_unknown:
  "map_of elementset_ssid name = None \<Longrightarrow>
     elset_block (name, elem_list) =
       (''$ Element set: '' @ name @ ''\<newline>'' @ ''*DUALCESE_ELEMENTSET\<newline>'', Some (KeyError_name name))"
  by (simp add: elset_block_def then_write_f_write py_raise_def)

lemma nset_block_known: "map_of nodeset_ssid (fst p) \<noteq> None \<Longrightarrow> snd (nset_block p) = None"
  by (cases p) (auto simp: nset_block_def then_write_f_write write_members_text)

lemma elset_block_known: "map_of elementset_ssid (fst p) \<noteq> None \<Longrightarrow> snd (elset_block p) = None"
  by (cases p) (auto simp: elset_block_def then_write_f_write write_members_text)

lemma for_each_all_ok: "(\<And>x. x \<in> set xs \<Longrightarrow> snd (body x) = None) \<Longrightarrow> snd (for_each body xs) = None"
  by (simp add: for_each_ok)

text \<open>
  Claim C1, as the code has it. In each of the three loops over named collections the
  comment line and the directive line of a block are written before the name is looked
  up in the ID table. So for the first name that is not in its table (everything before
  it having been written without an exception) the writer ends with a \<open>KeyError\<close> for
  that name, and the output file ends with the comment line and the directive line of
  that name's block: the ID line and the members of the block, the later blocks and the
  \<open>*END\<close> line are not written.
\<close>

theorem unknown_name_aborts_after_directive:
  "(map_of nodeset_ssid name = None \<and> nset_dict = pre_n @ (name, members) # post_n
      \<and> (\<forall>p \<in> set pre_n. map_of nodeset_ssid (fst p) \<noteq> None)
    \<longrightarrow> write_k fmt_g node_dict elem_dict nset_dict elset_dict surf_dict =
          (fst (node_block fmt_g node_dict) @ fst (element_block elem_dict) @
           fst (for_each nset_block pre_n) @
           ''$ Node set: '' @ name @ ''\<newline>'' @ ''*DUALCESE_NODESET\<newline>'',
           Some (KeyError_name name)))
   \<and> (map_of segmentset_ssid name = None \<and> surf_dict = pre_s @ (name, surf_list) # post_s
      \<and> snd (for_each nset_block nset_dict) = None
      \<and> snd (for_each (surf_block elem_dict) pre_s) = None
    \<longrightarrow> write_k fmt_g node_dict elem_dict nset_dict elset_dict surf_dict =
          (fst (node_block fmt_g node_dict) @ fst (element_block elem_dict) @
           fst (for_each nset_block nset_dict) @ fst (for_each (surf_block elem_dict) pre_s) @
           ''$ Surface set: '' @ name @ ''\<newline>'' @ ''*DUALCESE_SEGMENTSET\<newline>'',
           Some (KeyError_name name)))
   \<and> (map_of elementset_ssid name = None \<and> elset_dict = pre_e @ (name, elem_list) # post_e
      \<and> snd (for_each nset_block nset_dict) = None
      \<and> snd (for_each (surf_block elem_dict) surf_dict) = None
      \<and> (\<forall>p \<in> set pre_e. map_of elementset_ssid (fst p) \<noteq> None)
    \<longrightarrow> write_k fmt_g node_dict elem_dict nset_dict elset_dict surf_dict =
          (fst (node_block fmt_g node_dict) @ fst (element_block elem_dict) @
           fst (for_each nset_block nset_dict) @ fst (for_each (surf_block elem_dict) surf_dict) @
           fst (for_each elset_block pre_e) @
           ''$ Element set: '' @ name @ ''\<newline>'' @ ''*DUALCESE_ELEMENTSET\<newline>'',
           Some (KeyError_name name)))"
proof (intro conjI impI)
  assume a: "map_of nodeset_ssid name = None \<and> nset_dict = pre_n @ (name, members) # post_n
      \<and> (\<forall>p \<in> set pre_n. map_of nodeset_ssid (fst p) \<noteq> None)"
  then have "snd (for_each nset_block pre_n) = None"
    by (intro for_each_all_ok nset_block_known) simp
  moreover from a have "snd (nset_block (name, members)) = Some (KeyError_name name)"
    by (simp add: nset_block_unknown)
  ultimately have "for_each nset_block (pre_n @ (name, members) # post_n)
      = (fst (for_each nset_block pre_n) @ fst (nset_block (name, members)), Some (KeyError_name name))"
    by (rule for_each_stops)
  with a show "write_k fmt_g node_dict elem_dict nset_dict elset_dict surf_dict =
          (fst (node_block fmt_g node_dict) @ fst (element_block elem_dict) @
           fst (for_each nset_block pre_n) @
           ''$ Node set: '' @ name @ ''\<newline>'' @ ''*DUALCESE_NODESET\<newline>'',
           Some (KeyError_name name))"
    by (simp add: write_k_def then_write_after_ok node_block_ok element_block_ok
        then_write_after_err nset_block_unknown)
next
  assume a: "map_of segmentset_ssid name = None \<and> surf_dict = pre_s @ (name, surf_list) # post_s
      \<and> snd (for_each nset_block nset_dict) = None
      \<and> snd (for_each (surf_block elem_dict) pre_s) = None"
  then have "snd (surf_block elem_dict (name, surf_list)) = Some (KeyError_name name)"
    by (simp add: surf_block_unknown)
  with a have "for_each (surf_block elem_dict) (pre_s @ (name, surf_list) # post_s)
      = (fst (for_each (surf_block elem_dict) pre_s) @ fst (surf_block elem_dict (name, surf_list)),
         Some (KeyError_name name))"
    by (intro for_each_stops) simp_all
  with a show "write_k fmt_g node_dict elem_dict nset_dict elset_dict surf_dict =
          (fst (node_block fmt_g node_dict) @ fst (element_block elem_dict) @
           fst (for_each nset_block nset_dict) @ fst (for_each (surf_block elem_dict) pre_s) @
           ''$ Surface set: '' @ name @ ''\<newline>'' @ ''*DUALCESE_SEGMENTSET\<newline>'',
           Some (KeyError_name name))"
    by (simp add: write_k_def then_write_after_ok node_block_ok element_block_ok
        then_write_after_err surf_block_unknown)
next
  assume a: "map_of elementset_ssid name = None \<and> elset_dict = pre_e @ (name, elem_list) # post_e
      \<and> snd (for_each nset_block nset_dict) = None
      \<and> snd (for_each (surf_block elem_dict) surf_dict) = None
      \<and> (\<forall>p \<in> set pre_e. map_of elementset_ssid (fst p) \<noteq> None)"
  then have "snd (for_each elset_block pre_e) = None"
    by (intro for_each_all_ok elset_block_known) simp
  moreover from a have "snd (elset_block (name, elem_list)) = Some (KeyError_name name)"
    by (simp add: elset_block_unknown)
  ultimately have "for_each elset_block (pre_e @ (name, elem_list) # post_e)
      = (fst (for_each elset_block pre_e) @ fst (elset_block (name, elem_list)), Some (KeyError_name name))"
    by (rule for_each_stops)
  with a show "write_k fmt_g node_dict elem_dict nset_dict elset_dict surf_dict =
          (fst (node_block fmt_g node_dict) @ fst (element_block elem_dict) @
           fst (for_each nset_block nset_dict) @ fst (for_each (surf_block elem_dict) surf_dict) @
           fst (for_each elset_block pre_e) @
           ''$ Element set: '' @ name @ ''\<newline>'' @ ''*DUALCESE_ELEMENTSET\<newline>'',
           Some (KeyError_name name))"
    by (simp add: write_k_def then_write_after_ok node_block_ok element_block_ok
        then_write_after_err elset_block_unknown)
qed

theorem unknown_name_aborts_after_directive_witness:
  "write_k (id :: string \<Rightarrow> string) [] [] [(''K1A'', [1, 2]), (''FOO'', [3]), (''K2A'', [4])] [] []
     = (''*DUALCESE_NODE3D\<newline>*DUALCESE_ELE3D\<newline>$ Node set: K1A\<newline>*DUALCESE_NODESET\<newline>       999\<newline>1, 2\<newline>$ Node set: FOO\<newline>*DUALCESE_NODESET\<newline>'',
        Some (KeyError_name ''FOO''))
   \<and> write_k (id :: string \<Rightarrow> string) [] [(1, [10, 11, 12, 13, 14, 15, 16, 17])] [(''K1A'', [1])] [(''FLUID1'', [1])]
        [(''FACEK1A'', [(1, ''S1'')]), (''BAR'', [(1, ''S2'')])]
     = (''*DUALCESE_NODE3D\<newline>*DUALCESE_ELE3D\<newline>1, 1, 10, 11, 12, 13, 14, 15, 16, 17\<newline>$ Node set: K1A\<newline>*DUALCESE_NODESET\<newline>       999\<newline>1\<newline>$ Surface set: FACEK1A\<newline>*DUALCESE_SEGMENTSET\<newline>       555\<newline>10, 11, 12, 13,0.0,0.0,0.0,0.0\<newline>$ Surface set: BAR\<newline>*DUALCESE_SEGMENTSET\<newline>'',
        Some (KeyError_name ''BAR''))
   \<and> write_k (id :: string \<Rightarrow> string) [] [] [] [(''FLUID1'', [1]), (''BAZ'', [2])] []
     = (''*DUALCESE_NODE3D\<newline>*DUALCESE_ELE3D\<newline>$ Element set: FLUID1\<newline>*DUALCESE_ELEMENTSET\<newline>      2222\<newline>1\<newline>$ Element set: BAZ\<newline>*DUALCESE_ELEMENTSET\<newline>'',
        Some (KeyError_name ''BAZ''))"
proof -
  note n = unknown_name_aborts_after_directive [where name = "''FOO''" and fmt_g = "id :: string \<Rightarrow> string"
      and node_dict = "[]" and elem_dict = "[]" and elset_dict = "[]" and surf_dict = "[]"
      and nset_dict = "[(''K1A'', [1, 2]), (''FOO'', [3]), (''K2A'', [4])]"
      and pre_n = "[(''K1A'', [1, 2])]" and members = "[3]" and post_n = "[(''K2A'', [4])]",
      THEN conjunct1, THEN mp]
  have hn: "map_of nodeset_ssid ''FOO'' = None
      \<and> [(''K1A'', [1, 2]), (''FOO'', [3]), (''K2A'', [4])] = [(''K1A'', [1, 2 :: int])] @ (''FOO'', [3]) # [(''K2A'', [4])]
      \<and> (\<forall>p \<in> set [(''K1A'', [1, 2 :: int])]. map_of nodeset_ssid (fst p) \<noteq> None)"
    by (simp add: nodeset_ssid_def)
  have vn: "fst (node_block (id :: string \<Rightarrow> string) []) @ fst (element_block []) @
           fst (for_each nset_block [(''K1A'', [1, 2])]) @
           ''$ Node set: '' @ ''FOO'' @ ''\<newline>'' @ ''*DUALCESE_NODESET\<newline>''
      = ''*DUALCESE_NODE3D\<newline>*DUALCESE_ELE3D\<newline>$ Node set: K1A\<newline>*DUALCESE_NODESET\<newline>       999\<newline>1, 2\<newline>$ Node set: FOO\<newline>*DUALCESE_NODESET\<newline>''"
    by code_simp
  note s = unknown_name_aborts_after_directive [where name = "''BAR''" and fmt_g = "id :: string \<Rightarrow> string"
      and node_dict = "[]" and elem_dict = "[(1, [10, 11, 12, 13, 14, 15, 16, 17])]"
      and elset_dict = "[(''FLUID1'', [1])]" and nset_dict = "[(''K1A'', [1])]"
      and surf_dict = "[(''FACEK1A'', [(1, ''S1'')]), (''BAR'', [(1, ''S2'')])]"
      and pre_s = "[(''FACEK1A'', [(1, ''S1'')])]" and surf_list = "[(1, ''S2'')]" and post_s = "[]",
      THEN conjunct2, THEN conjunct1, THEN mp]
  have hs: "map_of segmentset_ssid ''BAR'' = None
      \<and> [(''FACEK1A'', [(1, ''S1'')]), (''BAR'', [(1, ''S2'')])] = [(''FACEK1A'', [(1 :: int, ''S1'')])] @ (''BAR'', [(1, ''S2'')]) # []
      \<and> snd (for_each nset_block [(''K1A'', [1])]) = None
      \<and> snd (for_each (surf_block [(1, [10, 11, 12, 13, 14, 15, 16, 17])]) [(''FACEK1A'', [(1, ''S1'')])]) = None"
    by code_simp
  have vs: "fst (node_block (id :: string \<Rightarrow> string) []) @ fst (element_block [(1, [10, 11, 12, 13, 14, 15, 16, 17])]) @
           fst (for_each nset_block [(''K1A'', [1])]) @
           fst (for_each (surf_block [(1, [10, 11, 12, 13, 14, 15, 16, 17])]) [(''FACEK1A'', [(1, ''S1'')])]) @
           ''$ Surface set: '' @ ''BAR'' @ ''\<newline>'' @ ''*DUALCESE_SEGMENTSET\<newline>''
      = ''*DUALCESE_NODE3D\<newline>*DUALCESE_ELE3D\<newline>1, 1, 10, 11, 12, 13, 14, 15, 16, 17\<newline>$ Node set: K1A\<newline>*DUALCESE_NODESET\<newline>       999\<newline>1\<newline>$ Surface set: FACEK1A\<newline>*DUALCESE_SEGMENTSET\<newline>       555\<newline>10, 11, 12, 13,0.0,0.0,0.0,0.0\<newline>$ Surface set: BAR\<newline>*DUALCESE_SEGMENTSET\<newline>''"
    by code_simp
  note e = unknown_name_aborts_after_directive [where name = "''BAZ''" and fmt_g = "id :: string \<Rightarrow> string"
      and node_dict = "[]" and elem_dict = "[]" and nset_dict = "[]" and surf_dict = "[]"
      and elset_dict = "[(''FLUID1'', [1]), (''BAZ'', [2])]"
      and pre_e = "[(''FLUID1'', [1])]" and elem_list = "[2]" and post_e = "[]",
      THEN conjunct2, THEN conjunct2, THEN mp]
  have he: "map_of elementset_ssid ''BAZ'' = None
      \<and> [(''FLUID1'', [1]), (''BAZ'', [2])] = [(''FLUID1'', [1 :: int])] @ (''BAZ'', [2]) # []
      \<and> snd (for_each nset_block []) = None
      \<and> snd (for_each (surf_block []) []) = None
      \<and> (\<forall>p \<in> set [(''FLUID1'', [1 :: int])]. map_of elementset_ssid (fst p) \<noteq> None)"
    by (simp add: elementset_ssid_def)
  have ve: "fst (node_block (id :: string \<Rightarrow> string) []) @ fst (element_block []) @
           fst (for_each nset_block []) @ fst (for_each (surf_block []) []) @
           fst (for_each elset_block [(''FLUID1'', [1])]) @
           ''$ Element set: '' @ ''BAZ'' @ ''\<newline>'' @ ''*DUALCESE_ELEMENTSET\<newline>''
      = ''*DUALCESE_NODE3D\<newline>*DUALCESE_ELE3D\<newline>$ Element set: FLUID1\<newline>*DUALCESE_ELEMENTSET\<newline>      2222\<newline>1\<newline>$ Element set: BAZ\<newline>*DUALCESE_ELEMENTSET\<newline>''"
    by code_simp
  show ?thesis
    using n [OF hn] s [OF hs] e [OF he] by (simp only: vn vs ve simp_thms)
qed

text \<open>
  The claim as the specification states it (no line of the block of an unknown name
  reaches the output) fails: for a node set \<open>FOO\<close>, a surface \<open>BAR\<close> and an element set
  \<open>BAZ\<close>, none of them in its table, the comment line and the directive line of the block
  are in the output file when the run ends with the \<open>KeyError\<close>.
\<close>

theorem unknown_name_counterexample:
  "map_of nodeset_ssid ''FOO'' = None
   \<and> main Some id [''*Nset, nset=FOO'', ''1, 2'']
       = (Some ''*DUALCESE_NODE3D\<newline>*DUALCESE_ELE3D\<newline>$ Node set: FOO\<newline>*DUALCESE_NODESET\<newline>'',
          Some (KeyError_name ''FOO''))
   \<and> map_of segmentset_ssid ''BAR'' = None
   \<and> main Some id [''*Surface, name=BAR'', ''1,S1'']
       = (Some ''*DUALCESE_NODE3D\<newline>*DUALCESE_ELE3D\<newline>$ Surface set: BAR\<newline>*DUALCESE_SEGMENTSET\<newline>'',
          Some (KeyError_name ''BAR''))
   \<and> map_of elementset_ssid ''BAZ'' = None
   \<and> main Some id [''*Elset, elset=BAZ'', ''1'']
       = (Some ''*DUALCESE_NODE3D\<newline>*DUALCESE_ELE3D\<newline>$ Element set: BAZ\<newline>*DUALCESE_ELEMENTSET\<newline>'',
          Some (KeyError_name ''BAZ''))"
  by code_simp

section \<open>The faces of an element\<close>

lemma abq_surf_def_cases:
  "map_of abq_surf_def faceid = Some positions \<Longrightarrow>
     positions \<in> set [[1, 2, 3, 4], [5, 8, 7, 6], [1, 5, 6, 2], [2, 6, 7, 3], [3, 7, 8, 4], [4, 8, 5, 1]]"
  by (auto simp: abq_surf_def_def split: if_splits)

lemma py_getitem_in_range:
  "0 \<le> i \<Longrightarrow> i < int (length xs) \<Longrightarrow> py_getitem xs i = Inr (xs ! nat i)"
  by (simp add: py_getitem_def)

lemma getitems_in_range:
  "(\<And>i. i \<in> set idxs \<Longrightarrow> 0 \<le> i \<and> i < int (length xs)) \<Longrightarrow>
     getitems xs idxs = Inr (map (\<lambda>i. xs ! nat i) idxs)"
  by (induction idxs) (simp_all add: py_getitem_in_range)

lemma face_positions:
  assumes "map_of abq_surf_def faceid = Some positions"
  shows "length positions = 4 \<and> (\<forall>p \<in> set positions. 1 \<le> p \<and> p \<le> 8)"
  using abq_surf_def_cases [OF assms] by auto

text \<open>
  Claim C3. For an element of the model with 8 node IDs and a face label of the face
  table, \<open>get_surface_nodes\<close> returns the node IDs of the element at the table's positions
  for that face, each position counted from 1, in the order of the table; there are 4 of
  them. Face \<open>S1\<close> of the element \<open>10, ..., 17\<close> is \<open>10, 11, 12, 13\<close>. An element ID that is
  not in the model raises a \<open>KeyError\<close> for the ID, and for an element of the model a
  face label that is not in the table raises a \<open>KeyError\<close> for the label; the writer
  passes either on, having written nothing for that pair.
\<close>

theorem get_surface_nodes_resolves:
  "(map_of elem_dict elmid = Some conn \<and> length conn = 8 \<and> map_of abq_surf_def faceid = Some positions
      \<longrightarrow> get_surface_nodes elem_dict elmid faceid = Inr (map (\<lambda>p. conn ! nat (p - 1)) positions)
          \<and> length positions = 4 \<and> (\<forall>p \<in> set positions. 1 \<le> p \<and> p \<le> 8))
   \<and> get_surface_nodes [(elmid, [10, 11, 12, 13, 14, 15, 16, 17])] elmid ''S1'' = Inr [10, 11, 12, 13]
   \<and> (map_of elem_dict elmid = None
      \<longrightarrow> get_surface_nodes elem_dict elmid faceid = Inl (KeyError_id elmid)
          \<and> surface_entry elem_dict (elmid, faceid) = ([], Some (KeyError_id elmid)))
   \<and> (map_of elem_dict elmid \<noteq> None \<and> map_of abq_surf_def faceid = None
      \<longrightarrow> get_surface_nodes elem_dict elmid faceid = Inl (KeyError_name faceid)
          \<and> surface_entry elem_dict (elmid, faceid) = ([], Some (KeyError_name faceid)))"
proof (intro conjI impI)
  assume a: "map_of elem_dict elmid = Some conn \<and> length conn = 8 \<and> map_of abq_surf_def faceid = Some positions"
  then have pos: "length positions = 4 \<and> (\<forall>p \<in> set positions. 1 \<le> p \<and> p \<le> 8)"
    using face_positions [of faceid positions] by blast
  then show "length positions = 4" and "\<forall>p \<in> set positions. 1 \<le> p \<and> p \<le> 8" by simp_all
  have "getitems conn (map (\<lambda>i. i - 1) positions)
      = Inr (map (\<lambda>i. conn ! nat i) (map (\<lambda>i. i - 1) positions))"
    using a pos by (intro getitems_in_range) auto
  then show "get_surface_nodes elem_dict elmid faceid = Inr (map (\<lambda>p. conn ! nat (p - 1)) positions)"
    using a by (simp add: get_surface_nodes_def comp_def)
next
  show "get_surface_nodes [(elmid, [10, 11, 12, 13, 14, 15, 16, 17])] elmid ''S1'' = Inr [10, 11, 12, 13]"
    by (simp add: get_surface_nodes_def abq_surf_def_def py_getitem_def)
next
  assume "map_of elem_dict elmid = None"
  then show "get_surface_nodes elem_dict elmid faceid = Inl (KeyError_id elmid)"
    and "surface_entry elem_dict (elmid, faceid) = ([], Some (KeyError_id elmid))"
    by (simp_all add: get_surface_nodes_def surface_entry_def py_raise_def)
next
  assume "map_of elem_dict elmid \<noteq> None \<and> map_of abq_surf_def faceid = None"
  then show "get_surface_nodes elem_dict elmid faceid = Inl (KeyError_name faceid)"
    and "surface_entry elem_dict (elmid, faceid) = ([], Some (KeyError_name faceid))"
    by (auto simp: get_surface_nodes_def surface_entry_def py_raise_def)
qed

text \<open>Face \<open>S2\<close> of the same element, an unknown element, and a label with a leading
  blank (as the parser keeps it from a line \<open>7, S1\<close>).\<close>

theorem get_surface_nodes_resolves_witness:
  "map_of [(7, [10, 11, 12, 13, 14, 15, 16, 17])] (7 :: int) = Some [10, 11, 12, 13, 14, 15, 16, 17 :: int]
   \<and> map_of abq_surf_def ''S2'' = Some [5, 8, 7, 6]
   \<and> get_surface_nodes [(7, [10, 11, 12, 13, 14, 15, 16, 17])] 7 ''S2'' = Inr [14, 17, 16, 15]
   \<and> get_surface_nodes [(7, [10, 11, 12, 13, 14, 15, 16, 17])] 7 ''S1'' = Inr [10, 11, 12, 13]
   \<and> get_surface_nodes [(7, [10, 11, 12, 13, 14, 15, 16, 17])] 8 ''S1'' = Inl (KeyError_id 8)
   \<and> surface_entry [(7, [10, 11, 12, 13, 14, 15, 16, 17])] (8, ''S1'') = ([], Some (KeyError_id 8))
   \<and> get_surface_nodes [(7, [10, 11, 12, 13, 14, 15, 16, 17])] 7 '' S1'' = Inl (KeyError_name '' S1'')
   \<and> surface_entry [(7, [10, 11, 12, 13, 14, 15, 16, 17])] (7, '' S1'') = ([], Some (KeyError_name '' S1''))"
proof -
  let ?d = "[(7 :: int, [10, 11, 12, 13, 14, 15, 16, 17 :: int])]"
  have e: "map_of ?d 7 = Some [10, 11, 12, 13, 14, 15, 16, 17]" by simp
  have f: "map_of abq_surf_def ''S2'' = Some [5, 8, 7, 6]" by (simp add: abq_surf_def_def)
  note t = get_surface_nodes_resolves [where elem_dict = ?d and elmid = 7 and faceid = "''S2''"
      and conn = "[10, 11, 12, 13, 14, 15, 16, 17]" and positions = "[5, 8, 7, 6]"]
  from t e f have r: "get_surface_nodes ?d 7 ''S2'' = Inr [14, 17, 16, 15]" by simp
  note u = get_surface_nodes_resolves [where elem_dict = ?d and elmid = 8 and faceid = "''S1''"]
  from u have k: "get_surface_nodes ?d 8 ''S1'' = Inl (KeyError_id 8)
      \<and> surface_entry ?d (8, ''S1'') = ([], Some (KeyError_id 8))" by simp
  note v = get_surface_nodes_resolves [where elem_dict = ?d and elmid = 7 and faceid = "'' S1''"]
  have g: "map_of abq_surf_def '' S1'' = None" by (simp add: abq_surf_def_def)
  from v e g have n: "get_surface_nodes ?d 7 '' S1'' = Inl (KeyError_name '' S1'')
      \<and> surface_entry ?d (7, '' S1'') = ([], Some (KeyError_name '' S1''))" by simp
  note w = get_surface_nodes_resolves [where elmid = "7 :: int" and elem_dict = ?d and faceid = "''S1''"]
  from w have s1: "get_surface_nodes ?d 7 ''S1'' = Inr [10, 11, 12, 13]" by simp
  from e f r s1 k n show ?thesis by (simp only: simp_thms)
qed

section \<open>Facts about the parser\<close>

subsection \<open>Keyword lines\<close>

lemma startswith_iff: "startswith s p \<longleftrightarrow> (\<exists>r. s = p @ r)"
proof
  assume "startswith s p"
  then have t: "take (length p) s = p" by (simp add: startswith_def)
  have "s = take (length p) s @ drop (length p) s" by simp
  then have "s = p @ drop (length p) s" by (simp only: t)
  then show "\<exists>r. s = p @ r" ..
next
  assume "\<exists>r. s = p @ r"
  then show "startswith s p" by (auto simp: startswith_def)
qed

lemma not_star_not_comment: "\<not> startswith ls ''*'' \<Longrightarrow> \<not> startswith ls ''**''"
  by (auto simp: startswith_iff)

lemma parse_line_data:
  "is_data_line line \<Longrightarrow> parse_line py_float s line = data_line py_float s (strip line)"
  by (simp add: parse_line_def is_data_line_def not_star_not_comment)

lemma parse_line_directive:
  "startswith (strip line) ''*'' \<Longrightarrow> \<not> startswith (strip line) ''**'' \<Longrightarrow>
     parse_line py_float s line = Inr (directive s (strip line))"
  by (auto simp: parse_line_def startswith_iff)

lemma keyword_prefixes:
  "startswith l ''*nset'' \<Longrightarrow> \<not> startswith l ''*node'' \<and> \<not> startswith l ''*element''"
  "startswith l ''*elset'' \<Longrightarrow> \<not> startswith l ''*node'' \<and> \<not> startswith l ''*element'' \<and> \<not> startswith l ''*nset''"
  "startswith l ''*surface'' \<Longrightarrow> \<not> startswith l ''*node'' \<and> \<not> startswith l ''*element''
      \<and> \<not> startswith l ''*nset'' \<and> \<not> startswith l ''*elset''"
  "startswith l ''*element'' \<Longrightarrow> \<not> startswith l ''*node''"
  by (auto simp: startswith_iff)

lemma directive_nset_named:
  assumes "startswith (lower ls) ''*nset''" and "named (extract_name ''nset='' (lower ls))"
  shows "directive s ls = s\<lparr>reading_nodes := False, reading_elements := False,
           current_nset_name := extract_name ''nset='' (lower ls),
           nsets := setdefault (nsets s) (the (extract_name ''nset='' (lower ls))) [],
           current_elset_name := None, current_surf_name := None\<rparr>"
  using assms keyword_prefixes(1) [OF assms(1)] by (simp add: directive_def Let_def)

lemma directive_nset_unnamed:
  assumes "startswith (lower ls) ''*nset''" and "\<not> named (extract_name ''nset='' (lower ls))"
  shows "directive s ls = s\<lparr>reading_nodes := False, reading_elements := False, current_nset_name := None\<rparr>"
  using assms keyword_prefixes(1) [OF assms(1)] by (simp add: directive_def Let_def)

lemma directive_elset_named:
  assumes "startswith (lower ls) ''*elset''" and "named (extract_name ''elset='' (lower ls))"
  shows "directive s ls = s\<lparr>reading_nodes := False, reading_elements := False,
           current_elset_name := extract_name ''elset='' (lower ls),
           elsets := setdefault (elsets s) (the (extract_name ''elset='' (lower ls))) [],
           current_nset_name := None, current_surf_name := None\<rparr>"
  using assms keyword_prefixes(2) [OF assms(1)] by (simp add: directive_def Let_def)

lemma directive_elset_unnamed:
  assumes "startswith (lower ls) ''*elset''" and "\<not> named (extract_name ''elset='' (lower ls))"
  shows "directive s ls = s\<lparr>reading_nodes := False, reading_elements := False, current_elset_name := None\<rparr>"
  using assms keyword_prefixes(2) [OF assms(1)] by (simp add: directive_def Let_def)

lemma directive_surface_named:
  assumes "startswith (lower ls) ''*surface''" and "named (extract_name ''name='' (lower ls))"
  shows "directive s ls = s\<lparr>reading_nodes := False, reading_elements := False,
           current_surf_name := extract_name ''name='' (lower ls),
           surfaces := setdefault (surfaces s) (the (extract_name ''name='' (lower ls))) [],
           current_elset_name := None, current_nset_name := None\<rparr>"
  using assms keyword_prefixes(3) [OF assms(1)] by (simp add: directive_def Let_def)

lemma directive_surface_unnamed:
  assumes "startswith (lower ls) ''*surface''" and "\<not> named (extract_name ''name='' (lower ls))"
  shows "directive s ls = s\<lparr>reading_nodes := False, reading_elements := False\<rparr>"
  using assms keyword_prefixes(3) [OF assms(1)] by (simp add: directive_def Let_def)

lemma directive_node:
  "startswith (lower ls) ''*node'' \<Longrightarrow>
     directive s ls = s\<lparr>reading_nodes := True, reading_elements := False\<rparr>"
  by (simp add: directive_def Let_def)

lemma directive_element:
  assumes "startswith (lower ls) ''*element''"
  shows "directive s ls = s\<lparr>reading_nodes := False, reading_elements := True\<rparr>"
  using assms keyword_prefixes(4) [OF assms] by (simp add: directive_def Let_def)

lemma named_Some: "named name \<Longrightarrow> \<exists>n. name = Some n \<and> n \<noteq> []"
  by (cases name) (simp_all add: named_def)

lemma directive_cases:
  obtains
    (node) "directive s ls = s\<lparr>reading_nodes := True, reading_elements := False\<rparr>"
  | (element) "directive s ls = s\<lparr>reading_nodes := False, reading_elements := True\<rparr>"
  | (nset) n where "n \<noteq> []" and
      "directive s ls = s\<lparr>reading_nodes := False, reading_elements := False,
         current_nset_name := Some n, nsets := setdefault (nsets s) n [],
         current_elset_name := None, current_surf_name := None\<rparr>"
  | (nset_off) "directive s ls =
         s\<lparr>reading_nodes := False, reading_elements := False, current_nset_name := None\<rparr>"
  | (elset) n where "n \<noteq> []" and
      "directive s ls = s\<lparr>reading_nodes := False, reading_elements := False,
         current_elset_name := Some n, elsets := setdefault (elsets s) n [],
         current_nset_name := None, current_surf_name := None\<rparr>"
  | (elset_off) "directive s ls =
         s\<lparr>reading_nodes := False, reading_elements := False, current_elset_name := None\<rparr>"
  | (surface) n where "n \<noteq> []" and
      "directive s ls = s\<lparr>reading_nodes := False, reading_elements := False,
         current_surf_name := Some n, surfaces := setdefault (surfaces s) n [],
         current_elset_name := None, current_nset_name := None\<rparr>"
  | (other) "directive s ls = s\<lparr>reading_nodes := False, reading_elements := False\<rparr>"
proof -
  let ?l = "lower ls"
  show thesis
  proof (cases "startswith ?l ''*node''")
    case True
    then show thesis using node by (simp add: directive_node)
  next
    case no_node: False
    show thesis
    proof (cases "startswith ?l ''*element''")
      case True
      then show thesis using element by (simp add: directive_element)
    next
      case no_element: False
      show thesis
      proof (cases "startswith ?l ''*nset''")
        case True
        show thesis
        proof (cases "named (extract_name ''nset='' ?l)")
          case nm: True
          then obtain n where "extract_name ''nset='' ?l = Some n" and "n \<noteq> []"
            using named_Some by blast
          then show thesis using nset [of n] directive_nset_named [OF True nm, of s] by simp
        next
          case False
          then show thesis using nset_off directive_nset_unnamed [OF True] by blast
        qed
      next
        case no_nset: False
        show thesis
        proof (cases "startswith ?l ''*elset''")
          case True
          show thesis
          proof (cases "named (extract_name ''elset='' ?l)")
            case nm: True
            then obtain n where "extract_name ''elset='' ?l = Some n" and "n \<noteq> []"
              using named_Some by blast
            then show thesis using elset [of n] directive_elset_named [OF True nm, of s] by simp
          next
            case False
            then show thesis using elset_off directive_elset_unnamed [OF True] by blast
          qed
        next
          case no_elset: False
          show thesis
          proof (cases "startswith ?l ''*surface''")
            case True
            show thesis
            proof (cases "named (extract_name ''name='' ?l)")
              case nm: True
              then obtain n where "extract_name ''name='' ?l = Some n" and "n \<noteq> []"
                using named_Some by blast
              then show thesis using surface [of n] directive_surface_named [OF True nm, of s] by simp
            next
              case False
              then show thesis using other directive_surface_unnamed [OF True] by blast
            qed
          next
            case False
            then show thesis using other no_node no_element no_nset no_elset
              by (simp add: directive_def Let_def)
          qed
        qed
      qed
    qed
  qed
qed

lemma directive_at_most_one: "at_most_one_active s \<Longrightarrow> at_most_one_active (directive s ls)"
  by (rule directive_cases [where s = s and ls = ls])
    (simp_all add: at_most_one_active_def active_collections_def split: if_splits)

subsection \<open>Data lines and the invariant of the loop\<close>

lemma map_of_dict_set: "map_of (dict_set d k v) k' = (if k' = k then Some v else map_of d k')"
  by (induction d k v rule: dict_set.induct) auto

lemma map_of_setdefault_key: "map_of (setdefault d k v) k \<noteq> None"
  by (auto simp: setdefault_def map_add_def split: option.splits)

lemma map_of_setdefault_kept: "map_of d k' \<noteq> None \<Longrightarrow> map_of (setdefault d k v) k' \<noteq> None"
  by (auto simp: setdefault_def map_add_def split: option.splits)

lemma node_line_frame:
  "node_line py_float s ls = Inr s' \<Longrightarrow> s' = s \<or> (\<exists>nid xyz. s' = s\<lparr>nodes := dict_set (nodes s) nid xyz\<rparr>)"
  by (auto simp: node_line_def Let_def split: if_splits option.splits)

lemma element_line_frame:
  "element_line s ls = Inr s' \<Longrightarrow> s' = s \<or> (\<exists>eid conn. s' = s\<lparr>elements := dict_set (elements s) eid conn\<rparr>)"
  by (auto simp: element_line_def Let_def split: if_splits option.splits sum.splits)

lemma section_line_frame:
  "section_line py_float s ls = Inr s' \<Longrightarrow>
     current_nset_name s' = current_nset_name s \<and> current_elset_name s' = current_elset_name s \<and>
     current_surf_name s' = current_surf_name s \<and> nsets s' = nsets s \<and> elsets s' = elsets s \<and>
     surfaces s' = surfaces s \<and> reading_nodes s' = reading_nodes s \<and>
     reading_elements s' = reading_elements s"
  by (auto simp: section_line_def split: if_splits dest!: node_line_frame element_line_frame)

lemma nset_line_frame:
  "nset_line s ls = Inr s' \<Longrightarrow>
     current_nset_name s' = current_nset_name s \<and> current_elset_name s' = current_elset_name s \<and>
     current_surf_name s' = current_surf_name s \<and> elsets s' = elsets s \<and> surfaces s' = surfaces s \<and>
     nodes s' = nodes s \<and> elements s' = elements s \<and>
     (\<forall>k. map_of (nsets s) k \<noteq> None \<longrightarrow> map_of (nsets s') k \<noteq> None)"
  by (auto simp: nset_line_def map_of_dict_set split: if_splits option.splits sum.splits)

lemma elset_line_frame:
  "elset_line s ls = Inr s' \<Longrightarrow>
     current_nset_name s' = current_nset_name s \<and> current_elset_name s' = current_elset_name s \<and>
     current_surf_name s' = current_surf_name s \<and> nsets s' = nsets s \<and> surfaces s' = surfaces s \<and>
     nodes s' = nodes s \<and> elements s' = elements s \<and>
     (\<forall>k. map_of (elsets s) k \<noteq> None \<longrightarrow> map_of (elsets s') k \<noteq> None)"
  by (auto simp: elset_line_def map_of_dict_set split: if_splits option.splits sum.splits)

lemma surf_line_frame:
  "surf_line s ls = Inr s' \<Longrightarrow>
     current_nset_name s' = current_nset_name s \<and> current_elset_name s' = current_elset_name s \<and>
     current_surf_name s' = current_surf_name s \<and> nsets s' = nsets s \<and> elsets s' = elsets s \<and>
     nodes s' = nodes s \<and> elements s' = elements s \<and>
     (\<forall>k. map_of (surfaces s) k \<noteq> None \<longrightarrow> map_of (surfaces s') k \<noteq> None)"
  by (auto simp: surf_line_def map_of_dict_set split: if_splits option.splits sum.splits list.splits)

lemma data_line_InrE:
  assumes "data_line py_float s ls = Inr s'"
  obtains s1 s2 s3 where "section_line py_float s ls = Inr s1" and "nset_line s1 ls = Inr s2"
    and "elset_line s2 ls = Inr s3" and "surf_line s3 ls = Inr s'"
proof (cases "section_line py_float s ls")
  case (Inl e)
  then show thesis using assms by (simp add: data_line_def)
next
  case 1: (Inr s1)
  show thesis
  proof (cases "nset_line s1 ls")
    case (Inl e)
    then show thesis using assms 1 by (simp add: data_line_def)
  next
    case 2: (Inr s2)
    show thesis
    proof (cases "elset_line s2 ls")
      case (Inl e)
      then show thesis using assms 1 2 by (simp add: data_line_def)
    next
      case 3: (Inr s3)
      then have "surf_line s3 ls = Inr s'" using assms 1 2 by (simp add: data_line_def)
      with 1 2 3 show thesis by (rule that)
    qed
  qed
qed

lemma data_line_frame:
  assumes "data_line py_float s ls = Inr s'"
  shows "current_nset_name s' = current_nset_name s \<and> current_elset_name s' = current_elset_name s \<and>
     current_surf_name s' = current_surf_name s \<and>
     (\<forall>k. map_of (nsets s) k \<noteq> None \<longrightarrow> map_of (nsets s') k \<noteq> None) \<and>
     (\<forall>k. map_of (elsets s) k \<noteq> None \<longrightarrow> map_of (elsets s') k \<noteq> None) \<and>
     (\<forall>k. map_of (surfaces s) k \<noteq> None \<longrightarrow> map_of (surfaces s') k \<noteq> None)"
proof -
  from assms obtain s1 s2 s3 where
    1: "section_line py_float s ls = Inr s1" and 2: "nset_line s1 ls = Inr s2" and
    3: "elset_line s2 ls = Inr s3" and 4: "surf_line s3 ls = Inr s'"
    by (rule data_line_InrE)
  note f = section_line_frame [OF 1] nset_line_frame [OF 2] elset_line_frame [OF 3] surf_line_frame [OF 4]
  show ?thesis using f by simp
qed

lemma data_line_at_most_one:
  "data_line py_float s ls = Inr s' \<Longrightarrow> at_most_one_active s \<Longrightarrow> at_most_one_active s'"
  by (drule data_line_frame) (simp add: at_most_one_active_def active_collections_def)

lemma data_line_pointers_entered:
  "data_line py_float s ls = Inr s' \<Longrightarrow> pointers_entered s \<Longrightarrow> pointers_entered s'"
  by (drule data_line_frame) (auto simp: pointers_entered_def split: option.splits)

lemma directive_pointers_entered: "pointers_entered s \<Longrightarrow> pointers_entered (directive s ls)"
  by (rule directive_cases [where s = s and ls = ls])
    (auto simp: pointers_entered_def map_of_setdefault_key map_of_setdefault_kept split: option.splits)

lemma parse_line_invariant:
  assumes "parse_line py_float s line = Inr s'"
  shows "(at_most_one_active s \<longrightarrow> at_most_one_active s') \<and> (pointers_entered s \<longrightarrow> pointers_entered s')"
proof -
  have "s' = s \<or> s' = directive s (strip line) \<or> data_line py_float s (strip line) = Inr s'"
  proof (cases "strip line = [] \<or> startswith (strip line) ''**''")
    case True
    then show ?thesis using assms by (simp add: parse_line_def)
  next
    case False
    then show ?thesis using assms
      by (cases "startswith (strip line) ''*''") (simp_all add: parse_line_def)
  qed
  then consider (skip) "s' = s" | (dir) "s' = directive s (strip line)"
    | (data) "data_line py_float s (strip line) = Inr s'"
    by blast
  then show ?thesis
  proof cases
    case skip
    then show ?thesis by simp
  next
    case dir
    then show ?thesis by (simp add: directive_at_most_one directive_pointers_entered)
  next
    case data
    then show ?thesis by (blast intro: data_line_at_most_one data_line_pointers_entered)
  qed
qed

lemma parse_lines_invariant:
  "parse_lines py_float s lines = Inr s' \<Longrightarrow> at_most_one_active s \<and> pointers_entered s \<Longrightarrow>
     at_most_one_active s' \<and> pointers_entered s'"
proof (induction lines arbitrary: s)
  case Nil
  then show ?case by simp
next
  case (Cons line rest)
  from Cons.prems(1) obtain s1 where
    1: "parse_line py_float s line = Inr s1" and 2: "parse_lines py_float s1 rest = Inr s'"
    by (cases "parse_line py_float s line") simp_all
  from parse_line_invariant [OF 1] Cons.prems(2)
  have "at_most_one_active s1 \<and> pointers_entered s1" by blast
  with 2 show ?case by (rule Cons.IH)
qed

lemma init_state_invariant: "at_most_one_active init_state \<and> pointers_entered init_state"
  by (simp add: init_state_def at_most_one_active_def active_collections_def pointers_entered_def)

lemma reached_invariant:
  "parse_lines py_float init_state lines = Inr s \<Longrightarrow> at_most_one_active s \<and> pointers_entered s"
  using parse_lines_invariant init_state_invariant by blast

lemma parse_lines_append:
  "parse_lines py_float s (xs @ ys) =
     (case parse_lines py_float s xs of Inl e \<Rightarrow> Inl e | Inr s' \<Rightarrow> parse_lines py_float s' ys)"
  by (induction xs arbitrary: s) (auto split: sum.splits)

section \<open>One named collection at a time\<close>

text \<open>
  Claim C8. After any number of input lines at most one of the three pointers
  \<open>current_nset_name\<close>, \<open>current_elset_name\<close> and \<open>current_surf_name\<close> is set, and every
  single line keeps it so. A \<open>*nset\<close>, \<open>*elset\<close> or \<open>*surface\<close> directive from which a
  non-empty name is extracted sets its own pointer to that name and clears the other
  two, whatever the state before.
\<close>

theorem at_most_one_collection_active:
  "(parse_lines py_float init_state lines = Inr s \<longrightarrow> at_most_one_active s)
   \<and> (at_most_one_active s \<and> parse_line py_float s line = Inr s' \<longrightarrow> at_most_one_active s')
   \<and> (startswith (lower ls) ''*nset'' \<and> named (extract_name ''nset='' (lower ls)) \<longrightarrow>
        current_nset_name (directive s ls) = extract_name ''nset='' (lower ls) \<and>
        current_elset_name (directive s ls) = None \<and> current_surf_name (directive s ls) = None)
   \<and> (startswith (lower ls) ''*elset'' \<and> named (extract_name ''elset='' (lower ls)) \<longrightarrow>
        current_elset_name (directive s ls) = extract_name ''elset='' (lower ls) \<and>
        current_nset_name (directive s ls) = None \<and> current_surf_name (directive s ls) = None)
   \<and> (startswith (lower ls) ''*surface'' \<and> named (extract_name ''name='' (lower ls)) \<longrightarrow>
        current_surf_name (directive s ls) = extract_name ''name='' (lower ls) \<and>
        current_nset_name (directive s ls) = None \<and> current_elset_name (directive s ls) = None)"
  using reached_invariant [of py_float lines s] parse_line_invariant [of py_float s line s']
  by (auto simp: directive_nset_named directive_elset_named directive_surface_named)

text \<open>A file that opens a node set, an element set and a surface in turn; one step from
  an active surface to an element set; and the three activating directives.\<close>

theorem at_most_one_collection_active_witness:
  "parse_lines Some init_state [''*Nset, nset=A'', ''1'', ''*Elset, elset=B'', ''2'', ''*Surface, name=C'']
     = Inr \<lparr>nodes = [] :: (int \<times> string \<times> string \<times> string) list, elements = [],
           nsets = [(''A'', [1])], elsets = [(''B'', [2])], surfaces = [(''C'', [])],
           reading_nodes = False, reading_elements = False,
           current_elset_name = None, current_nset_name = None, current_surf_name = Some ''C''\<rparr>
   \<and> at_most_one_active \<lparr>nodes = [] :: (int \<times> string \<times> string \<times> string) list, elements = [],
           nsets = [(''A'', [1])], elsets = [(''B'', [2])], surfaces = [(''C'', [])],
           reading_nodes = False, reading_elements = False,
           current_elset_name = None, current_nset_name = None, current_surf_name = Some ''C''\<rparr>
   \<and> at_most_one_active (init_state\<lparr>current_surf_name := Some ''C''\<rparr> :: string parser_state)
   \<and> parse_line Some (init_state\<lparr>current_surf_name := Some ''C''\<rparr>) ''*Elset, elset=B''
       = Inr (init_state\<lparr>current_elset_name := Some ''B'', elsets := [(''B'', [])]\<rparr> :: string parser_state)
   \<and> at_most_one_active (init_state\<lparr>current_elset_name := Some ''B'', elsets := [(''B'', [])]\<rparr> :: string parser_state)
   \<and> current_nset_name (directive (init_state\<lparr>current_surf_name := Some ''C''\<rparr> :: string parser_state) ''*Nset, nset=A'') = Some ''A''
   \<and> current_elset_name (directive (init_state\<lparr>current_surf_name := Some ''C''\<rparr> :: string parser_state) ''*Nset, nset=A'') = None
   \<and> current_surf_name (directive (init_state\<lparr>current_surf_name := Some ''C''\<rparr> :: string parser_state) ''*Nset, nset=A'') = None
   \<and> current_elset_name (directive (init_state\<lparr>current_surf_name := Some ''C''\<rparr> :: string parser_state) ''*Elset, elset=B'') = Some ''B''
   \<and> current_nset_name (directive (init_state\<lparr>current_surf_name := Some ''C''\<rparr> :: string parser_state) ''*Elset, elset=B'') = None
   \<and> current_surf_name (directive (init_state\<lparr>current_surf_name := Some ''C''\<rparr> :: string parser_state) ''*Elset, elset=B'') = None
   \<and> current_surf_name (directive (init_state\<lparr>current_nset_name := Some ''A''\<rparr> :: string parser_state) ''*Surface, type=ELEMENT, name=C'') = Some ''C''
   \<and> current_nset_name (directive (init_state\<lparr>current_nset_name := Some ''A''\<rparr> :: string parser_state) ''*Surface, type=ELEMENT, name=C'') = None
   \<and> current_elset_name (directive (init_state\<lparr>current_nset_name := Some ''A''\<rparr> :: string parser_state) ''*Surface, type=ELEMENT, name=C'') = None"
proof -
  let ?S = "\<lparr>nodes = [] :: (int \<times> string \<times> string \<times> string) list, elements = [],
           nsets = [(''A'', [1])], elsets = [(''B'', [2])], surfaces = [(''C'', [])],
           reading_nodes = False, reading_elements = False,
           current_elset_name = None, current_nset_name = None, current_surf_name = Some ''C''\<rparr>"
  let ?C = "init_state\<lparr>current_surf_name := Some ''C''\<rparr> :: string parser_state"
  let ?B = "init_state\<lparr>current_elset_name := Some ''B'', elsets := [(''B'', [])]\<rparr> :: string parser_state"
  let ?A = "init_state\<lparr>current_nset_name := Some ''A''\<rparr> :: string parser_state"
  have run: "parse_lines Some init_state [''*Nset, nset=A'', ''1'', ''*Elset, elset=B'', ''2'', ''*Surface, name=C''] = Inr ?S"
    by code_simp
  have c: "at_most_one_active ?C"
    by (simp add: at_most_one_active_def active_collections_def init_state_def)
  have step: "parse_line Some ?C ''*Elset, elset=B'' = Inr ?B"
    by code_simp
  have n: "startswith (lower ''*Nset, nset=A'') ''*nset'' \<and> named (extract_name ''nset='' (lower ''*Nset, nset=A''))"
    and nn: "extract_name ''nset='' (lower ''*Nset, nset=A'') = Some ''A''"
    by code_simp+
  have e: "startswith (lower ''*Elset, elset=B'') ''*elset'' \<and> named (extract_name ''elset='' (lower ''*Elset, elset=B''))"
    and en: "extract_name ''elset='' (lower ''*Elset, elset=B'') = Some ''B''"
    by code_simp+
  have f: "startswith (lower ''*Surface, type=ELEMENT, name=C'') ''*surface''
      \<and> named (extract_name ''name='' (lower ''*Surface, type=ELEMENT, name=C''))"
    and fn: "extract_name ''name='' (lower ''*Surface, type=ELEMENT, name=C'') = Some ''C''"
    by code_simp+
  note t1 = at_most_one_collection_active [where py_float = Some and lines = "[''*Nset, nset=A'', ''1'', ''*Elset, elset=B'', ''2'', ''*Surface, name=C'']"
      and s = ?S, THEN conjunct1, THEN mp, OF run]
  note t2 = at_most_one_collection_active [where py_float = Some and s = ?C and line = "''*Elset, elset=B''" and s' = ?B,
      THEN conjunct2, THEN conjunct1, THEN mp, OF conjI [OF c step]]
  note t3 = at_most_one_collection_active [where s = ?C and ls = "''*Nset, nset=A''",
      THEN conjunct2, THEN conjunct2, THEN conjunct1, THEN mp, OF n, unfolded nn]
  note t4 = at_most_one_collection_active [where s = ?C and ls = "''*Elset, elset=B''",
      THEN conjunct2, THEN conjunct2, THEN conjunct2, THEN conjunct1, THEN mp, OF e, unfolded en]
  note t5 = at_most_one_collection_active [where s = ?A and ls = "''*Surface, type=ELEMENT, name=C''",
      THEN conjunct2, THEN conjunct2, THEN conjunct2, THEN conjunct2, THEN mp, OF f, unfolded fn]
  from run t1 c step t2 t3 t4 t5 show ?thesis by (simp only: simp_thms)
qed

section \<open>Data lines of a surface\<close>

lemma node_line_short: "length (split_on (CHR '','') ls) < 4 \<Longrightarrow> node_line py_float s ls = Inr s"
  by (simp add: node_line_def)

lemma element_line_short: "length (split_on (CHR '','') ls) < 9 \<Longrightarrow> element_line s ls = Inr s"
  by (simp add: element_line_def)

lemma section_line_short: "length (split_on (CHR '','') ls) < 4 \<Longrightarrow> section_line py_float s ls = Inr s"
  by (simp add: section_line_def node_line_short element_line_short)

lemma nset_line_inactive: "current_nset_name s = None \<Longrightarrow> nset_line s ls = Inr s"
  by (simp add: nset_line_def)

lemma elset_line_inactive: "current_elset_name s = None \<Longrightarrow> elset_line s ls = Inr s"
  by (simp add: elset_line_def)

lemma surf_line_inactive: "current_surf_name s = None \<Longrightarrow> surf_line s ls = Inr s"
  by (simp add: surf_line_def)

lemma data_line_no_collection:
  assumes "current_nset_name s = None" and "current_elset_name s = None" and "current_surf_name s = None"
  shows "data_line py_float s ls = section_line py_float s ls"
proof (cases "section_line py_float s ls")
  case (Inl e)
  then show ?thesis by (simp add: data_line_def)
next
  case (Inr s1)
  from section_line_frame [OF Inr] assms
  have "current_nset_name s1 = None" and "current_elset_name s1 = None" and "current_surf_name s1 = None"
    by simp_all
  then show ?thesis using Inr
    by (simp add: data_line_def nset_line_inactive elset_line_inactive surf_line_inactive)
qed

lemma surf_line_pair:
  assumes "current_surf_name s = Some name" and "ls \<noteq> []" and "\<not> startswith ls ''*''"
    and "split_on (CHR '','') ls = [id_str, surf]" and "map_of (surfaces s) name = Some defs"
    and "py_int id_str = Some i"
  shows "surf_line s ls = Inr (s\<lparr>surfaces := dict_set (surfaces s) name (defs @ [(i, surf)])\<rparr>)"
  using assms by (simp add: surf_line_def)

lemma surf_line_unpack:
  assumes "current_surf_name s = Some name" and "ls \<noteq> []" and "\<not> startswith ls ''*''"
    and "length (split_on (CHR '','') ls) \<noteq> 2"
  shows "surf_line s ls = Inl (ValueError_unpack (length (split_on (CHR '','') ls)))"
  using assms by (auto simp: surf_line_def split: list.split)

lemma data_line_surface_unpack:
  assumes "current_surf_name s = Some name" and "ls \<noteq> []" and "\<not> startswith ls ''*''"
    and "length (split_on (CHR '','') ls) \<noteq> 2"
  shows "\<exists>e. data_line py_float s ls = Inl e"
proof (cases "data_line py_float s ls")
  case (Inl e)
  then show ?thesis by simp
next
  case (Inr s')
  then obtain s1 s2 s3 where
    1: "section_line py_float s ls = Inr s1" and 2: "nset_line s1 ls = Inr s2" and
    3: "elset_line s2 ls = Inr s3" and 4: "surf_line s3 ls = Inr s'"
    by (rule data_line_InrE)
  from section_line_frame [OF 1] nset_line_frame [OF 2] elset_line_frame [OF 3] assms(1)
  have "current_surf_name s3 = Some name" by simp
  from surf_line_unpack [OF this assms(2-4)] 4 show ?thesis by simp
qed

lemma main_parse_error:
  "parse_lines py_float init_state lines = Inl e \<Longrightarrow> main py_float fmt_g lines = (None, Some e)"
  by (simp add: main_def parse_inp_def)

lemma only_active_surface:
  assumes "at_most_one_active s" and "current_surf_name s = Some name"
  shows "current_nset_name s = None \<and> current_elset_name s = None"
  using assms by (auto simp: at_most_one_active_def active_collections_def split: if_splits)

text \<open>
  Claim C5. In a state the parser has reached with a surface active, the surface is in
  the dictionary, and a data line is split on commas. If that gives exactly two fields
  and the first is an integer, the pair of that integer and the second field (as it
  stands) is appended to the definition list of the surface, and nothing else changes.
  If it gives any other number of fields the line raises, so the parse of the whole file
  raises and \<open>main\<close> ends before the output file is opened; when no node or element
  section is being read the exception is the unpacking error for that number of fields.
\<close>

theorem surface_data_line:
  assumes "parse_lines py_float init_state before = Inr s"
    and "current_surf_name s = Some name"
    and "is_data_line line"
  shows "\<exists>defs. map_of (surfaces s) name = Some defs
      \<and> (\<forall>id_str surf i. split_on (CHR '','') (strip line) = [id_str, surf] \<and> py_int id_str = Some i \<longrightarrow>
            parse_line py_float s line =
              Inr (s\<lparr>surfaces := dict_set (surfaces s) name (defs @ [(i, surf)])\<rparr>))
      \<and> (length (split_on (CHR '','') (strip line)) \<noteq> 2 \<longrightarrow>
            (\<exists>e. parse_line py_float s line = Inl e
                \<and> parse_lines py_float init_state (before @ line # rest) = Inl e
                \<and> main py_float fmt_g (before @ line # rest) = (None, Some e)))
      \<and> (length (split_on (CHR '','') (strip line)) \<noteq> 2 \<and> \<not> reading_nodes s \<and> \<not> reading_elements s \<longrightarrow>
            parse_line py_float s line = Inl (ValueError_unpack (length (split_on (CHR '','') (strip line)))))"
proof -
  let ?ls = "strip line"
  from assms(3) have ls: "?ls \<noteq> []" "\<not> startswith ?ls ''*''"
    by (simp_all add: is_data_line_def)
  from reached_invariant [OF assms(1)] have inv: "at_most_one_active s" "pointers_entered s"
    by simp_all
  from only_active_surface [OF inv(1) assms(2)]
  have off: "current_nset_name s = None" "current_elset_name s = None" by simp_all
  from inv(2) assms(2) obtain defs where defs: "map_of (surfaces s) name = Some defs"
    by (auto simp: pointers_entered_def)
  have pair: "parse_line py_float s line = Inr (s\<lparr>surfaces := dict_set (surfaces s) name (defs @ [(i, surf)])\<rparr>)"
    if "split_on (CHR '','') ?ls = [id_str, surf]" and "py_int id_str = Some i" for id_str surf i
  proof -
    from that(1) have "section_line py_float s ?ls = Inr s" by (simp add: section_line_short)
    then show ?thesis
      using off surf_line_pair [OF assms(2) ls that(1) defs that(2)]
      by (simp add: parse_line_data [OF assms(3)] data_line_def nset_line_inactive elset_line_inactive)
  qed
  have fail: "\<exists>e. parse_line py_float s line = Inl e
                \<and> parse_lines py_float init_state (before @ line # rest) = Inl e
                \<and> main py_float fmt_g (before @ line # rest) = (None, Some e)"
    if "length (split_on (CHR '','') ?ls) \<noteq> 2"
  proof -
    from data_line_surface_unpack [OF assms(2) ls that]
    obtain e where e: "parse_line py_float s line = Inl e"
      by (auto simp: parse_line_data [OF assms(3)])
    then have all: "parse_lines py_float init_state (before @ line # rest) = Inl e"
      using assms(1) by (simp add: parse_lines_append)
    from e all main_parse_error [OF all] show ?thesis by blast
  qed
  have exact: "parse_line py_float s line = Inl (ValueError_unpack (length (split_on (CHR '','') ?ls)))"
    if "length (split_on (CHR '','') ?ls) \<noteq> 2" and "\<not> reading_nodes s" and "\<not> reading_elements s"
  proof -
    from that(2,3) have "section_line py_float s ?ls = Inr s" by (simp add: section_line_def)
    then show ?thesis
      using off surf_line_unpack [OF assms(2) ls that(1)]
      by (simp add: parse_line_data [OF assms(3)] data_line_def nset_line_inactive elset_line_inactive)
  qed
  from defs pair fail exact show ?thesis by blast
qed

text \<open>After \<open>*Surface, name=FACEK1A\<close>: a line of two fields and a line of three.\<close>

theorem surface_data_line_witness:
  "parse_lines Some init_state [''*Surface, name=FACEK1A'']
     = Inr (init_state\<lparr>current_surf_name := Some ''FACEK1A'', surfaces := [(''FACEK1A'', [])]\<rparr> :: string parser_state)
   \<and> is_data_line '' 3, S2 ''
   \<and> parse_line Some (init_state\<lparr>current_surf_name := Some ''FACEK1A'', surfaces := [(''FACEK1A'', [])]\<rparr>) '' 3, S2 ''
     = Inr (init_state\<lparr>current_surf_name := Some ''FACEK1A'', surfaces := [(''FACEK1A'', [(3, '' S2'')])]\<rparr> :: string parser_state)
   \<and> is_data_line ''3, S2, 1''
   \<and> parse_line Some (init_state\<lparr>current_surf_name := Some ''FACEK1A'', surfaces := [(''FACEK1A'', [])]\<rparr> :: string parser_state) ''3, S2, 1''
     = Inl (ValueError_unpack 3)
   \<and> main Some (id :: string \<Rightarrow> string) [''*Surface, name=FACEK1A'', ''3, S2, 1'', ''4, S1''] = (None, Some (ValueError_unpack 3))"
proof -
  let ?S = "init_state\<lparr>current_surf_name := Some ''FACEK1A'', surfaces := [(''FACEK1A'', [])]\<rparr> :: string parser_state"
  have run: "parse_lines Some init_state [''*Surface, name=FACEK1A''] = Inr ?S"
    by code_simp
  have cur: "current_surf_name ?S = Some ''FACEK1A''" by simp
  have d1: "is_data_line '' 3, S2 ''" by code_simp
  have d2: "is_data_line ''3, S2, 1''" by code_simp
  have sp1: "split_on (CHR '','') (strip '' 3, S2 '') = [''3'', '' S2''] \<and> py_int ''3'' = Some 3"
    by code_simp
  have sp2: "length (split_on (CHR '','') (strip ''3, S2, 1'')) = 3" by code_simp
  have flags: "\<not> reading_nodes ?S \<and> \<not> reading_elements ?S" by (simp add: init_state_def)
  from surface_data_line [OF run cur d1, where fmt_g = id and rest = "[]"] sp1
  have p: "parse_line Some ?S '' 3, S2 ''
      = Inr (?S\<lparr>surfaces := dict_set (surfaces ?S) ''FACEK1A'' ([] @ [(3, '' S2'')])\<rparr>)"
    by auto
  from surface_data_line [OF run cur d2, where fmt_g = id and rest = "[''4, S1'']"] sp2 flags
  have q: "parse_line Some ?S ''3, S2, 1'' = Inl (ValueError_unpack 3)
      \<and> main Some (id :: string \<Rightarrow> string) ([''*Surface, name=FACEK1A''] @ ''3, S2, 1'' # [''4, S1'']) = (None, Some (ValueError_unpack 3))"
    by auto
  from run d1 d2 p q show ?thesis by simp
qed

section \<open>Node and element directives while a set is active\<close>

lemma lower_char_star: "lower_char a = CHR ''*'' \<longleftrightarrow> a = CHR ''*''"
  by (auto simp: lower_char_def split: if_splits)

lemma keyword_line:
  assumes "startswith (lower ls) (CHR ''*'' # c # kw)" and "c \<noteq> CHR ''*''"
  shows "startswith ls ''*'' \<and> \<not> startswith ls ''**''"
proof -
  from assms(1) obtain r where "map lower_char ls = CHR ''*'' # c # kw @ r"
    by (auto simp: startswith_iff lower_def)
  then obtain a b ls' where ls: "ls = a # b # ls'" and a: "lower_char a = CHR ''*''" and b: "lower_char b = c"
    by (auto simp: map_eq_Cons_conv)
  from a have "a = CHR ''*''" by (simp add: lower_char_star)
  moreover from b assms(2) have "b \<noteq> CHR ''*''" using lower_char_star by blast
  ultimately show ?thesis using ls by (simp add: startswith_def)
qed

lemma parse_line_keyword:
  assumes "startswith (lower (strip line)) (CHR ''*'' # c # kw)" and "c \<noteq> CHR ''*''"
  shows "parse_line py_float s line = Inr (directive s (strip line))"
  using keyword_line [OF assms] by (simp add: parse_line_directive)

lemma nset_line_active:
  assumes "current_nset_name s = Some name" and "ls \<noteq> []" and "\<not> startswith ls ''*''"
  shows "nset_line s ls =
     (case ints_of (id_tokens ls) of
        Inl e \<Rightarrow> Inl e
      | Inr ids \<Rightarrow>
          (case map_of (nsets s) name of
             None \<Rightarrow> Inl (KeyError_name name)
           | Some members \<Rightarrow> Inr (s\<lparr>nsets := dict_set (nsets s) name (members @ ids)\<rparr>)))"
  using assms by (simp add: nset_line_def)

lemma elset_line_active:
  assumes "current_elset_name s = Some name" and "ls \<noteq> []" and "\<not> startswith ls ''*''"
  shows "elset_line s ls =
     (case ints_of (id_tokens ls) of
        Inl e \<Rightarrow> Inl e
      | Inr ids \<Rightarrow>
          (case map_of (elsets s) name of
             None \<Rightarrow> Inl (KeyError_name name)
           | Some members \<Rightarrow> Inr (s\<lparr>elsets := dict_set (elsets s) name (members @ ids)\<rparr>)))"
  using assms by (simp add: elset_line_def)

lemma data_line_nset_active:
  assumes "is_data_line dl" and "current_nset_name s = Some name" and "map_of (nsets s) name = Some members"
    and "current_elset_name s = None" and "current_surf_name s = None"
    and "section_line py_float s (strip dl) = Inr s1"
  shows "parse_line py_float s dl =
     (case ints_of (id_tokens (strip dl)) of
        Inl e \<Rightarrow> Inl e
      | Inr ids \<Rightarrow> Inr (s1\<lparr>nsets := dict_set (nsets s) name (members @ ids)\<rparr>))"
proof -
  from assms(1) have ls: "strip dl \<noteq> []" "\<not> startswith (strip dl) ''*''"
    by (simp_all add: is_data_line_def)
  note f = section_line_frame [OF assms(6)]
  from f assms(2) have n1: "current_nset_name s1 = Some name" by simp
  from f assms(3) have m1: "map_of (nsets s1) name = Some members" and k1: "nsets s1 = nsets s" by simp_all
  from f assms(4,5) have off: "current_elset_name s1 = None" "current_surf_name s1 = None" by simp_all
  show ?thesis
  proof (cases "ints_of (id_tokens (strip dl))")
    case (Inl e)
    then show ?thesis using assms(6)
      by (simp add: parse_line_data [OF assms(1)] data_line_def nset_line_active [OF n1 ls])
  next
    case (Inr ids)
    then have "nset_line s1 (strip dl) = Inr (s1\<lparr>nsets := dict_set (nsets s) name (members @ ids)\<rparr>)"
      using m1 k1 by (simp add: nset_line_active [OF n1 ls])
    then show ?thesis using assms(6) Inr off
      by (simp add: parse_line_data [OF assms(1)] data_line_def elset_line_inactive surf_line_inactive)
  qed
qed

lemma data_line_elset_active:
  assumes "is_data_line dl" and "current_elset_name s = Some name" and "map_of (elsets s) name = Some members"
    and "current_nset_name s = None" and "current_surf_name s = None"
    and "section_line py_float s (strip dl) = Inr s1"
  shows "parse_line py_float s dl =
     (case ints_of (id_tokens (strip dl)) of
        Inl e \<Rightarrow> Inl e
      | Inr ids \<Rightarrow> Inr (s1\<lparr>elsets := dict_set (elsets s) name (members @ ids)\<rparr>))"
proof -
  from assms(1) have ls: "strip dl \<noteq> []" "\<not> startswith (strip dl) ''*''"
    by (simp_all add: is_data_line_def)
  note f = section_line_frame [OF assms(6)]
  from f assms(2) have n1: "current_elset_name s1 = Some name" by simp
  from f assms(3) have m1: "map_of (elsets s1) name = Some members" and k1: "elsets s1 = elsets s" by simp_all
  from f assms(4,5) have off: "current_nset_name s1 = None" "current_surf_name s1 = None" by simp_all
  show ?thesis
  proof (cases "ints_of (id_tokens (strip dl))")
    case (Inl e)
    then show ?thesis using assms(6) off
      by (simp add: parse_line_data [OF assms(1)] data_line_def nset_line_inactive elset_line_active [OF n1 ls])
  next
    case (Inr ids)
    then have "elset_line s1 (strip dl) = Inr (s1\<lparr>elsets := dict_set (elsets s) name (members @ ids)\<rparr>)"
      using m1 k1 by (simp add: elset_line_active [OF n1 ls])
    then show ?thesis using assms(6) Inr off
      by (simp add: parse_line_data [OF assms(1)] data_line_def nset_line_inactive surf_line_inactive)
  qed
qed

lemma section_error_is_line_error:
  assumes "is_data_line dl" and "section_line py_float s (strip dl) = Inl e"
  shows "parse_line py_float s dl = Inl e"
  using assms by (simp add: parse_line_data data_line_def)

lemma nset_then_node_example:
  assumes "py_float '' 0.5'' = Some x" and "py_float '' 0.0'' = Some y"
  shows "parse_inp py_float [''*Nset, nset=K1A'', ''*Node'', ''1, 0.5, 0.0, 0.0''] = Inl (ValueError_int ''0.5'')"
proof -
  let ?s1 = "init_state\<lparr>current_nset_name := Some ''K1A'', nsets := [(''K1A'', [])]\<rparr> :: 'a parser_state"
  let ?s2 = "?s1\<lparr>reading_nodes := True\<rparr>"
  have k1: "startswith (lower (strip ''*Nset, nset=K1A'')) ''*nset''"
    and k2: "extract_name ''nset='' (lower (strip ''*Nset, nset=K1A'')) = Some ''K1A''"
    and k3: "startswith (lower (strip ''*Node'')) ''*node''"
    by code_simp+
  from k2 have k4: "named (extract_name ''nset='' (lower (strip ''*Nset, nset=K1A'')))"
    by (simp add: named_def)
  have l1: "parse_line py_float init_state ''*Nset, nset=K1A'' = Inr ?s1"
    using parse_line_keyword [of "''*Nset, nset=K1A''" "CHR ''n''" "''set''" py_float init_state] k1
    by (simp add: directive_nset_named [OF k1 k4] k2 setdefault_def init_state_def)
  have l2: "parse_line py_float ?s1 ''*Node'' = Inr ?s2"
    using parse_line_keyword [of "''*Node''" "CHR ''n''" "''ode''" py_float ?s1] k3
    by (simp add: directive_node [OF k3] init_state_def)
  have d: "is_data_line ''1, 0.5, 0.0, 0.0''" by code_simp
  have sec: "section_line py_float ?s2 (strip ''1, 0.5, 0.0, 0.0'') = Inr (?s2\<lparr>nodes := [(1, (x, y, y))]\<rparr>)"
  proof -
    have p: "split_on (CHR '','') (strip ''1, 0.5, 0.0, 0.0'') = [''1'', '' 0.5'', '' 0.0'', '' 0.0'']"
      and i: "py_int ''1'' = Some 1"
      by code_simp+
    show ?thesis using assms
      by (simp add: section_line_def node_line_def p i init_state_def)
  qed
  have toks: "ints_of (id_tokens (strip ''1, 0.5, 0.0, 0.0'')) = Inl (ValueError_int ''0.5'')"
    by code_simp
  have "parse_line py_float ?s2 ''1, 0.5, 0.0, 0.0'' = Inl (ValueError_int ''0.5'')"
    using data_line_nset_active [OF d _ _ _ _ sec, of "''K1A''" "[]"] toks
    by (simp add: init_state_def)
  with l1 l2 show ?thesis by (simp add: parse_inp_def)
qed

text \<open>
  Claim C9. A \<open>*node\<close> or \<open>*element\<close> directive changes the two section flags only, so a
  node set or element set that is active stays active. While a node set is active (and
  nothing else), a data line is first handled by the section branch and then split into
  tokens that must all be integers: if they are, the line is recorded by the section
  branch and the integers are appended to the set; if one is not, the line raises, and
  so does the parse of the file: the exception is that of the section branch if it
  raised, else the \<open>ValueError\<close> of the first token that is no integer. The same holds
  for an active element set. For the file \<open>*Nset, nset=K1A\<close>, \<open>*Node\<close>,
  \<open>1, 0.5, 0.0, 0.0\<close> the parse ends with the \<open>ValueError\<close> for \<open>0.5\<close>.
\<close>

theorem section_directive_keeps_active_set:
  "(startswith (lower (strip line)) ''*node'' \<longrightarrow>
      parse_line py_float s line = Inr (s\<lparr>reading_nodes := True, reading_elements := False\<rparr>))
   \<and> (startswith (lower (strip line)) ''*element'' \<longrightarrow>
      parse_line py_float s line = Inr (s\<lparr>reading_nodes := False, reading_elements := True\<rparr>))
   \<and> (is_data_line dl \<and> current_nset_name s = Some name \<and> map_of (nsets s) name = Some members
        \<and> current_elset_name s = None \<and> current_surf_name s = None \<longrightarrow>
      (\<forall>s1 ids. section_line py_float s (strip dl) = Inr s1 \<and> ints_of (id_tokens (strip dl)) = Inr ids \<longrightarrow>
          parse_line py_float s dl = Inr (s1\<lparr>nsets := dict_set (nsets s) name (members @ ids)\<rparr>))
      \<and> (\<forall>e. ints_of (id_tokens (strip dl)) = Inl e \<longrightarrow>
          (\<exists>e'. parse_line py_float s dl = Inl e' \<and> parse_lines py_float s (dl # rest) = Inl e'))
      \<and> (\<forall>s1 e. section_line py_float s (strip dl) = Inr s1 \<and> ints_of (id_tokens (strip dl)) = Inl e \<longrightarrow>
          parse_line py_float s dl = Inl e))
   \<and> (is_data_line dl \<and> current_elset_name s = Some name \<and> map_of (elsets s) name = Some members
        \<and> current_nset_name s = None \<and> current_surf_name s = None \<longrightarrow>
      (\<forall>s1 ids. section_line py_float s (strip dl) = Inr s1 \<and> ints_of (id_tokens (strip dl)) = Inr ids \<longrightarrow>
          parse_line py_float s dl = Inr (s1\<lparr>elsets := dict_set (elsets s) name (members @ ids)\<rparr>))
      \<and> (\<forall>e. ints_of (id_tokens (strip dl)) = Inl e \<longrightarrow>
          (\<exists>e'. parse_line py_float s dl = Inl e' \<and> parse_lines py_float s (dl # rest) = Inl e'))
      \<and> (\<forall>s1 e. section_line py_float s (strip dl) = Inr s1 \<and> ints_of (id_tokens (strip dl)) = Inl e \<longrightarrow>
          parse_line py_float s dl = Inl e))
   \<and> (py_float '' 0.5'' = Some x \<and> py_float '' 0.0'' = Some y \<longrightarrow>
      parse_inp py_float [''*Nset, nset=K1A'', ''*Node'', ''1, 0.5, 0.0, 0.0''] = Inl (ValueError_int ''0.5''))"
proof -
  have node: "parse_line py_float s line = Inr (s\<lparr>reading_nodes := True, reading_elements := False\<rparr>)"
    if "startswith (lower (strip line)) ''*node''"
    using that parse_line_keyword [of line "CHR ''n''" "''ode''" py_float s]
    by (simp add: directive_node)
  have element: "parse_line py_float s line = Inr (s\<lparr>reading_nodes := False, reading_elements := True\<rparr>)"
    if "startswith (lower (strip line)) ''*element''"
    using that parse_line_keyword [of line "CHR ''e''" "''lement''" py_float s]
    by (simp add: directive_element)
  have nset: "(\<forall>s1 ids. section_line py_float s (strip dl) = Inr s1 \<and> ints_of (id_tokens (strip dl)) = Inr ids \<longrightarrow>
          parse_line py_float s dl = Inr (s1\<lparr>nsets := dict_set (nsets s) name (members @ ids)\<rparr>))
      \<and> (\<forall>e. ints_of (id_tokens (strip dl)) = Inl e \<longrightarrow>
          (\<exists>e'. parse_line py_float s dl = Inl e' \<and> parse_lines py_float s (dl # rest) = Inl e'))
      \<and> (\<forall>s1 e. section_line py_float s (strip dl) = Inr s1 \<and> ints_of (id_tokens (strip dl)) = Inl e \<longrightarrow>
          parse_line py_float s dl = Inl e)"
    if a: "is_data_line dl \<and> current_nset_name s = Some name \<and> map_of (nsets s) name = Some members
        \<and> current_elset_name s = None \<and> current_surf_name s = None"
  proof (cases "section_line py_float s (strip dl)")
    case (Inl e0)
    with a have "parse_line py_float s dl = Inl e0" by (simp add: section_error_is_line_error)
    with Inl show ?thesis by simp
  next
    case (Inr s1)
    from a have "parse_line py_float s dl =
       (case ints_of (id_tokens (strip dl)) of
          Inl e \<Rightarrow> Inl e
        | Inr ids \<Rightarrow> Inr (s1\<lparr>nsets := dict_set (nsets s) name (members @ ids)\<rparr>))"
      by (intro data_line_nset_active Inr) simp_all
    with Inr show ?thesis by simp
  qed
  have elset: "(\<forall>s1 ids. section_line py_float s (strip dl) = Inr s1 \<and> ints_of (id_tokens (strip dl)) = Inr ids \<longrightarrow>
          parse_line py_float s dl = Inr (s1\<lparr>elsets := dict_set (elsets s) name (members @ ids)\<rparr>))
      \<and> (\<forall>e. ints_of (id_tokens (strip dl)) = Inl e \<longrightarrow>
          (\<exists>e'. parse_line py_float s dl = Inl e' \<and> parse_lines py_float s (dl # rest) = Inl e'))
      \<and> (\<forall>s1 e. section_line py_float s (strip dl) = Inr s1 \<and> ints_of (id_tokens (strip dl)) = Inl e \<longrightarrow>
          parse_line py_float s dl = Inl e)"
    if a: "is_data_line dl \<and> current_elset_name s = Some name \<and> map_of (elsets s) name = Some members
        \<and> current_nset_name s = None \<and> current_surf_name s = None"
  proof (cases "section_line py_float s (strip dl)")
    case (Inl e0)
    with a have "parse_line py_float s dl = Inl e0" by (simp add: section_error_is_line_error)
    with Inl show ?thesis by simp
  next
    case (Inr s1)
    from a have "parse_line py_float s dl =
       (case ints_of (id_tokens (strip dl)) of
          Inl e \<Rightarrow> Inl e
        | Inr ids \<Rightarrow> Inr (s1\<lparr>elsets := dict_set (elsets s) name (members @ ids)\<rparr>))"
      by (intro data_line_elset_active Inr) simp_all
    with Inr show ?thesis by simp
  qed
  from node element nset elset nset_then_node_example [of py_float x y] show ?thesis
    by (intro conjI impI) blast+
qed

theorem section_directive_keeps_active_set_witness:
  "parse_line Some (init_state\<lparr>current_nset_name := Some ''K1A'', nsets := [(''K1A'', [])]\<rparr> :: string parser_state) ''*Node''
     = Inr (init_state\<lparr>current_nset_name := Some ''K1A'', nsets := [(''K1A'', [])], reading_nodes := True\<rparr>)
   \<and> parse_line Some (init_state\<lparr>current_elset_name := Some ''FLUID1'', elsets := [(''FLUID1'', [])]\<rparr> :: string parser_state)
        ''*Element, type=C3D8R''
     = Inr (init_state\<lparr>current_elset_name := Some ''FLUID1'', elsets := [(''FLUID1'', [])], reading_elements := True\<rparr>)
   \<and> parse_line Some (init_state\<lparr>current_nset_name := Some ''K1A'', nsets := [(''K1A'', [])], reading_nodes := True\<rparr>)
        ''1, 5, 0, 0''
     = Inr (init_state\<lparr>current_nset_name := Some ''K1A'', reading_nodes := True,
             nodes := [(1, ('' 5'', '' 0'', '' 0''))], nsets := [(''K1A'', [1, 5, 0, 0])]\<rparr>)
   \<and> parse_line Some (init_state\<lparr>current_nset_name := Some ''K1A'', nsets := [(''K1A'', [])], reading_nodes := True\<rparr> :: string parser_state)
        ''1, 0.5, 0.0, 0.0''
     = Inl (ValueError_int ''0.5'')
   \<and> parse_line Some (init_state\<lparr>current_elset_name := Some ''FLUID1'', elsets := [(''FLUID1'', [])], reading_elements := True\<rparr>)
        ''3, 1, 2, 3, 4, 5, 6, 7, 8''
     = Inr (init_state\<lparr>current_elset_name := Some ''FLUID1'', reading_elements := True,
             elements := [(3, [1, 2, 3, 4, 5, 6, 7, 8])], elsets := [(''FLUID1'', [3, 1, 2, 3, 4, 5, 6, 7, 8])]\<rparr> :: string parser_state)
   \<and> parse_inp Some [''*Nset, nset=K1A'', ''*Node'', ''1, 0.5, 0.0, 0.0''] = Inl (ValueError_int ''0.5'')"
proof -
  let ?N = "init_state\<lparr>current_nset_name := Some ''K1A'', nsets := [(''K1A'', [])]\<rparr> :: string parser_state"
  let ?E = "init_state\<lparr>current_elset_name := Some ''FLUID1'', elsets := [(''FLUID1'', [])]\<rparr> :: string parser_state"
  let ?N2 = "init_state\<lparr>current_nset_name := Some ''K1A'', nsets := [(''K1A'', [])], reading_nodes := True\<rparr> :: string parser_state"
  let ?E2 = "init_state\<lparr>current_elset_name := Some ''FLUID1'', elsets := [(''FLUID1'', [])], reading_elements := True\<rparr> :: string parser_state"
  note t = section_directive_keeps_active_set [where py_float = Some]
  have k1: "startswith (lower (strip ''*Node'')) ''*node''"
    and k2: "startswith (lower (strip ''*Element, type=C3D8R'')) ''*element''"
    by code_simp+
  note a = t [where s = ?N and line = "''*Node''", THEN conjunct1, THEN mp, OF k1]
  note b = t [where s = ?E and line = "''*Element, type=C3D8R''", THEN conjunct2, THEN conjunct1, THEN mp, OF k2]
  have hn: "is_data_line ''1, 5, 0, 0'' \<and> current_nset_name ?N2 = Some ''K1A'' \<and> map_of (nsets ?N2) ''K1A'' = Some []
        \<and> current_elset_name ?N2 = None \<and> current_surf_name ?N2 = None"
    and hn': "is_data_line ''1, 0.5, 0.0, 0.0'' \<and> current_nset_name ?N2 = Some ''K1A'' \<and> map_of (nsets ?N2) ''K1A'' = Some []
        \<and> current_elset_name ?N2 = None \<and> current_surf_name ?N2 = None"
    and he: "is_data_line ''3, 1, 2, 3, 4, 5, 6, 7, 8'' \<and> current_elset_name ?E2 = Some ''FLUID1'' \<and> map_of (elsets ?E2) ''FLUID1'' = Some []
        \<and> current_nset_name ?E2 = None \<and> current_surf_name ?E2 = None"
    by code_simp+
  have s1: "section_line Some ?N2 (strip ''1, 5, 0, 0'') = Inr (?N2\<lparr>nodes := [(1, ('' 5'', '' 0'', '' 0''))]\<rparr>)
      \<and> ints_of (id_tokens (strip ''1, 5, 0, 0'')) = Inr [1, 5, 0, 0]"
    by code_simp
  have s2: "section_line Some ?N2 (strip ''1, 0.5, 0.0, 0.0'') = Inr (?N2\<lparr>nodes := [(1, ('' 0.5'', '' 0.0'', '' 0.0''))]\<rparr>)
      \<and> ints_of (id_tokens (strip ''1, 0.5, 0.0, 0.0'')) = Inl (ValueError_int ''0.5'')"
    by code_simp
  have s3: "section_line Some ?E2 (strip ''3, 1, 2, 3, 4, 5, 6, 7, 8'') = Inr (?E2\<lparr>elements := [(3, [1, 2, 3, 4, 5, 6, 7, 8])]\<rparr>)
      \<and> ints_of (id_tokens (strip ''3, 1, 2, 3, 4, 5, 6, 7, 8'')) = Inr [3, 1, 2, 3, 4, 5, 6, 7, 8]"
    by code_simp
  note c = t [where s = ?N2 and dl = "''1, 5, 0, 0''" and name = "''K1A''" and members = "[]",
      THEN conjunct2, THEN conjunct2, THEN conjunct1, THEN mp, OF hn,
      THEN conjunct1, THEN spec, THEN spec, THEN mp, OF s1]
  note d = t [where s = ?N2 and dl = "''1, 0.5, 0.0, 0.0''" and name = "''K1A''" and members = "[]",
      THEN conjunct2, THEN conjunct2, THEN conjunct1, THEN mp, OF hn',
      THEN conjunct2, THEN conjunct2, THEN spec, THEN spec, THEN mp, OF s2]
  note e = t [where s = ?E2 and dl = "''3, 1, 2, 3, 4, 5, 6, 7, 8''" and name = "''FLUID1''" and members = "[]",
      THEN conjunct2, THEN conjunct2, THEN conjunct2, THEN conjunct1, THEN mp, OF he,
      THEN conjunct1, THEN spec, THEN spec, THEN mp, OF s3]
  have xy: "Some '' 0.5'' = Some '' 0.5'' \<and> Some '' 0.0'' = Some '' 0.0''" by simp
  note f = t [where x = "'' 0.5''" and y = "'' 0.0''",
      THEN conjunct2, THEN conjunct2, THEN conjunct2, THEN conjunct2, THEN mp, OF xy]
  from a b c d e f show ?thesis by (simp add: init_state_def)
qed

section \<open>Set and surface directives without a name\<close>

lemma upper_empty: "upper x = [] \<longleftrightarrow> x = []"
  by (simp add: upper_def)

lemma not_named_iff:
  "\<not> named (extract_name key l) \<longleftrightarrow>
     (case after_first key l of None \<Rightarrow> True | Some rest \<Rightarrow> strip (first_field rest) = [])"
  by (simp add: named_def extract_name_def upper_empty split: option.splits)

text \<open>
  Claim C10. A \<open>*surface\<close> directive from which no name is extracted (the key \<open>name=\<close>
  does not occur, or the text up to the next comma is blank) resets the two section flags
  and nothing else: the surface pointer stays as it was, and a following data line of two
  fields is appended to the surface opened before. A \<open>*nset\<close> or \<open>*elset\<close> directive
  without a name sets its own pointer to \<open>None\<close>.
\<close>

theorem unnamed_surface_directive_keeps_pointer:
  "(startswith (lower (strip line)) ''*surface'' \<and> \<not> named (extract_name ''name='' (lower (strip line))) \<longrightarrow>
      parse_line py_float s line = Inr (s\<lparr>reading_nodes := False, reading_elements := False\<rparr>)
      \<and> (\<forall>name defs id_str surf i.
            current_surf_name s = Some name \<and> map_of (surfaces s) name = Some defs
            \<and> current_nset_name s = None \<and> current_elset_name s = None
            \<and> is_data_line dl \<and> split_on (CHR '','') (strip dl) = [id_str, surf] \<and> py_int id_str = Some i \<longrightarrow>
            parse_lines py_float s [line, dl] =
              Inr (s\<lparr>reading_nodes := False, reading_elements := False,
                     surfaces := dict_set (surfaces s) name (defs @ [(i, surf)])\<rparr>)))
   \<and> (startswith (lower (strip line)) ''*nset'' \<and> \<not> named (extract_name ''nset='' (lower (strip line))) \<longrightarrow>
      parse_line py_float s line =
        Inr (s\<lparr>reading_nodes := False, reading_elements := False, current_nset_name := None\<rparr>))
   \<and> (startswith (lower (strip line)) ''*elset'' \<and> \<not> named (extract_name ''elset='' (lower (strip line))) \<longrightarrow>
      parse_line py_float s line =
        Inr (s\<lparr>reading_nodes := False, reading_elements := False, current_elset_name := None\<rparr>))
   \<and> (\<not> named (extract_name key l) \<longleftrightarrow>
        (case after_first key l of None \<Rightarrow> True | Some rest \<Rightarrow> strip (first_field rest) = []))"
proof -
  have surf: "parse_line py_float s line = Inr (s\<lparr>reading_nodes := False, reading_elements := False\<rparr>)"
    if "startswith (lower (strip line)) ''*surface'' \<and> \<not> named (extract_name ''name='' (lower (strip line)))"
    using that parse_line_keyword [of line "CHR ''s''" "''urface''" py_float s]
    by (simp add: directive_surface_unnamed)
  have after: "parse_lines py_float s [line, dl] =
              Inr (s\<lparr>reading_nodes := False, reading_elements := False,
                     surfaces := dict_set (surfaces s) name (defs @ [(i, surf)])\<rparr>)"
    if u: "startswith (lower (strip line)) ''*surface'' \<and> \<not> named (extract_name ''name='' (lower (strip line)))"
      and a: "current_surf_name s = Some name \<and> map_of (surfaces s) name = Some defs
            \<and> current_nset_name s = None \<and> current_elset_name s = None
            \<and> is_data_line dl \<and> split_on (CHR '','') (strip dl) = [id_str, surf] \<and> py_int id_str = Some i"
    for name defs id_str surf i
  proof -
    let ?s1 = "s\<lparr>reading_nodes := False, reading_elements := False\<rparr>"
    from a have ls: "strip dl \<noteq> []" "\<not> startswith (strip dl) ''*''" by (simp_all add: is_data_line_def)
    from a have cur: "current_surf_name ?s1 = Some name" and defs: "map_of (surfaces ?s1) name = Some defs"
      by simp_all
    from a have sec: "section_line py_float ?s1 (strip dl) = Inr ?s1" by (simp add: section_line_def)
    from a have sp: "split_on (CHR '','') (strip dl) = [id_str, surf]" and pi: "py_int id_str = Some i"
      by simp_all
    have "surf_line ?s1 (strip dl) = Inr (?s1\<lparr>surfaces := dict_set (surfaces ?s1) name (defs @ [(i, surf)])\<rparr>)"
      by (rule surf_line_pair [OF cur ls sp defs pi])
    with a sec have "parse_line py_float ?s1 dl
        = Inr (?s1\<lparr>surfaces := dict_set (surfaces ?s1) name (defs @ [(i, surf)])\<rparr>)"
      by (simp add: parse_line_data data_line_def nset_line_inactive elset_line_inactive)
    with surf [OF u] show ?thesis by simp
  qed
  have nset: "parse_line py_float s line =
        Inr (s\<lparr>reading_nodes := False, reading_elements := False, current_nset_name := None\<rparr>)"
    if "startswith (lower (strip line)) ''*nset'' \<and> \<not> named (extract_name ''nset='' (lower (strip line)))"
    using that parse_line_keyword [of line "CHR ''n''" "''set''" py_float s]
    by (simp add: directive_nset_unnamed)
  have elset: "parse_line py_float s line =
        Inr (s\<lparr>reading_nodes := False, reading_elements := False, current_elset_name := None\<rparr>)"
    if "startswith (lower (strip line)) ''*elset'' \<and> \<not> named (extract_name ''elset='' (lower (strip line)))"
    using that parse_line_keyword [of line "CHR ''e''" "''lset''" py_float s]
    by (simp add: directive_elset_unnamed)
  show ?thesis
  proof (intro conjI impI allI)
    assume u: "startswith (lower (strip line)) ''*surface'' \<and> \<not> named (extract_name ''name='' (lower (strip line)))"
    then show "parse_line py_float s line = Inr (s\<lparr>reading_nodes := False, reading_elements := False\<rparr>)"
      by (rule surf)
    fix name defs id_str surf i
    assume "current_surf_name s = Some name \<and> map_of (surfaces s) name = Some defs
            \<and> current_nset_name s = None \<and> current_elset_name s = None
            \<and> is_data_line dl \<and> split_on (CHR '','') (strip dl) = [id_str, surf] \<and> py_int id_str = Some i"
    with u show "parse_lines py_float s [line, dl] =
              Inr (s\<lparr>reading_nodes := False, reading_elements := False,
                     surfaces := dict_set (surfaces s) name (defs @ [(i, surf)])\<rparr>)"
      by (rule after)
  next
    assume "startswith (lower (strip line)) ''*nset'' \<and> \<not> named (extract_name ''nset='' (lower (strip line)))"
    then show "parse_line py_float s line =
        Inr (s\<lparr>reading_nodes := False, reading_elements := False, current_nset_name := None\<rparr>)"
      by (rule nset)
  next
    assume "startswith (lower (strip line)) ''*elset'' \<and> \<not> named (extract_name ''elset='' (lower (strip line)))"
    then show "parse_line py_float s line =
        Inr (s\<lparr>reading_nodes := False, reading_elements := False, current_elset_name := None\<rparr>)"
      by (rule elset)
  next
    show "\<not> named (extract_name key l) \<longleftrightarrow>
        (case after_first key l of None \<Rightarrow> True | Some rest \<Rightarrow> strip (first_field rest) = [])"
      by (rule not_named_iff)
  qed
qed

theorem unnamed_surface_directive_keeps_pointer_witness:
  "parse_line Some (init_state\<lparr>current_surf_name := Some ''A'', surfaces := [(''A'', [(1, ''S1'')])]\<rparr> :: string parser_state) ''*Surface''
     = Inr (init_state\<lparr>current_surf_name := Some ''A'', surfaces := [(''A'', [(1, ''S1'')])]\<rparr>)
   \<and> parse_lines Some (init_state\<lparr>current_surf_name := Some ''A'', surfaces := [(''A'', [(1, ''S1'')])]\<rparr> :: string parser_state)
        [''*Surface'', ''2,S2'']
     = Inr (init_state\<lparr>current_surf_name := Some ''A'', surfaces := [(''A'', [(1, ''S1''), (2, ''S2'')])]\<rparr>)
   \<and> parse_line Some (init_state\<lparr>current_nset_name := Some ''K1A'', nsets := [(''K1A'', [])]\<rparr> :: string parser_state) ''*Nset''
     = Inr (init_state\<lparr>nsets := [(''K1A'', [])]\<rparr>)
   \<and> parse_line Some (init_state\<lparr>current_elset_name := Some ''FLUID1'', elsets := [(''FLUID1'', [])]\<rparr> :: string parser_state)
        ''*Elset, elset= , generate''
     = Inr (init_state\<lparr>elsets := [(''FLUID1'', [])]\<rparr>)
   \<and> \<not> named (extract_name ''name='' ''*surface'')
   \<and> parse_inp Some [''*Surface, name=A'', ''1,S1'', ''*Surface'', ''2,S2'']
     = Inr ([], [], [], [], [(''A'', [(1, ''S1''), (2, ''S2'')])])"
proof -
  let ?S = "init_state\<lparr>current_surf_name := Some ''A'', surfaces := [(''A'', [(1, ''S1'')])]\<rparr> :: string parser_state"
  let ?N = "init_state\<lparr>current_nset_name := Some ''K1A'', nsets := [(''K1A'', [])]\<rparr> :: string parser_state"
  let ?E = "init_state\<lparr>current_elset_name := Some ''FLUID1'', elsets := [(''FLUID1'', [])]\<rparr> :: string parser_state"
  note t = unnamed_surface_directive_keeps_pointer [where py_float = Some]
  have u: "startswith (lower (strip ''*Surface'')) ''*surface'' \<and> \<not> named (extract_name ''name='' (lower (strip ''*Surface'')))"
    and un: "startswith (lower (strip ''*Nset'')) ''*nset'' \<and> \<not> named (extract_name ''nset='' (lower (strip ''*Nset'')))"
    and ue: "startswith (lower (strip ''*Elset, elset= , generate'')) ''*elset''
        \<and> \<not> named (extract_name ''elset='' (lower (strip ''*Elset, elset= , generate'')))"
    by code_simp+
  have h: "current_surf_name ?S = Some ''A'' \<and> map_of (surfaces ?S) ''A'' = Some [(1, ''S1'')]
            \<and> current_nset_name ?S = None \<and> current_elset_name ?S = None
            \<and> is_data_line ''2,S2'' \<and> split_on (CHR '','') (strip ''2,S2'') = [''2'', ''S2''] \<and> py_int ''2'' = Some 2"
    by code_simp
  note a = t [where s = ?S and line = "''*Surface''" and dl = "''2,S2''", THEN conjunct1, THEN mp, OF u]
  note a1 = a [THEN conjunct1]
  note a2 = a [THEN conjunct2, THEN spec, THEN spec, THEN spec, THEN spec, THEN spec, THEN mp, OF h]
  note b = t [where s = ?N and line = "''*Nset''", THEN conjunct2, THEN conjunct1, THEN mp, OF un]
  note c = t [where s = ?E and line = "''*Elset, elset= , generate''",
      THEN conjunct2, THEN conjunct2, THEN conjunct1, THEN mp, OF ue]
  have n: "after_first ''name='' ''*surface'' = None" by code_simp
  have d: "\<not> named (extract_name ''name='' ''*surface'')"
    using t [where key = "''name=''" and l = "''*surface''", THEN conjunct2, THEN conjunct2, THEN conjunct2]
    by (simp add: n)
  have e: "parse_inp Some [''*Surface, name=A'', ''1,S1'', ''*Surface'', ''2,S2'']
     = Inr ([], [], [], [], [(''A'', [(1, ''S1''), (2, ''S2'')])])"
    by code_simp
  from a1 a2 b c d e show ?thesis by (simp add: init_state_def)
qed

section \<open>The dictionaries of a parsed model\<close>

text \<open>
  The association lists that \<open>parse_inp\<close> returns have distinct keys: they are
  dictionaries, which is what the facts about the writer's blocks assume of them.
\<close>

lemma keys_dict_set:
  "map fst (dict_set d k v) = (if k \<in> set (map fst d) then map fst d else map fst d @ [k])"
  by (induction d k v rule: dict_set.induct) auto

lemma distinct_dict_set: "distinct (map fst d) \<Longrightarrow> distinct (map fst (dict_set d k v))"
  by (simp add: keys_dict_set)

lemma distinct_setdefault: "distinct (map fst d) \<Longrightarrow> distinct (map fst (setdefault d k v))"
  by (auto simp: setdefault_def map_of_eq_None_iff split: option.splits)

lemma section_line_distinct:
  assumes "section_line py_float s ls = Inr s'" and "dicts_distinct s"
  shows "dicts_distinct s'"
proof -
  from assms(1) have "s' = s \<or> (\<exists>nid xyz. s' = s\<lparr>nodes := dict_set (nodes s) nid xyz\<rparr>)
      \<or> (\<exists>eid conn. s' = s\<lparr>elements := dict_set (elements s) eid conn\<rparr>)"
  proof (cases "reading_nodes s")
    case True
    with assms(1) have "node_line py_float s ls = Inr s'" by (simp add: section_line_def)
    from node_line_frame [OF this] show ?thesis by blast
  next
    case no_nodes: False
    show ?thesis
    proof (cases "reading_elements s")
      case True
      with assms(1) no_nodes have "element_line s ls = Inr s'" by (simp add: section_line_def)
      from element_line_frame [OF this] show ?thesis by blast
    next
      case False
      with assms(1) no_nodes show ?thesis by (simp add: section_line_def)
    qed
  qed
  with assms(2) show ?thesis by (auto simp: dicts_distinct_def distinct_dict_set)
qed

lemma nset_line_distinct:
  assumes "nset_line s ls = Inr s'" and "dicts_distinct s"
  shows "dicts_distinct s'"
proof -
  from assms(1) have "s' = s \<or> (\<exists>name ms. s' = s\<lparr>nsets := dict_set (nsets s) name ms\<rparr>)"
    by (auto simp: nset_line_def split: option.splits if_splits sum.splits)
  with assms(2) show ?thesis by (auto simp: dicts_distinct_def distinct_dict_set)
qed

lemma elset_line_distinct:
  assumes "elset_line s ls = Inr s'" and "dicts_distinct s"
  shows "dicts_distinct s'"
proof -
  from assms(1) have "s' = s \<or> (\<exists>name ms. s' = s\<lparr>elsets := dict_set (elsets s) name ms\<rparr>)"
    by (auto simp: elset_line_def split: option.splits if_splits sum.splits)
  with assms(2) show ?thesis by (auto simp: dicts_distinct_def distinct_dict_set)
qed

lemma surf_line_distinct:
  assumes "surf_line s ls = Inr s'" and "dicts_distinct s"
  shows "dicts_distinct s'"
proof -
  from assms(1) have "s' = s \<or> (\<exists>name ds. s' = s\<lparr>surfaces := dict_set (surfaces s) name ds\<rparr>)"
    by (auto simp: surf_line_def split: option.splits if_splits sum.splits list.splits)
  with assms(2) show ?thesis by (auto simp: dicts_distinct_def distinct_dict_set)
qed

lemma data_line_distinct:
  assumes "data_line py_float s ls = Inr s'" and "dicts_distinct s"
  shows "dicts_distinct s'"
proof -
  from assms(1) obtain s1 s2 s3 where
    1: "section_line py_float s ls = Inr s1" and 2: "nset_line s1 ls = Inr s2" and
    3: "elset_line s2 ls = Inr s3" and 4: "surf_line s3 ls = Inr s'"
    by (rule data_line_InrE)
  from section_line_distinct [OF 1 assms(2)] have "dicts_distinct s1" .
  from nset_line_distinct [OF 2 this] have "dicts_distinct s2" .
  from elset_line_distinct [OF 3 this] have "dicts_distinct s3" .
  from surf_line_distinct [OF 4 this] show ?thesis .
qed

lemma directive_distinct: "dicts_distinct s \<Longrightarrow> dicts_distinct (directive s ls)"
  by (rule directive_cases [where s = s and ls = ls])
    (simp_all add: dicts_distinct_def distinct_setdefault)

lemma parse_line_distinct:
  assumes "parse_line py_float s line = Inr s'" and "dicts_distinct s"
  shows "dicts_distinct s'"
proof -
  have "s' = s \<or> s' = directive s (strip line) \<or> data_line py_float s (strip line) = Inr s'"
  proof (cases "strip line = [] \<or> startswith (strip line) ''**''")
    case True
    then show ?thesis using assms(1) by (simp add: parse_line_def)
  next
    case False
    then show ?thesis using assms(1)
      by (cases "startswith (strip line) ''*''") (simp_all add: parse_line_def)
  qed
  with assms(2) show ?thesis
    using directive_distinct data_line_distinct by blast
qed

lemma parse_lines_distinct:
  "parse_lines py_float s lines = Inr s' \<Longrightarrow> dicts_distinct s \<Longrightarrow> dicts_distinct s'"
proof (induction lines arbitrary: s)
  case Nil
  then show ?case by simp
next
  case (Cons line rest)
  from Cons.prems(1) obtain s1 where
    1: "parse_line py_float s line = Inr s1" and 2: "parse_lines py_float s1 rest = Inr s'"
    by (cases "parse_line py_float s line") simp_all
  from parse_line_distinct [OF 1 Cons.prems(2)] have "dicts_distinct s1" .
  with 2 show ?case by (rule Cons.IH)
qed

lemma parse_inp_distinct_keys:
  assumes "parse_inp py_float lines = Inr (node_dict, elem_dict, nset_dict, elset_dict, surf_dict)"
  shows "distinct (map fst node_dict) \<and> distinct (map fst elem_dict) \<and> distinct (map fst nset_dict)
     \<and> distinct (map fst elset_dict) \<and> distinct (map fst surf_dict)"
proof -
  from assms obtain s where s: "parse_lines py_float init_state lines = Inr s"
    and d: "node_dict = nodes s" "elem_dict = elements s" "nset_dict = nsets s"
      "elset_dict = elsets s" "surf_dict = surfaces s"
    by (cases "parse_lines py_float init_state lines") (simp_all add: parse_inp_def)
  have "dicts_distinct (init_state :: 'a parser_state)"
    by (simp add: dicts_distinct_def init_state_def)
  from parse_lines_distinct [OF s this] d show ?thesis by (simp add: dicts_distinct_def)
qed

section \<open>Data lines of the node and element sections\<close>

subsection \<open>Node lines\<close>

lemma data_line_keeps_section_dicts:
  assumes "data_line py_float s ls = Inr s'" and "section_line py_float s ls = Inr s1"
  shows "nodes s' = nodes s1 \<and> elements s' = elements s1"
proof -
  from assms(1) obtain t1 s2 s3 where
    1: "section_line py_float s ls = Inr t1" and 2: "nset_line t1 ls = Inr s2" and
    3: "elset_line s2 ls = Inr s3" and 4: "surf_line s3 ls = Inr s'"
    by (rule data_line_InrE)
  from 1 assms(2) have "t1 = s1" by simp
  with nset_line_frame [OF 2] elset_line_frame [OF 3] surf_line_frame [OF 4] show ?thesis by simp
qed

lemma data_line_surface_active:
  assumes "is_data_line dl" and "current_surf_name s = Some name"
    and "current_nset_name s = None" and "current_elset_name s = None"
    and "section_line py_float s (strip dl) = Inr s1"
    and "length (split_on (CHR '','') (strip dl)) \<noteq> 2"
  shows "parse_line py_float s dl = Inl (ValueError_unpack (length (split_on (CHR '','') (strip dl))))"
proof -
  from assms(1) have ls: "strip dl \<noteq> []" "\<not> startswith (strip dl) ''*''"
    by (simp_all add: is_data_line_def)
  note f = section_line_frame [OF assms(5)]
  from f assms(2) have cur: "current_surf_name s1 = Some name" by simp
  from f assms(3,4) have off: "current_nset_name s1 = None" "current_elset_name s1 = None" by simp_all
  from surf_line_unpack [OF cur ls assms(6)] assms(5) off show ?thesis
    by (simp add: parse_line_data [OF assms(1)] data_line_def nset_line_inactive elset_line_inactive)
qed

lemma surface_active_many_fields:
  assumes "is_data_line dl" and "current_surf_name s \<noteq> None"
    and "length (split_on (CHR '','') (strip dl)) \<noteq> 2"
  shows "\<exists>e. parse_line py_float s dl = Inl e"
proof -
  from assms(1) have ls: "strip dl \<noteq> []" "\<not> startswith (strip dl) ''*''"
    by (simp_all add: is_data_line_def)
  from assms(2) obtain name where "current_surf_name s = Some name" by blast
  from data_line_surface_unpack [OF this ls assms(3)] show ?thesis
    by (simp add: parse_line_data [OF assms(1)])
qed

text \<open>
  Claim C6. While the node section is being read, a data line that splits on commas
  into at least 4 fields, the first an integer and the next three floats, is recorded by
  the node branch as a node under that integer with the three floats as coordinates;
  fields after the fourth are not looked at by that branch. Whenever the step of the
  line returns, the node dictionary of the new state is the old one with that node set.
  Whether the step returns is decided by the named collection that is still active (a
  *Node directive leaves it active). With none active, the step returns, and the node is
  all the line changes. With a node set or an element set active, the whole line is read
  a second time as members of that set: the step returns exactly when every token of
  the line is an integer, and then the tokens are appended to the set; otherwise the
  conversion error of the first other token ends the parse. With a surface active, the
  line is unpacked into two fields, so a line of 4 fields or more always ends the parse
  with the unpacking error. A data line of fewer than 4 fields records no node: the node
  branch leaves the state as it is, and if the step returns, the node dictionary is
  unchanged.

  These are all the states in which the parser reads a line: at most one collection is
  active, and the active one has its entry in its dictionary.
\<close>

theorem node_data_line:
  assumes "is_data_line line" and "reading_nodes s"
    and "parts = split_on (CHR '','') (strip line)"
  shows "(4 \<le> length parts \<and> py_int (parts ! 0) = Some nid \<and> py_float (parts ! 1) = Some x
            \<and> py_float (parts ! 2) = Some y \<and> py_float (parts ! 3) = Some z \<longrightarrow>
          section_line py_float s (strip line) = Inr (s\<lparr>nodes := dict_set (nodes s) nid (x, y, z)\<rparr>)
          \<and> map_of (dict_set (nodes s) nid (x, y, z)) nid = Some (x, y, z)
          \<and> (\<forall>s'. parse_line py_float s line = Inr s' \<longrightarrow> nodes s' = dict_set (nodes s) nid (x, y, z))
          \<and> (current_nset_name s = None \<and> current_elset_name s = None \<and> current_surf_name s = None \<longrightarrow>
                parse_line py_float s line = Inr (s\<lparr>nodes := dict_set (nodes s) nid (x, y, z)\<rparr>))
          \<and> (\<forall>name members. current_nset_name s = Some name \<and> map_of (nsets s) name = Some members
                \<and> current_elset_name s = None \<and> current_surf_name s = None \<longrightarrow>
                parse_line py_float s line =
                  (case ints_of (id_tokens (strip line)) of
                     Inl e \<Rightarrow> Inl e
                   | Inr ids \<Rightarrow> Inr (s\<lparr>nodes := dict_set (nodes s) nid (x, y, z),
                                       nsets := dict_set (nsets s) name (members @ ids)\<rparr>)))
          \<and> (\<forall>name members. current_elset_name s = Some name \<and> map_of (elsets s) name = Some members
                \<and> current_nset_name s = None \<and> current_surf_name s = None \<longrightarrow>
                parse_line py_float s line =
                  (case ints_of (id_tokens (strip line)) of
                     Inl e \<Rightarrow> Inl e
                   | Inr ids \<Rightarrow> Inr (s\<lparr>nodes := dict_set (nodes s) nid (x, y, z),
                                       elsets := dict_set (elsets s) name (members @ ids)\<rparr>)))
          \<and> (current_surf_name s \<noteq> None \<longrightarrow> (\<exists>e. parse_line py_float s line = Inl e))
          \<and> (current_surf_name s \<noteq> None \<and> current_nset_name s = None \<and> current_elset_name s = None \<longrightarrow>
                parse_line py_float s line = Inl (ValueError_unpack (length parts))))
     \<and> (length parts < 4 \<longrightarrow>
          section_line py_float s (strip line) = Inr s
          \<and> (current_nset_name s = None \<and> current_elset_name s = None \<and> current_surf_name s = None \<longrightarrow>
                parse_line py_float s line = Inr s)
          \<and> (\<forall>s'. parse_line py_float s line = Inr s' \<longrightarrow> nodes s' = nodes s))"
proof (intro conjI impI allI)
  assume a: "4 \<le> length parts \<and> py_int (parts ! 0) = Some nid \<and> py_float (parts ! 1) = Some x
            \<and> py_float (parts ! 2) = Some y \<and> py_float (parts ! 3) = Some z"
  let ?rec = "s\<lparr>nodes := dict_set (nodes s) nid (x, y, z)\<rparr>"
  from a show rec: "section_line py_float s (strip line) = Inr ?rec"
    using assms(2,3) by (simp add: section_line_def node_line_def)
  show "map_of (dict_set (nodes s) nid (x, y, z)) nid = Some (x, y, z)"
    by (simp add: map_of_dict_set)
  from a assms(3) have many: "length (split_on (CHR '','') (strip line)) \<noteq> 2" by simp
  {
    fix s'
    assume "parse_line py_float s line = Inr s'"
    then have "data_line py_float s (strip line) = Inr s'"
      by (simp add: parse_line_data [OF assms(1)])
    from data_line_keeps_section_dicts [OF this rec]
    show "nodes s' = dict_set (nodes s) nid (x, y, z)" by simp
  }
  {
    assume "current_nset_name s = None \<and> current_elset_name s = None \<and> current_surf_name s = None"
    then show "parse_line py_float s line = Inr ?rec"
      using rec by (simp add: parse_line_data [OF assms(1)] data_line_no_collection)
  }
  {
    fix name members
    assume n: "current_nset_name s = Some name \<and> map_of (nsets s) name = Some members
                \<and> current_elset_name s = None \<and> current_surf_name s = None"
    then have "parse_line py_float s line =
       (case ints_of (id_tokens (strip line)) of
          Inl e \<Rightarrow> Inl e
        | Inr ids \<Rightarrow> Inr (?rec\<lparr>nsets := dict_set (nsets s) name (members @ ids)\<rparr>))"
      by (intro data_line_nset_active [OF assms(1) _ _ _ _ rec]) simp_all
    then show "parse_line py_float s line =
                  (case ints_of (id_tokens (strip line)) of
                     Inl e \<Rightarrow> Inl e
                   | Inr ids \<Rightarrow> Inr (s\<lparr>nodes := dict_set (nodes s) nid (x, y, z),
                                       nsets := dict_set (nsets s) name (members @ ids)\<rparr>))"
      by simp
  }
  {
    fix name members
    assume n: "current_elset_name s = Some name \<and> map_of (elsets s) name = Some members
                \<and> current_nset_name s = None \<and> current_surf_name s = None"
    then have "parse_line py_float s line =
       (case ints_of (id_tokens (strip line)) of
          Inl e \<Rightarrow> Inl e
        | Inr ids \<Rightarrow> Inr (?rec\<lparr>elsets := dict_set (elsets s) name (members @ ids)\<rparr>))"
      by (intro data_line_elset_active [OF assms(1) _ _ _ _ rec]) simp_all
    then show "parse_line py_float s line =
                  (case ints_of (id_tokens (strip line)) of
                     Inl e \<Rightarrow> Inl e
                   | Inr ids \<Rightarrow> Inr (s\<lparr>nodes := dict_set (nodes s) nid (x, y, z),
                                       elsets := dict_set (elsets s) name (members @ ids)\<rparr>))"
      by simp
  }
  {
    assume "current_surf_name s \<noteq> None"
    then show "\<exists>e. parse_line py_float s line = Inl e"
      using surface_active_many_fields [OF assms(1) _ many] by blast
  }
  assume u: "current_surf_name s \<noteq> None \<and> current_nset_name s = None \<and> current_elset_name s = None"
  then obtain name where "current_surf_name s = Some name" by blast
  from data_line_surface_active [OF assms(1) this _ _ rec many] u assms(3)
  show "parse_line py_float s line = Inl (ValueError_unpack (length parts))" by simp
next
  assume b: "length parts < 4"
  then show short: "section_line py_float s (strip line) = Inr s"
    using assms(3) by (simp add: section_line_short)
  {
    assume "current_nset_name s = None \<and> current_elset_name s = None \<and> current_surf_name s = None"
    then show "parse_line py_float s line = Inr s"
      using short by (simp add: parse_line_data [OF assms(1)] data_line_no_collection)
  }
  fix s'
  assume "parse_line py_float s line = Inr s'"
  then have "data_line py_float s (strip line) = Inr s'"
    by (simp add: parse_line_data [OF assms(1)])
  from data_line_keeps_section_dicts [OF this short] show "nodes s' = nodes s" by simp
qed

text \<open>
  The theorem at work: a node line with a fifth field; a line of three fields; a node line
  of integers read while the node set K1A is active, and one with the coordinate 0.5; a
  node line read while an element set is active; a node line read while a surface is
  active.
\<close>

theorem node_data_line_witness:
  "parse_line Some (init_state\<lparr>reading_nodes := True\<rparr>) ''  7, 0.5, 1.0, -2e3, 9 ''
       = Inr (init_state\<lparr>reading_nodes := True, nodes := [(7, ('' 0.5'', '' 1.0'', '' -2e3''))]\<rparr>)
   \<and> parse_line Some (init_state\<lparr>reading_nodes := True\<rparr> :: string parser_state) ''7, 0.5, 1.0''
       = Inr (init_state\<lparr>reading_nodes := True\<rparr>)
   \<and> parse_line Some (init_state\<lparr>reading_nodes := True, current_nset_name := Some ''K1A'', nsets := [(''K1A'', [7])]\<rparr>)
        ''4, 10, 20, 30''
       = Inr (init_state\<lparr>reading_nodes := True, current_nset_name := Some ''K1A'',
               nodes := [(4, ('' 10'', '' 20'', '' 30''))], nsets := [(''K1A'', [7, 4, 10, 20, 30])]\<rparr>)
   \<and> parse_line Some (init_state\<lparr>reading_nodes := True, current_nset_name := Some ''K1A'', nsets := [(''K1A'', [7])]\<rparr> :: string parser_state)
        ''4, 0.5, 20, 30''
       = Inl (ValueError_int ''0.5'')
   \<and> parse_line Some (init_state\<lparr>reading_nodes := True, current_elset_name := Some ''FLUID1'', elsets := [(''FLUID1'', [])]\<rparr>)
        ''4, 10, 20, 30''
       = Inr (init_state\<lparr>reading_nodes := True, current_elset_name := Some ''FLUID1'',
               nodes := [(4, ('' 10'', '' 20'', '' 30''))], elsets := [(''FLUID1'', [4, 10, 20, 30])]\<rparr>)
   \<and> parse_line Some (init_state\<lparr>reading_nodes := True, current_surf_name := Some ''A'', surfaces := [(''A'', [])]\<rparr> :: string parser_state)
        ''4, 10, 20, 30''
       = Inl (ValueError_unpack 4)"
proof -
  let ?s0 = "init_state\<lparr>reading_nodes := True\<rparr> :: string parser_state"
  let ?sn = "init_state\<lparr>reading_nodes := True, current_nset_name := Some ''K1A'', nsets := [(''K1A'', [7])]\<rparr> :: string parser_state"
  let ?se = "init_state\<lparr>reading_nodes := True, current_elset_name := Some ''FLUID1'', elsets := [(''FLUID1'', [])]\<rparr> :: string parser_state"
  let ?sf = "init_state\<lparr>reading_nodes := True, current_surf_name := Some ''A'', surfaces := [(''A'', [])]\<rparr> :: string parser_state"
  let ?P = "[''7'', '' 0.5'', '' 1.0'', '' -2e3'', '' 9'']"
  let ?Q = "[''4'', '' 10'', '' 20'', '' 30'']"
  let ?R = "[''4'', '' 0.5'', '' 20'', '' 30'']"
  have d1: "is_data_line ''  7, 0.5, 1.0, -2e3, 9 ''" and d2: "is_data_line ''7, 0.5, 1.0''"
    and d3: "is_data_line ''4, 10, 20, 30''" and d4: "is_data_line ''4, 0.5, 20, 30''"
    by code_simp+
  have r0: "reading_nodes ?s0" and rn: "reading_nodes ?sn" and re: "reading_nodes ?se" and rf: "reading_nodes ?sf"
    by simp_all
  have p1: "?P = split_on (CHR '','') (strip ''  7, 0.5, 1.0, -2e3, 9 '')"
    and p2: "[''7'', '' 0.5'', '' 1.0''] = split_on (CHR '','') (strip ''7, 0.5, 1.0'')"
    and p3: "?Q = split_on (CHR '','') (strip ''4, 10, 20, 30'')"
    and p4: "?R = split_on (CHR '','') (strip ''4, 0.5, 20, 30'')"
    by code_simp+
  have v1: "4 \<le> length ?P \<and> py_int (?P ! 0) = Some 7 \<and> Some (?P ! 1) = Some '' 0.5''
      \<and> Some (?P ! 2) = Some '' 1.0'' \<and> Some (?P ! 3) = Some '' -2e3''"
    and v3: "4 \<le> length ?Q \<and> py_int (?Q ! 0) = Some 4 \<and> Some (?Q ! 1) = Some '' 10''
      \<and> Some (?Q ! 2) = Some '' 20'' \<and> Some (?Q ! 3) = Some '' 30''"
    and v4: "4 \<le> length ?R \<and> py_int (?R ! 0) = Some 4 \<and> Some (?R ! 1) = Some '' 0.5''
      \<and> Some (?R ! 2) = Some '' 20'' \<and> Some (?R ! 3) = Some '' 30''"
    by code_simp+
  have off0: "current_nset_name ?s0 = None \<and> current_elset_name ?s0 = None \<and> current_surf_name ?s0 = None"
    by (simp add: init_state_def)
  have hn: "current_nset_name ?sn = Some ''K1A'' \<and> map_of (nsets ?sn) ''K1A'' = Some [7]
      \<and> current_elset_name ?sn = None \<and> current_surf_name ?sn = None"
    by (simp add: init_state_def)
  have he: "current_elset_name ?se = Some ''FLUID1'' \<and> map_of (elsets ?se) ''FLUID1'' = Some []
      \<and> current_nset_name ?se = None \<and> current_surf_name ?se = None"
    by (simp add: init_state_def)
  have hf: "current_surf_name ?sf \<noteq> None \<and> current_nset_name ?sf = None \<and> current_elset_name ?sf = None"
    by (simp add: init_state_def)
  have t3: "ints_of (id_tokens (strip ''4, 10, 20, 30'')) = Inr [4, 10, 20, 30]"
    and t4: "ints_of (id_tokens (strip ''4, 0.5, 20, 30'')) = Inl (ValueError_int ''0.5'')"
    by code_simp+
  note a = node_data_line [OF d1 r0 p1, where py_float = Some, THEN conjunct1, THEN mp, OF v1,
      THEN conjunct2, THEN conjunct2, THEN conjunct2, THEN conjunct1, THEN mp, OF off0]
  note b = node_data_line [OF d2 r0 p2, where py_float = Some, THEN conjunct2, THEN mp,
      THEN conjunct2, THEN conjunct1, THEN mp, OF _ off0]
  have b': "parse_line Some ?s0 ''7, 0.5, 1.0'' = Inr ?s0" by (rule b) simp
  note c = node_data_line [OF d3 rn p3, where py_float = Some, THEN conjunct1, THEN mp, OF v3,
      THEN conjunct2, THEN conjunct2, THEN conjunct2, THEN conjunct2, THEN conjunct1,
      THEN spec, THEN spec, THEN mp, OF hn]
  note d = node_data_line [OF d4 rn p4, where py_float = Some, THEN conjunct1, THEN mp, OF v4,
      THEN conjunct2, THEN conjunct2, THEN conjunct2, THEN conjunct2, THEN conjunct1,
      THEN spec, THEN spec, THEN mp, OF hn]
  note e = node_data_line [OF d3 re p3, where py_float = Some, THEN conjunct1, THEN mp, OF v3,
      THEN conjunct2, THEN conjunct2, THEN conjunct2, THEN conjunct2, THEN conjunct2, THEN conjunct1,
      THEN spec, THEN spec, THEN mp, OF he]
  note f = node_data_line [OF d3 rf p3, where py_float = Some, THEN conjunct1, THEN mp, OF v3,
      THEN conjunct2, THEN conjunct2, THEN conjunct2, THEN conjunct2, THEN conjunct2, THEN conjunct2,
      THEN conjunct2, THEN mp, OF hf]
  from a b' c d e f show ?thesis
    by (simp add: t3 t4 init_state_def)
qed

text \<open>
  A node line of four valid fields that records no node: after the directives *Surface,
  name=A and *Node, the line 1, 0.0, 0.0, 0.0 ends the parse with the unpacking error, and
  the conversion stops without a model. After *Nset, nset=K1A and *Node, the line
  1, 0.5, 0.0, 0.0 ends the parse with the conversion error of 0.5.
\<close>

theorem node_line_abort_counterexample:
  "is_data_line ''1, 0.0, 0.0, 0.0''
   \<and> split_on (CHR '','') (strip ''1, 0.0, 0.0, 0.0'') = [''1'', '' 0.0'', '' 0.0'', '' 0.0'']
   \<and> py_int ''1'' = Some 1
   \<and> parse_lines Some init_state [''*Surface, name=A'', ''*Node'']
       = Inr (init_state\<lparr>current_surf_name := Some ''A'', surfaces := [(''A'', [])], reading_nodes := True\<rparr> :: string parser_state)
   \<and> parse_inp Some [''*Surface, name=A'', ''*Node'', ''1, 0.0, 0.0, 0.0''] = Inl (ValueError_unpack 4)
   \<and> main Some (id :: string \<Rightarrow> string) [''*Surface, name=A'', ''*Node'', ''1, 0.0, 0.0, 0.0'']
       = (None, Some (ValueError_unpack 4))
   \<and> parse_inp Some [''*Nset, nset=K1A'', ''*Node'', ''1, 0.5, 0.0, 0.0''] = Inl (ValueError_int ''0.5'')"
  by code_simp

subsection \<open>Element lines\<close>

lemma ints_of_valid:
  "(\<And>x. x \<in> set xs \<Longrightarrow> py_int x \<noteq> None) \<Longrightarrow> ints_of xs = Inr (map (\<lambda>x. the (py_int x)) xs)"
proof (induction xs)
  case Nil
  show ?case by simp
next
  case (Cons a xs)
  from Cons.prems obtain i where i: "py_int a = Some i" by fastforce
  from Cons have "ints_of xs = Inr (map (\<lambda>x. the (py_int x)) xs)" by simp
  with i show ?case by simp
qed

lemma first_nine:
  assumes "9 \<le> length parts" and "\<forall>p \<in> set (take 9 parts). py_int p \<noteq> None"
  shows "py_int (parts ! 0) \<noteq> None" and "\<And>p. p \<in> set (take 8 (drop 1 parts)) \<Longrightarrow> py_int p \<noteq> None"
proof -
  from assms(1) have "0 < length (take 9 parts)" by simp
  then have "take 9 parts ! 0 \<in> set (take 9 parts)" by (rule nth_mem)
  then have "parts ! 0 \<in> set (take 9 parts)" by simp
  with assms(2) show "py_int (parts ! 0) \<noteq> None" by blast
next
  fix p assume "p \<in> set (take 8 (drop 1 parts))"
  moreover have "take 8 (drop 1 parts) = drop 1 (take 9 parts)" by (simp add: drop_take)
  ultimately have "p \<in> set (drop 1 (take 9 parts))" by simp
  then have "p \<in> set (take 9 parts)" by (rule in_set_dropD)
  with assms(2) show "py_int p \<noteq> None" by blast
qed

text \<open>
  Claim C2, for the parser of main_Convert.py. While the element section is being read,
  a data line that splits on commas into at least 9 fields, the first 9 of them integers,
  is recorded by the element branch as an element whose ID is the first field and whose
  connectivity is the 8 integers of fields 2 to 9; fields after the ninth are not looked
  at by that branch. Whenever the step of the line returns, the element dictionary of
  the new state is the old one with that element set. A line of fewer than 9 fields
  records no element and the element branch raises nothing: the branch leaves the state
  as it is, and if the step returns, the element dictionary is unchanged.

  Whether the step returns is decided by the named collection that is still active (an
  *Element directive leaves it active). With none active, the step returns, for a line of
  any number of fields. With a node set or an element set active, the whole line is read
  a second time as members of that set: the step returns exactly when every token of
  the line is an integer (also the tokens after the ninth field), and then the tokens
  are appended to the set; otherwise the conversion error of the first other token ends
  the parse, for a short line as for a long one. With a surface active, a line of 9
  fields or more always ends the parse with the unpacking error.

  The section flags exclude each other in every state the parser reaches (a directive
  clears both before it sets one), and the node branch comes first in the code, so the
  element branch is the one taken when the node flag is off.
\<close>

theorem element_data_line:
  assumes "is_data_line line" and "reading_elements s" and "\<not> reading_nodes s"
    and "parts = split_on (CHR '','') (strip line)"
    and "eid = the (py_int (parts ! 0))"
    and "conn = map (\<lambda>p. the (py_int p)) (take 8 (drop 1 parts))"
  shows "(9 \<le> length parts \<and> (\<forall>p \<in> set (take 9 parts). py_int p \<noteq> None) \<longrightarrow>
          section_line py_float s (strip line) = Inr (s\<lparr>elements := dict_set (elements s) eid conn\<rparr>)
          \<and> length conn = 8
          \<and> map_of (dict_set (elements s) eid conn) eid = Some conn
          \<and> (\<forall>s'. parse_line py_float s line = Inr s' \<longrightarrow> elements s' = dict_set (elements s) eid conn)
          \<and> (current_nset_name s = None \<and> current_elset_name s = None \<and> current_surf_name s = None \<longrightarrow>
                parse_line py_float s line = Inr (s\<lparr>elements := dict_set (elements s) eid conn\<rparr>))
          \<and> (\<forall>name members. current_nset_name s = Some name \<and> map_of (nsets s) name = Some members
                \<and> current_elset_name s = None \<and> current_surf_name s = None \<longrightarrow>
                parse_line py_float s line =
                  (case ints_of (id_tokens (strip line)) of
                     Inl e \<Rightarrow> Inl e
                   | Inr ids \<Rightarrow> Inr (s\<lparr>elements := dict_set (elements s) eid conn,
                                       nsets := dict_set (nsets s) name (members @ ids)\<rparr>)))
          \<and> (\<forall>name members. current_elset_name s = Some name \<and> map_of (elsets s) name = Some members
                \<and> current_nset_name s = None \<and> current_surf_name s = None \<longrightarrow>
                parse_line py_float s line =
                  (case ints_of (id_tokens (strip line)) of
                     Inl e \<Rightarrow> Inl e
                   | Inr ids \<Rightarrow> Inr (s\<lparr>elements := dict_set (elements s) eid conn,
                                       elsets := dict_set (elsets s) name (members @ ids)\<rparr>)))
          \<and> (current_surf_name s \<noteq> None \<longrightarrow> (\<exists>e. parse_line py_float s line = Inl e))
          \<and> (current_surf_name s \<noteq> None \<and> current_nset_name s = None \<and> current_elset_name s = None \<longrightarrow>
                parse_line py_float s line = Inl (ValueError_unpack (length parts))))
     \<and> (length parts < 9 \<longrightarrow>
          section_line py_float s (strip line) = Inr s
          \<and> (\<forall>s'. parse_line py_float s line = Inr s' \<longrightarrow> elements s' = elements s)
          \<and> (current_nset_name s = None \<and> current_elset_name s = None \<and> current_surf_name s = None \<longrightarrow>
                parse_line py_float s line = Inr s)
          \<and> (\<forall>name members. current_nset_name s = Some name \<and> map_of (nsets s) name = Some members
                \<and> current_elset_name s = None \<and> current_surf_name s = None \<longrightarrow>
                parse_line py_float s line =
                  (case ints_of (id_tokens (strip line)) of
                     Inl e \<Rightarrow> Inl e
                   | Inr ids \<Rightarrow> Inr (s\<lparr>nsets := dict_set (nsets s) name (members @ ids)\<rparr>)))
          \<and> (\<forall>name members. current_elset_name s = Some name \<and> map_of (elsets s) name = Some members
                \<and> current_nset_name s = None \<and> current_surf_name s = None \<longrightarrow>
                parse_line py_float s line =
                  (case ints_of (id_tokens (strip line)) of
                     Inl e \<Rightarrow> Inl e
                   | Inr ids \<Rightarrow> Inr (s\<lparr>elsets := dict_set (elsets s) name (members @ ids)\<rparr>))))"
proof (intro conjI impI allI)
  assume a: "9 \<le> length parts \<and> (\<forall>p \<in> set (take 9 parts). py_int p \<noteq> None)"
  let ?rec = "s\<lparr>elements := dict_set (elements s) eid conn\<rparr>"
  from a obtain i where i: "py_int (parts ! 0) = Some i"
    using first_nine(1) [of parts] by blast
  from a have "ints_of (take 8 (drop 1 parts)) = Inr (map (\<lambda>p. the (py_int p)) (take 8 (drop 1 parts)))"
    by (intro ints_of_valid first_nine(2)) simp_all
  with a i show rec: "section_line py_float s (strip line) = Inr ?rec"
    using assms(2-6) by (simp add: section_line_def element_line_def)
  from a have "9 \<le> length parts" by simp
  then show "length conn = 8" using assms(6) by simp
  show "map_of (dict_set (elements s) eid conn) eid = Some conn"
    by (simp add: map_of_dict_set)
  from a assms(4) have many: "length (split_on (CHR '','') (strip line)) \<noteq> 2" by simp
  {
    fix s'
    assume "parse_line py_float s line = Inr s'"
    then have "data_line py_float s (strip line) = Inr s'"
      by (simp add: parse_line_data [OF assms(1)])
    from data_line_keeps_section_dicts [OF this rec]
    show "elements s' = dict_set (elements s) eid conn" by simp
  }
  {
    assume "current_nset_name s = None \<and> current_elset_name s = None \<and> current_surf_name s = None"
    then show "parse_line py_float s line = Inr ?rec"
      using rec by (simp add: parse_line_data [OF assms(1)] data_line_no_collection)
  }
  {
    fix name members
    assume "current_nset_name s = Some name \<and> map_of (nsets s) name = Some members
                \<and> current_elset_name s = None \<and> current_surf_name s = None"
    then have "parse_line py_float s line =
       (case ints_of (id_tokens (strip line)) of
          Inl e \<Rightarrow> Inl e
        | Inr ids \<Rightarrow> Inr (?rec\<lparr>nsets := dict_set (nsets s) name (members @ ids)\<rparr>))"
      by (intro data_line_nset_active [OF assms(1) _ _ _ _ rec]) simp_all
    then show "parse_line py_float s line =
                  (case ints_of (id_tokens (strip line)) of
                     Inl e \<Rightarrow> Inl e
                   | Inr ids \<Rightarrow> Inr (s\<lparr>elements := dict_set (elements s) eid conn,
                                       nsets := dict_set (nsets s) name (members @ ids)\<rparr>))"
      by simp
  }
  {
    fix name members
    assume "current_elset_name s = Some name \<and> map_of (elsets s) name = Some members
                \<and> current_nset_name s = None \<and> current_surf_name s = None"
    then have "parse_line py_float s line =
       (case ints_of (id_tokens (strip line)) of
          Inl e \<Rightarrow> Inl e
        | Inr ids \<Rightarrow> Inr (?rec\<lparr>elsets := dict_set (elsets s) name (members @ ids)\<rparr>))"
      by (intro data_line_elset_active [OF assms(1) _ _ _ _ rec]) simp_all
    then show "parse_line py_float s line =
                  (case ints_of (id_tokens (strip line)) of
                     Inl e \<Rightarrow> Inl e
                   | Inr ids \<Rightarrow> Inr (s\<lparr>elements := dict_set (elements s) eid conn,
                                       elsets := dict_set (elsets s) name (members @ ids)\<rparr>))"
      by simp
  }
  {
    assume "current_surf_name s \<noteq> None"
    then show "\<exists>e. parse_line py_float s line = Inl e"
      using surface_active_many_fields [OF assms(1) _ many] by blast
  }
  assume u: "current_surf_name s \<noteq> None \<and> current_nset_name s = None \<and> current_elset_name s = None"
  then obtain name where "current_surf_name s = Some name" by blast
  from data_line_surface_active [OF assms(1) this _ _ rec many] u assms(4)
  show "parse_line py_float s line = Inl (ValueError_unpack (length parts))" by simp
next
  assume b: "length parts < 9"
  then show short: "section_line py_float s (strip line) = Inr s"
    using assms(2-4) by (simp add: section_line_def element_line_short)
  {
    fix s'
    assume "parse_line py_float s line = Inr s'"
    then have "data_line py_float s (strip line) = Inr s'"
      by (simp add: parse_line_data [OF assms(1)])
    from data_line_keeps_section_dicts [OF this short] show "elements s' = elements s" by simp
  }
  {
    assume "current_nset_name s = None \<and> current_elset_name s = None \<and> current_surf_name s = None"
    then show "parse_line py_float s line = Inr s"
      using short by (simp add: parse_line_data [OF assms(1)] data_line_no_collection)
  }
  {
    fix name members
    assume "current_nset_name s = Some name \<and> map_of (nsets s) name = Some members
                \<and> current_elset_name s = None \<and> current_surf_name s = None"
    then show "parse_line py_float s line =
                  (case ints_of (id_tokens (strip line)) of
                     Inl e \<Rightarrow> Inl e
                   | Inr ids \<Rightarrow> Inr (s\<lparr>nsets := dict_set (nsets s) name (members @ ids)\<rparr>))"
      by (intro data_line_nset_active [OF assms(1) _ _ _ _ short]) simp_all
  }
  fix name members
  assume "current_elset_name s = Some name \<and> map_of (elsets s) name = Some members
                \<and> current_nset_name s = None \<and> current_surf_name s = None"
  then show "parse_line py_float s line =
                  (case ints_of (id_tokens (strip line)) of
                     Inl e \<Rightarrow> Inl e
                   | Inr ids \<Rightarrow> Inr (s\<lparr>elsets := dict_set (elsets s) name (members @ ids)\<rparr>))"
    by (intro data_line_elset_active [OF assms(1) _ _ _ _ short]) simp_all
qed

text \<open>
  The theorem at work: a line of eleven fields, the last one not a number, with no
  collection active and with the node set K1A active; a line of nine fields with an
  element set active and with a surface active; a line of three fields with no collection
  active and with a node set active; the short line 1,2,x with an element set active.
\<close>

theorem element_data_line_witness:
  "parse_line Some (init_state\<lparr>reading_elements := True\<rparr>) '' 12, 101, 102, 103, 104, 105, 106, 107, 108, 99, x''
       = Inr (init_state\<lparr>reading_elements := True, elements := [(12, [101, 102, 103, 104, 105, 106, 107, 108])]\<rparr> :: string parser_state)
   \<and> parse_line Some (init_state\<lparr>reading_elements := True, current_nset_name := Some ''K1A'', nsets := [(''K1A'', [])]\<rparr> :: string parser_state)
        '' 12, 101, 102, 103, 104, 105, 106, 107, 108, 99, x''
       = Inl (ValueError_int ''x'')
   \<and> parse_line Some (init_state\<lparr>reading_elements := True, current_elset_name := Some ''FLUID1'', elsets := [(''FLUID1'', [])]\<rparr>)
        ''3, 101, 102, 103, 104, 105, 106, 107, 108''
       = Inr (init_state\<lparr>reading_elements := True, current_elset_name := Some ''FLUID1'',
               elements := [(3, [101, 102, 103, 104, 105, 106, 107, 108])],
               elsets := [(''FLUID1'', [3, 101, 102, 103, 104, 105, 106, 107, 108])]\<rparr> :: string parser_state)
   \<and> parse_line Some (init_state\<lparr>reading_elements := True, current_surf_name := Some ''A'', surfaces := [(''A'', [])]\<rparr> :: string parser_state)
        ''3, 101, 102, 103, 104, 105, 106, 107, 108''
       = Inl (ValueError_unpack 9)
   \<and> parse_line Some (init_state\<lparr>reading_elements := True\<rparr> :: string parser_state) ''5, 1, 2''
       = Inr (init_state\<lparr>reading_elements := True\<rparr>)
   \<and> parse_line Some (init_state\<lparr>reading_elements := True, current_nset_name := Some ''K1A'', nsets := [(''K1A'', [])]\<rparr>) ''5, 1, 2''
       = Inr (init_state\<lparr>reading_elements := True, current_nset_name := Some ''K1A'', nsets := [(''K1A'', [5, 1, 2])]\<rparr> :: string parser_state)
   \<and> parse_line Some (init_state\<lparr>reading_elements := True, current_elset_name := Some ''FLUID1'', elsets := [(''FLUID1'', [])]\<rparr> :: string parser_state)
        ''1,2,x''
       = Inl (ValueError_int ''x'')"
proof -
  let ?s0 = "init_state\<lparr>reading_elements := True\<rparr> :: string parser_state"
  let ?sn = "init_state\<lparr>reading_elements := True, current_nset_name := Some ''K1A'', nsets := [(''K1A'', [])]\<rparr> :: string parser_state"
  let ?se = "init_state\<lparr>reading_elements := True, current_elset_name := Some ''FLUID1'', elsets := [(''FLUID1'', [])]\<rparr> :: string parser_state"
  let ?sf = "init_state\<lparr>reading_elements := True, current_surf_name := Some ''A'', surfaces := [(''A'', [])]\<rparr> :: string parser_state"
  let ?P = "[''12'', '' 101'', '' 102'', '' 103'', '' 104'', '' 105'', '' 106'', '' 107'', '' 108'', '' 99'', '' x'']"
  let ?Q = "[''3'', '' 101'', '' 102'', '' 103'', '' 104'', '' 105'', '' 106'', '' 107'', '' 108'']"
  let ?S = "[''5'', '' 1'', '' 2'']"
  let ?X = "[''1'', ''2'', ''x'']"
  let ?c = "[101, 102, 103, 104, 105, 106, 107, 108] :: int list"
  have d1: "is_data_line '' 12, 101, 102, 103, 104, 105, 106, 107, 108, 99, x''"
    and d2: "is_data_line ''3, 101, 102, 103, 104, 105, 106, 107, 108''"
    and d3: "is_data_line ''5, 1, 2''" and d4: "is_data_line ''1,2,x''"
    by code_simp+
  have r0: "reading_elements ?s0" and rn: "reading_elements ?sn" and re: "reading_elements ?se"
    and rf: "reading_elements ?sf"
    and n0: "\<not> reading_nodes ?s0" and nn: "\<not> reading_nodes ?sn" and ne: "\<not> reading_nodes ?se"
    and nf: "\<not> reading_nodes ?sf"
    by (simp_all add: init_state_def)
  have p1: "?P = split_on (CHR '','') (strip '' 12, 101, 102, 103, 104, 105, 106, 107, 108, 99, x'')"
    and p2: "?Q = split_on (CHR '','') (strip ''3, 101, 102, 103, 104, 105, 106, 107, 108'')"
    and p3: "?S = split_on (CHR '','') (strip ''5, 1, 2'')"
    and p4: "?X = split_on (CHR '','') (strip ''1,2,x'')"
    by code_simp+
  have e1: "12 = the (py_int (?P ! 0))" and c1: "?c = map (\<lambda>p. the (py_int p)) (take 8 (drop 1 ?P))"
    and e2: "3 = the (py_int (?Q ! 0))" and c2: "?c = map (\<lambda>p. the (py_int p)) (take 8 (drop 1 ?Q))"
    by code_simp+
  have v1: "9 \<le> length ?P \<and> (\<forall>p \<in> set (take 9 ?P). py_int p \<noteq> None)"
    and v2: "9 \<le> length ?Q \<and> (\<forall>p \<in> set (take 9 ?Q). py_int p \<noteq> None)"
    by code_simp+
  have l3: "length ?S < 9" and l4: "length ?X < 9" by simp_all
  have off0: "current_nset_name ?s0 = None \<and> current_elset_name ?s0 = None \<and> current_surf_name ?s0 = None"
    by (simp add: init_state_def)
  have hn: "current_nset_name ?sn = Some ''K1A'' \<and> map_of (nsets ?sn) ''K1A'' = Some []
      \<and> current_elset_name ?sn = None \<and> current_surf_name ?sn = None"
    by (simp add: init_state_def)
  have he: "current_elset_name ?se = Some ''FLUID1'' \<and> map_of (elsets ?se) ''FLUID1'' = Some []
      \<and> current_nset_name ?se = None \<and> current_surf_name ?se = None"
    by (simp add: init_state_def)
  have hf: "current_surf_name ?sf \<noteq> None \<and> current_nset_name ?sf = None \<and> current_elset_name ?sf = None"
    by (simp add: init_state_def)
  have t1: "ints_of (id_tokens (strip '' 12, 101, 102, 103, 104, 105, 106, 107, 108, 99, x'')) = Inl (ValueError_int ''x'')"
    and t2: "ints_of (id_tokens (strip ''3, 101, 102, 103, 104, 105, 106, 107, 108''))
        = Inr [3, 101, 102, 103, 104, 105, 106, 107, 108]"
    and t3: "ints_of (id_tokens (strip ''5, 1, 2'')) = Inr [5, 1, 2]"
    and t4: "ints_of (id_tokens (strip ''1,2,x'')) = Inl (ValueError_int ''x'')"
    by code_simp+
  note big0 = element_data_line [OF d1 r0 n0 p1 e1 c1, where py_float = Some, THEN conjunct1, THEN mp, OF v1]
  note a = big0 [THEN conjunct2, THEN conjunct2, THEN conjunct2, THEN conjunct2, THEN conjunct1, THEN mp, OF off0]
  note bign = element_data_line [OF d1 rn nn p1 e1 c1, where py_float = Some, THEN conjunct1, THEN mp, OF v1]
  note b = bign [THEN conjunct2, THEN conjunct2, THEN conjunct2, THEN conjunct2, THEN conjunct2, THEN conjunct1,
      THEN spec, THEN spec, THEN mp, OF hn]
  note bige = element_data_line [OF d2 re ne p2 e2 c2, where py_float = Some, THEN conjunct1, THEN mp, OF v2]
  note c = bige [THEN conjunct2, THEN conjunct2, THEN conjunct2, THEN conjunct2, THEN conjunct2, THEN conjunct2,
      THEN conjunct1, THEN spec, THEN spec, THEN mp, OF he]
  note bigf = element_data_line [OF d2 rf nf p2 e2 c2, where py_float = Some, THEN conjunct1, THEN mp, OF v2]
  note d = bigf [THEN conjunct2, THEN conjunct2, THEN conjunct2, THEN conjunct2, THEN conjunct2, THEN conjunct2,
      THEN conjunct2, THEN conjunct2, THEN mp, OF hf]
  note small0 = element_data_line [OF d3 r0 n0 p3 refl refl, where py_float = Some, THEN conjunct2, THEN mp, OF l3]
  note e = small0 [THEN conjunct2, THEN conjunct2, THEN conjunct1, THEN mp, OF off0]
  note smalln = element_data_line [OF d3 rn nn p3 refl refl, where py_float = Some, THEN conjunct2, THEN mp, OF l3]
  note f = smalln [THEN conjunct2, THEN conjunct2, THEN conjunct2, THEN conjunct1, THEN spec, THEN spec, THEN mp, OF hn]
  note smalle = element_data_line [OF d4 re ne p4 refl refl, where py_float = Some, THEN conjunct2, THEN mp, OF l4]
  note g = smalle [THEN conjunct2, THEN conjunct2, THEN conjunct2, THEN conjunct2, THEN spec, THEN spec, THEN mp, OF he]
  from a b c d e f g show ?thesis
    by (simp add: t1 t2 t3 t4 init_state_def)
qed

text \<open>
  An element line of nine integers that records no element: after the directives
  *Surface, name=A and *Element, the line ends the parse with the unpacking error, and the
  conversion stops without a model. A line of fewer than 9 fields that raises an error:
  after *Elset, elset=FLUID1 and *Element, type=C3D8R, the line 1,2,x ends the parse with
  the conversion error of x.
\<close>

theorem element_line_abort_counterexample:
  "is_data_line ''1,11,12,13,14,15,16,17,18''
   \<and> ints_of (split_on (CHR '','') (strip ''1,11,12,13,14,15,16,17,18'')) = Inr [1, 11, 12, 13, 14, 15, 16, 17, 18]
   \<and> parse_lines Some init_state [''*Surface, name=A'', ''*Element'']
       = Inr (init_state\<lparr>current_surf_name := Some ''A'', surfaces := [(''A'', [])], reading_elements := True\<rparr> :: string parser_state)
   \<and> parse_inp Some [''*Surface, name=A'', ''*Element'', ''1,11,12,13,14,15,16,17,18''] = Inl (ValueError_unpack 9)
   \<and> main Some (id :: string \<Rightarrow> string) [''*Surface, name=A'', ''*Element'', ''1,11,12,13,14,15,16,17,18'']
       = (None, Some (ValueError_unpack 9))
   \<and> is_data_line ''1,2,x''
   \<and> length (split_on (CHR '','') (strip ''1,2,x'')) = 3
   \<and> parse_inp Some [''*Elset, elset=FLUID1'', ''*Element, type=C3D8R'', ''1,2,x''] = Inl (ValueError_int ''x'')"
  by code_simp

text \<open>
  The draft parser of Untitled-1.py has another element branch: it tests for more than
  one field and takes every field after the first, so a line of three fields is recorded
  with a connectivity of 2 nodes and a line of eleven fields with one of 10. Its own
  description of the result (8 nodes per element) and the parser of main_Convert.py say
  otherwise; the script cannot run as it is (its main calls a writer it does not define).
\<close>

lemma draft_element_line_example:
  "length (split_on (CHR '','') (strip ''5, 1, 2'')) = 3
   \<and> draft_parse_lines Some init_state [''*Element, type=C3D8R'', ''5, 1, 2'']
       = Inr (init_state\<lparr>reading_elements := True, elements := [(5, [1, 2])]\<rparr> :: string parser_state)
   \<and> draft_parse_lines Some init_state [''*Element, type=C3D8R'', ''6, 1, 2, 3, 4, 5, 6, 7, 8, 9, 10'']
       = Inr (init_state\<lparr>reading_elements := True, elements := [(6, [1, 2, 3, 4, 5, 6, 7, 8, 9, 10])]\<rparr> :: string parser_state)"
  by code_simp

end
